theory Spec2Isabelle
  imports Main
begin

text \<open>
  The repository relays WhatsApp messages between Twilio and a generative model. The
  theory models its three webhook applications (\<^verbatim>\<open>agent.py\<close>, \<^verbatim>\<open>whatsapp_app.py\<close> and
  \<^verbatim>\<open>agents/master_agent.py\<close>), the host pipeline of \<^verbatim>\<open>main.py\<close> and the stitching
  sub-agent. A handler is a function from the request and the environment to the calls
  it makes and the reply it returns. The environment is a record of functions, one for
  each outside service (the Twilio client, HTTP downloads, the model, the session
  service, the runner, the image and audio libraries): what the service returns for a
  call, or the exception it raises. Functions keep the names of the source, without the
  leading underscore of private methods; where \<^verbatim>\<open>whatsapp_app.py\<close> and \<^verbatim>\<open>agent.py\<close> use
  the same name, the one of \<^verbatim>\<open>whatsapp_app.py\<close> ends in \<open>_v3\<close>. Logging is left out.
  Where the interpreter decides what the code does (case mapping, decimal digits,
  \<^verbatim>\<open>int\<close>, the texts of its exceptions), the theory follows CPython 3.11.
\<close>

section \<open>Python strings\<close>

text \<open>
  A Python \<^verbatim>\<open>str\<close> is a sequence of Unicode code points, and \<^verbatim>\<open>len\<close>, slicing,
  \<^verbatim>\<open>startswith\<close> and \<^verbatim>\<open>replace\<close> work on code points. A string is therefore a list of
  code points (natural numbers); \<open>U\<close> turns an ASCII literal into one. The files
  \<^verbatim>\<open>agent.py\<close> and \<^verbatim>\<open>whatsapp_app.py\<close> store their emoji literals as mis-decoded text
  (several code points each); the literals are taken as they stand in the files.
\<close>

type_synonym codepoint = nat
type_synonym pystr = "codepoint list"

definition U :: "string \<Rightarrow> pystr" where
  "U s = map of_char s"

definition startswith :: "pystr \<Rightarrow> pystr \<Rightarrow> bool" where
  "startswith s p = (take (length p) s = p)"

text \<open>\<^verbatim>\<open>sub in s\<close>: \<open>sub\<close> occurs in \<open>s\<close> as a contiguous run.\<close>

fun contains :: "pystr \<Rightarrow> pystr \<Rightarrow> bool" where
  "contains [] sub = (sub = [])"
| "contains (c # s) sub = (startswith (c # s) sub \<or> contains s sub)"

text \<open>
  \<^verbatim>\<open>s.replace(old, new)\<close>: every non-overlapping occurrence of \<open>old\<close>, found from the
  left, is replaced; the scan goes on behind the occurrence. With an empty \<open>old\<close> Python
  puts \<open>new\<close> before every code point and at the end.
\<close>

function replace :: "pystr \<Rightarrow> pystr \<Rightarrow> pystr \<Rightarrow> pystr" where
  "replace s old new =
     (if old = [] then new @ concat (map (\<lambda>c. c # new) s)
      else if s = [] then []
      else if startswith s old then new @ replace (drop (length old) s) old new
      else hd s # replace (tl s) old new)"
  by pat_completeness auto
termination
  by (relation "measure (\<lambda>(s, old, new). length s)") auto

declare replace.simps [simp del]

subsection \<open>Whitespace and truth\<close>

text \<open>Truth of an optional string, as \<^verbatim>\<open>if x:\<close> reads it: neither \<open>None\<close> nor empty.\<close>

fun truthy :: "pystr option \<Rightarrow> bool" where
  "truthy None = False"
| "truthy (Some s) = (s \<noteq> [])"

text \<open>
  \<^verbatim>\<open>str.isspace\<close> on one code point, which is also what \<^verbatim>\<open>str.strip()\<close> removes and
  what \<^verbatim>\<open>\s\<close> matches in a \<^verbatim>\<open>str\<close> pattern.
\<close>

definition is_space :: "codepoint \<Rightarrow> bool" where
  "is_space c =
     ((9 \<le> c \<and> c \<le> 13) \<or> (28 \<le> c \<and> c \<le> 32) \<or> c = 133 \<or> c = 160 \<or> c = 5760
      \<or> (8192 \<le> c \<and> c \<le> 8202) \<or> c = 8232 \<or> c = 8233 \<or> c = 8239 \<or> c = 8287
      \<or> c = 12288)"

definition strip :: "pystr \<Rightarrow> pystr" where
  "strip s = rev (dropWhile is_space (rev (dropWhile is_space s)))"


text \<open>\<^verbatim>\<open>sep.join(items)\<close>\<close>

fun join :: "pystr \<Rightarrow> pystr list \<Rightarrow> pystr" where
  "join sep [] = []"
| "join sep [x] = x"
| "join sep (x # y # xs) = x @ sep @ join sep (y # xs)"

text \<open>\<^verbatim>\<open>str(n)\<close> of an integer: its decimal digits, after a minus sign when negative.\<close>

function digits_of :: "nat \<Rightarrow> pystr" where
  "digits_of n = (if n < 10 then [48 + n] else digits_of (n div 10) @ [48 + n mod 10])"
  by pat_completeness auto
termination
  by (relation "measure id") auto

declare digits_of.simps [simp del]

definition str_int :: "int \<Rightarrow> pystr" where
  "str_int i = (if i < 0 then 45 # digits_of (nat (- i)) else digits_of (nat i))"

text \<open>\<^verbatim>\<open>s.find(sub)\<close>: the index of the first occurrence, \<open>None\<close> for Python's -1.\<close>

fun find_index :: "pystr \<Rightarrow> pystr \<Rightarrow> nat option" where
  "find_index [] sub = (if sub = [] then Some 0 else None)"
| "find_index (c # s) sub =
     (if startswith (c # s) sub then Some 0 else map_option Suc (find_index s sub))"

section \<open>The character database\<close>

text \<open>
  Case mapping, \<^verbatim>\<open>\d\<close> and \<^verbatim>\<open>int\<close> read the character database of the interpreter.
  The tables below are those of CPython 3.11 (Unicode 14.0.0), kept as sorted lists of
  ranges of code points; a lookup stops at the first range that begins behind the code
  point.
\<close>

fun in_ranges :: "(codepoint \<times> codepoint) list \<Rightarrow> codepoint \<Rightarrow> bool" where
  "in_ranges [] c = False"
| "in_ranges ((lo, hi) # ranges) c =
     (if c < lo then False else if c \<le> hi then True else in_ranges ranges c)"

subsection \<open>Decimal digits\<close>

text \<open>
  The code points with a decimal value (category Nd), which are what \<^verbatim>\<open>\d\<close> matches in
  a \<^verbatim>\<open>str\<close> pattern and what \<^verbatim>\<open>int\<close> reads as digits. Every range is a run of the
  digits 0 to 9 in order, once or several times.
\<close>

definition decimal_ranges :: "(codepoint \<times> codepoint) list" where
  "decimal_ranges =
     [(48, 57), (1632, 1641), (1776, 1785), (1984, 1993), (2406, 2415), (2534, 2543),
      (2662, 2671), (2790, 2799), (2918, 2927), (3046, 3055), (3174, 3183), (3302, 3311),
      (3430, 3439), (3558, 3567), (3664, 3673), (3792, 3801), (3872, 3881), (4160, 4169),
      (4240, 4249), (6112, 6121), (6160, 6169), (6470, 6479), (6608, 6617), (6784, 6793),
      (6800, 6809), (6992, 7001), (7088, 7097), (7232, 7241), (7248, 7257), (42528, 42537),
      (43216, 43225), (43264, 43273), (43472, 43481), (43504, 43513), (43600, 43609),
      (44016, 44025), (65296, 65305), (66720, 66729), (68912, 68921), (69734, 69743),
      (69872, 69881), (69942, 69951), (70096, 70105), (70384, 70393), (70736, 70745),
      (70864, 70873), (71248, 71257), (71360, 71369), (71472, 71481), (71904, 71913),
      (72016, 72025), (72784, 72793), (73040, 73049), (73120, 73129), (92768, 92777),
      (92864, 92873), (93008, 93017), (120782, 120831), (123200, 123209), (123632, 123641),
      (125264, 125273), (130032, 130041)]"

fun decimal_in :: "(codepoint \<times> codepoint) list \<Rightarrow> codepoint \<Rightarrow> nat option" where
  "decimal_in [] c = None"
| "decimal_in ((lo, hi) # ranges) c =
     (if c < lo then None else if c \<le> hi then Some ((c - lo) mod 10)
      else decimal_in ranges c)"

definition decimal_value :: "codepoint \<Rightarrow> nat option" where
  "decimal_value c = decimal_in decimal_ranges c"

definition is_decimal :: "codepoint \<Rightarrow> bool" where
  "is_decimal c = (decimal_value c \<noteq> None)"

subsection \<open>Case\<close>

text \<open>
  The properties Cased and Case_Ignorable, and the full case mappings: a code point
  maps to the code points of a special entry, or is shifted as its range tells, or
  stays. A range \<open>(lo, hi, step, target)\<close> holds every \<open>step\<close>-th code point from \<open>lo\<close> to
  \<open>hi\<close> and maps \<open>lo\<close> to \<open>target\<close>, keeping distances.
\<close>

definition cased_ranges :: "(codepoint \<times> codepoint) list" where
  "cased_ranges =
     [(65, 90), (97, 122), (170, 170), (181, 181), (186, 186), (192, 214), (216, 246), (248, 442),
      (444, 447), (452, 659), (661, 696), (704, 705), (736, 740), (837, 837), (880, 883),
      (886, 887), (890, 893), (895, 895), (902, 902), (904, 906), (908, 908), (910, 929),
      (931, 1013), (1015, 1153), (1162, 1327), (1329, 1366), (1376, 1416), (4256, 4293),
      (4295, 4295), (4301, 4301), (4304, 4346), (4349, 4351), (5024, 5109), (5112, 5117),
      (7296, 7304), (7312, 7354), (7357, 7359), (7424, 7615), (7680, 7957), (7960, 7965),
      (7968, 8005), (8008, 8013), (8016, 8023), (8025, 8025), (8027, 8027), (8029, 8029),
      (8031, 8061), (8064, 8116), (8118, 8124), (8126, 8126), (8130, 8132), (8134, 8140),
      (8144, 8147), (8150, 8155), (8160, 8172), (8178, 8180), (8182, 8188), (8305, 8305),
      (8319, 8319), (8336, 8348), (8450, 8450), (8455, 8455), (8458, 8467), (8469, 8469),
      (8473, 8477), (8484, 8484), (8486, 8486), (8488, 8488), (8490, 8493), (8495, 8500),
      (8505, 8505), (8508, 8511), (8517, 8521), (8526, 8526), (8544, 8575), (8579, 8580),
      (9398, 9449), (11264, 11492), (11499, 11502), (11506, 11507), (11520, 11557),
      (11559, 11559), (11565, 11565), (42560, 42605), (42624, 42653), (42786, 42887),
      (42891, 42894), (42896, 42954), (42960, 42961), (42963, 42963), (42965, 42969),
      (42997, 42998), (43000, 43002), (43824, 43866), (43868, 43880), (43888, 43967),
      (64256, 64262), (64275, 64279), (65313, 65338), (65345, 65370), (66560, 66639),
      (66736, 66771), (66776, 66811), (66928, 66938), (66940, 66954), (66956, 66962),
      (66964, 66965), (66967, 66977), (66979, 66993), (66995, 67001), (67003, 67004),
      (67456, 67456), (67459, 67461), (67463, 67504), (67506, 67514), (68736, 68786),
      (68800, 68850), (71840, 71903), (93760, 93823), (119808, 119892), (119894, 119964),
      (119966, 119967), (119970, 119970), (119973, 119974), (119977, 119980), (119982, 119993),
      (119995, 119995), (119997, 120003), (120005, 120069), (120071, 120074), (120077, 120084),
      (120086, 120092), (120094, 120121), (120123, 120126), (120128, 120132), (120134, 120134),
      (120138, 120144), (120146, 120485), (120488, 120512), (120514, 120538), (120540, 120570),
      (120572, 120596), (120598, 120628), (120630, 120654), (120656, 120686), (120688, 120712),
      (120714, 120744), (120746, 120770), (120772, 120779), (122624, 122633), (122635, 122654),
      (125184, 125251), (127280, 127305), (127312, 127337), (127344, 127369)]"

definition case_ignorable_ranges :: "(codepoint \<times> codepoint) list" where
  "case_ignorable_ranges =
     [(39, 39), (46, 46), (58, 58), (94, 94), (96, 96), (168, 168), (173, 173), (175, 175),
      (180, 180), (183, 184), (688, 879), (884, 885), (890, 890), (900, 901), (903, 903),
      (1155, 1161), (1369, 1369), (1375, 1375), (1425, 1469), (1471, 1471), (1473, 1474),
      (1476, 1477), (1479, 1479), (1524, 1524), (1536, 1541), (1552, 1562), (1564, 1564),
      (1600, 1600), (1611, 1631), (1648, 1648), (1750, 1757), (1759, 1768), (1770, 1773),
      (1807, 1807), (1809, 1809), (1840, 1866), (1958, 1968), (2027, 2037), (2042, 2042),
      (2045, 2045), (2070, 2093), (2137, 2139), (2184, 2184), (2192, 2193), (2200, 2207),
      (2249, 2306), (2362, 2362), (2364, 2364), (2369, 2376), (2381, 2381), (2385, 2391),
      (2402, 2403), (2417, 2417), (2433, 2433), (2492, 2492), (2497, 2500), (2509, 2509),
      (2530, 2531), (2558, 2558), (2561, 2562), (2620, 2620), (2625, 2626), (2631, 2632),
      (2635, 2637), (2641, 2641), (2672, 2673), (2677, 2677), (2689, 2690), (2748, 2748),
      (2753, 2757), (2759, 2760), (2765, 2765), (2786, 2787), (2810, 2815), (2817, 2817),
      (2876, 2876), (2879, 2879), (2881, 2884), (2893, 2893), (2901, 2902), (2914, 2915),
      (2946, 2946), (3008, 3008), (3021, 3021), (3072, 3072), (3076, 3076), (3132, 3132),
      (3134, 3136), (3142, 3144), (3146, 3149), (3157, 3158), (3170, 3171), (3201, 3201),
      (3260, 3260), (3263, 3263), (3270, 3270), (3276, 3277), (3298, 3299), (3328, 3329),
      (3387, 3388), (3393, 3396), (3405, 3405), (3426, 3427), (3457, 3457), (3530, 3530),
      (3538, 3540), (3542, 3542), (3633, 3633), (3636, 3642), (3654, 3662), (3761, 3761),
      (3764, 3772), (3782, 3782), (3784, 3789), (3864, 3865), (3893, 3893), (3895, 3895),
      (3897, 3897), (3953, 3966), (3968, 3972), (3974, 3975), (3981, 3991), (3993, 4028),
      (4038, 4038), (4141, 4144), (4146, 4151), (4153, 4154), (4157, 4158), (4184, 4185),
      (4190, 4192), (4209, 4212), (4226, 4226), (4229, 4230), (4237, 4237), (4253, 4253),
      (4348, 4348), (4957, 4959), (5906, 5908), (5938, 5939), (5970, 5971), (6002, 6003),
      (6068, 6069), (6071, 6077), (6086, 6086), (6089, 6099), (6103, 6103), (6109, 6109),
      (6155, 6159), (6211, 6211), (6277, 6278), (6313, 6313), (6432, 6434), (6439, 6440),
      (6450, 6450), (6457, 6459), (6679, 6680), (6683, 6683), (6742, 6742), (6744, 6750),
      (6752, 6752), (6754, 6754), (6757, 6764), (6771, 6780), (6783, 6783), (6823, 6823),
      (6832, 6862), (6912, 6915), (6964, 6964), (6966, 6970), (6972, 6972), (6978, 6978),
      (7019, 7027), (7040, 7041), (7074, 7077), (7080, 7081), (7083, 7085), (7142, 7142),
      (7144, 7145), (7149, 7149), (7151, 7153), (7212, 7219), (7222, 7223), (7288, 7293),
      (7376, 7378), (7380, 7392), (7394, 7400), (7405, 7405), (7412, 7412), (7416, 7417),
      (7468, 7530), (7544, 7544), (7579, 7679), (8125, 8125), (8127, 8129), (8141, 8143),
      (8157, 8159), (8173, 8175), (8189, 8190), (8203, 8207), (8216, 8217), (8228, 8228),
      (8231, 8231), (8234, 8238), (8288, 8292), (8294, 8303), (8305, 8305), (8319, 8319),
      (8336, 8348), (8400, 8432), (11388, 11389), (11503, 11505), (11631, 11631), (11647, 11647),
      (11744, 11775), (11823, 11823), (12293, 12293), (12330, 12333), (12337, 12341),
      (12347, 12347), (12441, 12446), (12540, 12542), (40981, 40981), (42232, 42237),
      (42508, 42508), (42607, 42610), (42612, 42621), (42623, 42623), (42652, 42655),
      (42736, 42737), (42752, 42785), (42864, 42864), (42888, 42890), (42994, 42996),
      (43000, 43001), (43010, 43010), (43014, 43014), (43019, 43019), (43045, 43046),
      (43052, 43052), (43204, 43205), (43232, 43249), (43263, 43263), (43302, 43309),
      (43335, 43345), (43392, 43394), (43443, 43443), (43446, 43449), (43452, 43453),
      (43471, 43471), (43493, 43494), (43561, 43566), (43569, 43570), (43573, 43574),
      (43587, 43587), (43596, 43596), (43632, 43632), (43644, 43644), (43696, 43696),
      (43698, 43700), (43703, 43704), (43710, 43711), (43713, 43713), (43741, 43741),
      (43756, 43757), (43763, 43764), (43766, 43766), (43867, 43871), (43881, 43883),
      (44005, 44005), (44008, 44008), (44013, 44013), (64286, 64286), (64434, 64450),
      (65024, 65039), (65043, 65043), (65056, 65071), (65106, 65106), (65109, 65109),
      (65279, 65279), (65287, 65287), (65294, 65294), (65306, 65306), (65342, 65342),
      (65344, 65344), (65392, 65392), (65438, 65439), (65507, 65507), (65529, 65531),
      (66045, 66045), (66272, 66272), (66422, 66426), (67456, 67461), (67463, 67504),
      (67506, 67514), (68097, 68099), (68101, 68102), (68108, 68111), (68152, 68154),
      (68159, 68159), (68325, 68326), (68900, 68903), (69291, 69292), (69446, 69456),
      (69506, 69509), (69633, 69633), (69688, 69702), (69744, 69744), (69747, 69748),
      (69759, 69761), (69811, 69814), (69817, 69818), (69821, 69821), (69826, 69826),
      (69837, 69837), (69888, 69890), (69927, 69931), (69933, 69940), (70003, 70003),
      (70016, 70017), (70070, 70078), (70089, 70092), (70095, 70095), (70191, 70193),
      (70196, 70196), (70198, 70199), (70206, 70206), (70367, 70367), (70371, 70378),
      (70400, 70401), (70459, 70460), (70464, 70464), (70502, 70508), (70512, 70516),
      (70712, 70719), (70722, 70724), (70726, 70726), (70750, 70750), (70835, 70840),
      (70842, 70842), (70847, 70848), (70850, 70851), (71090, 71093), (71100, 71101),
      (71103, 71104), (71132, 71133), (71219, 71226), (71229, 71229), (71231, 71232),
      (71339, 71339), (71341, 71341), (71344, 71349), (71351, 71351), (71453, 71455),
      (71458, 71461), (71463, 71467), (71727, 71735), (71737, 71738), (71995, 71996),
      (71998, 71998), (72003, 72003), (72148, 72151), (72154, 72155), (72160, 72160),
      (72193, 72202), (72243, 72248), (72251, 72254), (72263, 72263), (72273, 72278),
      (72281, 72283), (72330, 72342), (72344, 72345), (72752, 72758), (72760, 72765),
      (72767, 72767), (72850, 72871), (72874, 72880), (72882, 72883), (72885, 72886),
      (73009, 73014), (73018, 73018), (73020, 73021), (73023, 73029), (73031, 73031),
      (73104, 73105), (73109, 73109), (73111, 73111), (73459, 73460), (78896, 78904),
      (92912, 92916), (92976, 92982), (92992, 92995), (94031, 94031), (94095, 94111),
      (94176, 94177), (94179, 94180), (110576, 110579), (110581, 110587), (110589, 110590),
      (113821, 113822), (113824, 113827), (118528, 118573), (118576, 118598), (119143, 119145),
      (119155, 119170), (119173, 119179), (119210, 119213), (119362, 119364), (121344, 121398),
      (121403, 121452), (121461, 121461), (121476, 121476), (121499, 121503), (121505, 121519),
      (122880, 122886), (122888, 122904), (122907, 122913), (122915, 122916), (122918, 122922),
      (123184, 123197), (123566, 123566), (123628, 123631), (125136, 125142), (125252, 125259),
      (127995, 127999), (917505, 917505), (917536, 917631), (917760, 917999)]"

definition is_cased :: "codepoint \<Rightarrow> bool" where
  "is_cased c = in_ranges cased_ranges c"

definition is_case_ignorable :: "codepoint \<Rightarrow> bool" where
  "is_case_ignorable c = in_ranges case_ignorable_ranges c"

type_synonym case_range = "codepoint \<times> codepoint \<times> nat \<times> codepoint"

fun shifted :: "case_range list \<Rightarrow> codepoint \<Rightarrow> codepoint option" where
  "shifted [] c = None"
| "shifted ((lo, hi, step, target) # ranges) c =
     (if c < lo then None
      else if c \<le> hi \<and> (c - lo) mod step = 0 then Some (target + (c - lo))
      else shifted ranges c)"

fun special_case :: "(codepoint \<times> pystr) list \<Rightarrow> codepoint \<Rightarrow> pystr option" where
  "special_case [] c = None"
| "special_case ((k, v) # entries) c =
     (if c < k then None else if c = k then Some v else special_case entries c)"

definition full_case :: "(codepoint \<times> pystr) list \<Rightarrow> case_range list \<Rightarrow> codepoint \<Rightarrow> pystr" where
  "full_case entries ranges c =
     (case special_case entries c of
        Some v \<Rightarrow> v
      | None \<Rightarrow> (case shifted ranges c of Some t \<Rightarrow> [t] | None \<Rightarrow> [c]))"

definition lower_special :: "(codepoint \<times> pystr) list" where
  "lower_special =
     [(304, [105, 775])]"

definition lower_ranges :: "case_range list" where
  "lower_ranges =
     [(65, 90, 1, 97), (192, 214, 1, 224), (216, 222, 1, 248), (256, 302, 2, 257),
      (306, 310, 2, 307), (313, 327, 2, 314), (330, 374, 2, 331), (376, 376, 1, 255),
      (377, 381, 2, 378), (385, 385, 1, 595), (386, 388, 2, 387), (390, 390, 1, 596),
      (391, 391, 1, 392), (393, 394, 1, 598), (395, 395, 1, 396), (398, 398, 1, 477),
      (399, 399, 1, 601), (400, 400, 1, 603), (401, 401, 1, 402), (403, 403, 1, 608),
      (404, 404, 1, 611), (406, 406, 1, 617), (407, 407, 1, 616), (408, 408, 1, 409),
      (412, 412, 1, 623), (413, 413, 1, 626), (415, 415, 1, 629), (416, 420, 2, 417),
      (422, 422, 1, 640), (423, 423, 1, 424), (425, 425, 1, 643), (428, 428, 1, 429),
      (430, 430, 1, 648), (431, 431, 1, 432), (433, 434, 1, 650), (435, 437, 2, 436),
      (439, 439, 1, 658), (440, 440, 1, 441), (444, 444, 1, 445), (452, 452, 1, 454),
      (453, 453, 1, 454), (455, 455, 1, 457), (456, 456, 1, 457), (458, 458, 1, 460),
      (459, 475, 2, 460), (478, 494, 2, 479), (497, 497, 1, 499), (498, 500, 2, 499),
      (502, 502, 1, 405), (503, 503, 1, 447), (504, 542, 2, 505), (544, 544, 1, 414),
      (546, 562, 2, 547), (570, 570, 1, 11365), (571, 571, 1, 572), (573, 573, 1, 410),
      (574, 574, 1, 11366), (577, 577, 1, 578), (579, 579, 1, 384), (580, 580, 1, 649),
      (581, 581, 1, 652), (582, 590, 2, 583), (880, 882, 2, 881), (886, 886, 1, 887),
      (895, 895, 1, 1011), (902, 902, 1, 940), (904, 906, 1, 941), (908, 908, 1, 972),
      (910, 911, 1, 973), (913, 929, 1, 945), (931, 939, 1, 963), (975, 975, 1, 983),
      (984, 1006, 2, 985), (1012, 1012, 1, 952), (1015, 1015, 1, 1016), (1017, 1017, 1, 1010),
      (1018, 1018, 1, 1019), (1021, 1023, 1, 891), (1024, 1039, 1, 1104), (1040, 1071, 1, 1072),
      (1120, 1152, 2, 1121), (1162, 1214, 2, 1163), (1216, 1216, 1, 1231), (1217, 1229, 2, 1218),
      (1232, 1326, 2, 1233), (1329, 1366, 1, 1377), (4256, 4293, 1, 11520),
      (4295, 4295, 1, 11559), (4301, 4301, 1, 11565), (5024, 5103, 1, 43888),
      (5104, 5109, 1, 5112), (7312, 7354, 1, 4304), (7357, 7359, 1, 4349), (7680, 7828, 2, 7681),
      (7838, 7838, 1, 223), (7840, 7934, 2, 7841), (7944, 7951, 1, 7936), (7960, 7965, 1, 7952),
      (7976, 7983, 1, 7968), (7992, 7999, 1, 7984), (8008, 8013, 1, 8000), (8025, 8031, 2, 8017),
      (8040, 8047, 1, 8032), (8072, 8079, 1, 8064), (8088, 8095, 1, 8080), (8104, 8111, 1, 8096),
      (8120, 8121, 1, 8112), (8122, 8123, 1, 8048), (8124, 8124, 1, 8115), (8136, 8139, 1, 8050),
      (8140, 8140, 1, 8131), (8152, 8153, 1, 8144), (8154, 8155, 1, 8054), (8168, 8169, 1, 8160),
      (8170, 8171, 1, 8058), (8172, 8172, 1, 8165), (8184, 8185, 1, 8056), (8186, 8187, 1, 8060),
      (8188, 8188, 1, 8179), (8486, 8486, 1, 969), (8490, 8490, 1, 107), (8491, 8491, 1, 229),
      (8498, 8498, 1, 8526), (8544, 8559, 1, 8560), (8579, 8579, 1, 8580), (9398, 9423, 1, 9424),
      (11264, 11311, 1, 11312), (11360, 11360, 1, 11361), (11362, 11362, 1, 619),
      (11363, 11363, 1, 7549), (11364, 11364, 1, 637), (11367, 11371, 2, 11368),
      (11373, 11373, 1, 593), (11374, 11374, 1, 625), (11375, 11375, 1, 592),
      (11376, 11376, 1, 594), (11378, 11378, 1, 11379), (11381, 11381, 1, 11382),
      (11390, 11391, 1, 575), (11392, 11490, 2, 11393), (11499, 11501, 2, 11500),
      (11506, 11506, 1, 11507), (42560, 42604, 2, 42561), (42624, 42650, 2, 42625),
      (42786, 42798, 2, 42787), (42802, 42862, 2, 42803), (42873, 42875, 2, 42874),
      (42877, 42877, 1, 7545), (42878, 42886, 2, 42879), (42891, 42891, 1, 42892),
      (42893, 42893, 1, 613), (42896, 42898, 2, 42897), (42902, 42920, 2, 42903),
      (42922, 42922, 1, 614), (42923, 42923, 1, 604), (42924, 42924, 1, 609),
      (42925, 42925, 1, 620), (42926, 42926, 1, 618), (42928, 42928, 1, 670),
      (42929, 42929, 1, 647), (42930, 42930, 1, 669), (42931, 42931, 1, 43859),
      (42932, 42946, 2, 42933), (42948, 42948, 1, 42900), (42949, 42949, 1, 642),
      (42950, 42950, 1, 7566), (42951, 42953, 2, 42952), (42960, 42960, 1, 42961),
      (42966, 42968, 2, 42967), (42997, 42997, 1, 42998), (65313, 65338, 1, 65345),
      (66560, 66599, 1, 66600), (66736, 66771, 1, 66776), (66928, 66964, 2, 66967),
      (66929, 66937, 2, 66968), (66941, 66953, 2, 66980), (66957, 66961, 2, 66996),
      (66965, 66965, 1, 67004), (68736, 68786, 1, 68800), (71840, 71871, 1, 71872),
      (93760, 93791, 1, 93792), (125184, 125217, 1, 125218)]"

definition upper_special :: "(codepoint \<times> pystr) list" where
  "upper_special =
     [(223, [83, 83]), (329, [700, 78]), (496, [74, 780]), (912, [921, 776, 769]),
      (944, [933, 776, 769]), (1415, [1333, 1362]), (7830, [72, 817]), (7831, [84, 776]),
      (7832, [87, 778]), (7833, [89, 778]), (7834, [65, 702]), (8016, [933, 787]),
      (8018, [933, 787, 768]), (8020, [933, 787, 769]), (8022, [933, 787, 834]),
      (8064, [7944, 921]), (8065, [7945, 921]), (8066, [7946, 921]), (8067, [7947, 921]),
      (8068, [7948, 921]), (8069, [7949, 921]), (8070, [7950, 921]), (8071, [7951, 921]),
      (8072, [7944, 921]), (8073, [7945, 921]), (8074, [7946, 921]), (8075, [7947, 921]),
      (8076, [7948, 921]), (8077, [7949, 921]), (8078, [7950, 921]), (8079, [7951, 921]),
      (8080, [7976, 921]), (8081, [7977, 921]), (8082, [7978, 921]), (8083, [7979, 921]),
      (8084, [7980, 921]), (8085, [7981, 921]), (8086, [7982, 921]), (8087, [7983, 921]),
      (8088, [7976, 921]), (8089, [7977, 921]), (8090, [7978, 921]), (8091, [7979, 921]),
      (8092, [7980, 921]), (8093, [7981, 921]), (8094, [7982, 921]), (8095, [7983, 921]),
      (8096, [8040, 921]), (8097, [8041, 921]), (8098, [8042, 921]), (8099, [8043, 921]),
      (8100, [8044, 921]), (8101, [8045, 921]), (8102, [8046, 921]), (8103, [8047, 921]),
      (8104, [8040, 921]), (8105, [8041, 921]), (8106, [8042, 921]), (8107, [8043, 921]),
      (8108, [8044, 921]), (8109, [8045, 921]), (8110, [8046, 921]), (8111, [8047, 921]),
      (8114, [8122, 921]), (8115, [913, 921]), (8116, [902, 921]), (8118, [913, 834]),
      (8119, [913, 834, 921]), (8124, [913, 921]), (8130, [8138, 921]), (8131, [919, 921]),
      (8132, [905, 921]), (8134, [919, 834]), (8135, [919, 834, 921]), (8140, [919, 921]),
      (8146, [921, 776, 768]), (8147, [921, 776, 769]), (8150, [921, 834]),
      (8151, [921, 776, 834]), (8162, [933, 776, 768]), (8163, [933, 776, 769]),
      (8164, [929, 787]), (8166, [933, 834]), (8167, [933, 776, 834]), (8178, [8186, 921]),
      (8179, [937, 921]), (8180, [911, 921]), (8182, [937, 834]), (8183, [937, 834, 921]),
      (8188, [937, 921]), (64256, [70, 70]), (64257, [70, 73]), (64258, [70, 76]),
      (64259, [70, 70, 73]), (64260, [70, 70, 76]), (64261, [83, 84]), (64262, [83, 84]),
      (64275, [1348, 1350]), (64276, [1348, 1333]), (64277, [1348, 1339]), (64278, [1358, 1350]),
      (64279, [1348, 1341])]"

definition upper_ranges :: "case_range list" where
  "upper_ranges =
     [(97, 122, 1, 65), (181, 181, 1, 924), (224, 246, 1, 192), (248, 254, 1, 216),
      (255, 255, 1, 376), (257, 303, 2, 256), (305, 305, 1, 73), (307, 311, 2, 306),
      (314, 328, 2, 313), (331, 375, 2, 330), (378, 382, 2, 377), (383, 383, 1, 83),
      (384, 384, 1, 579), (387, 389, 2, 386), (392, 392, 1, 391), (396, 396, 1, 395),
      (402, 402, 1, 401), (405, 405, 1, 502), (409, 409, 1, 408), (410, 410, 1, 573),
      (414, 414, 1, 544), (417, 421, 2, 416), (424, 424, 1, 423), (429, 429, 1, 428),
      (432, 432, 1, 431), (436, 438, 2, 435), (441, 441, 1, 440), (445, 445, 1, 444),
      (447, 447, 1, 503), (453, 453, 1, 452), (454, 454, 1, 452), (456, 456, 1, 455),
      (457, 457, 1, 455), (459, 459, 1, 458), (460, 460, 1, 458), (462, 476, 2, 461),
      (477, 477, 1, 398), (479, 495, 2, 478), (498, 498, 1, 497), (499, 499, 1, 497),
      (501, 501, 1, 500), (505, 543, 2, 504), (547, 563, 2, 546), (572, 572, 1, 571),
      (575, 576, 1, 11390), (578, 578, 1, 577), (583, 591, 2, 582), (592, 592, 1, 11375),
      (593, 593, 1, 11373), (594, 594, 1, 11376), (595, 595, 1, 385), (596, 596, 1, 390),
      (598, 599, 1, 393), (601, 601, 1, 399), (603, 603, 1, 400), (604, 604, 1, 42923),
      (608, 608, 1, 403), (609, 609, 1, 42924), (611, 611, 1, 404), (613, 613, 1, 42893),
      (614, 614, 1, 42922), (616, 616, 1, 407), (617, 617, 1, 406), (618, 618, 1, 42926),
      (619, 619, 1, 11362), (620, 620, 1, 42925), (623, 623, 1, 412), (625, 625, 1, 11374),
      (626, 626, 1, 413), (629, 629, 1, 415), (637, 637, 1, 11364), (640, 640, 1, 422),
      (642, 642, 1, 42949), (643, 643, 1, 425), (647, 647, 1, 42929), (648, 648, 1, 430),
      (649, 649, 1, 580), (650, 651, 1, 433), (652, 652, 1, 581), (658, 658, 1, 439),
      (669, 669, 1, 42930), (670, 670, 1, 42928), (837, 837, 1, 921), (881, 883, 2, 880),
      (887, 887, 1, 886), (891, 893, 1, 1021), (940, 940, 1, 902), (941, 943, 1, 904),
      (945, 961, 1, 913), (962, 962, 1, 931), (963, 971, 1, 931), (972, 972, 1, 908),
      (973, 974, 1, 910), (976, 976, 1, 914), (977, 977, 1, 920), (981, 981, 1, 934),
      (982, 982, 1, 928), (983, 983, 1, 975), (985, 1007, 2, 984), (1008, 1008, 1, 922),
      (1009, 1009, 1, 929), (1010, 1010, 1, 1017), (1011, 1011, 1, 895), (1013, 1013, 1, 917),
      (1016, 1016, 1, 1015), (1019, 1019, 1, 1018), (1072, 1103, 1, 1040), (1104, 1119, 1, 1024),
      (1121, 1153, 2, 1120), (1163, 1215, 2, 1162), (1218, 1230, 2, 1217), (1231, 1231, 1, 1216),
      (1233, 1327, 2, 1232), (1377, 1414, 1, 1329), (4304, 4346, 1, 7312), (4349, 4351, 1, 7357),
      (5112, 5117, 1, 5104), (7296, 7296, 1, 1042), (7297, 7297, 1, 1044), (7298, 7298, 1, 1054),
      (7299, 7300, 1, 1057), (7301, 7301, 1, 1058), (7302, 7302, 1, 1066), (7303, 7303, 1, 1122),
      (7304, 7304, 1, 42570), (7545, 7545, 1, 42877), (7549, 7549, 1, 11363),
      (7566, 7566, 1, 42950), (7681, 7829, 2, 7680), (7835, 7835, 1, 7776), (7841, 7935, 2, 7840),
      (7936, 7943, 1, 7944), (7952, 7957, 1, 7960), (7968, 7975, 1, 7976), (7984, 7991, 1, 7992),
      (8000, 8005, 1, 8008), (8017, 8023, 2, 8025), (8032, 8039, 1, 8040), (8048, 8049, 1, 8122),
      (8050, 8053, 1, 8136), (8054, 8055, 1, 8154), (8056, 8057, 1, 8184), (8058, 8059, 1, 8170),
      (8060, 8061, 1, 8186), (8112, 8113, 1, 8120), (8126, 8126, 1, 921), (8144, 8145, 1, 8152),
      (8160, 8161, 1, 8168), (8165, 8165, 1, 8172), (8526, 8526, 1, 8498), (8560, 8575, 1, 8544),
      (8580, 8580, 1, 8579), (9424, 9449, 1, 9398), (11312, 11359, 1, 11264),
      (11361, 11361, 1, 11360), (11365, 11365, 1, 570), (11366, 11366, 1, 574),
      (11368, 11372, 2, 11367), (11379, 11379, 1, 11378), (11382, 11382, 1, 11381),
      (11393, 11491, 2, 11392), (11500, 11502, 2, 11499), (11507, 11507, 1, 11506),
      (11520, 11557, 1, 4256), (11559, 11559, 1, 4295), (11565, 11565, 1, 4301),
      (42561, 42605, 2, 42560), (42625, 42651, 2, 42624), (42787, 42799, 2, 42786),
      (42803, 42863, 2, 42802), (42874, 42876, 2, 42873), (42879, 42887, 2, 42878),
      (42892, 42892, 1, 42891), (42897, 42899, 2, 42896), (42900, 42900, 1, 42948),
      (42903, 42921, 2, 42902), (42933, 42947, 2, 42932), (42952, 42954, 2, 42951),
      (42961, 42961, 1, 42960), (42967, 42969, 2, 42966), (42998, 42998, 1, 42997),
      (43859, 43859, 1, 42931), (43888, 43967, 1, 5024), (65345, 65370, 1, 65313),
      (66600, 66639, 1, 66560), (66776, 66811, 1, 66736), (66967, 67003, 2, 66928),
      (66968, 66976, 2, 66929), (66980, 66992, 2, 66941), (66996, 67000, 2, 66957),
      (67004, 67004, 1, 66965), (68800, 68850, 1, 68736), (71872, 71903, 1, 71840),
      (93792, 93823, 1, 93760), (125218, 125251, 1, 125184)]"

definition title_special :: "(codepoint \<times> pystr) list" where
  "title_special =
     [(223, [83, 115]), (329, [700, 78]), (496, [74, 780]), (912, [921, 776, 769]),
      (944, [933, 776, 769]), (1415, [1333, 1410]), (7830, [72, 817]), (7831, [84, 776]),
      (7832, [87, 778]), (7833, [89, 778]), (7834, [65, 702]), (8016, [933, 787]),
      (8018, [933, 787, 768]), (8020, [933, 787, 769]), (8022, [933, 787, 834]),
      (8114, [8122, 837]), (8116, [902, 837]), (8118, [913, 834]), (8119, [913, 834, 837]),
      (8130, [8138, 837]), (8132, [905, 837]), (8134, [919, 834]), (8135, [919, 834, 837]),
      (8146, [921, 776, 768]), (8147, [921, 776, 769]), (8150, [921, 834]),
      (8151, [921, 776, 834]), (8162, [933, 776, 768]), (8163, [933, 776, 769]),
      (8164, [929, 787]), (8166, [933, 834]), (8167, [933, 776, 834]), (8178, [8186, 837]),
      (8180, [911, 837]), (8182, [937, 834]), (8183, [937, 834, 837]), (64256, [70, 102]),
      (64257, [70, 105]), (64258, [70, 108]), (64259, [70, 102, 105]), (64260, [70, 102, 108]),
      (64261, [83, 116]), (64262, [83, 116]), (64275, [1348, 1398]), (64276, [1348, 1381]),
      (64277, [1348, 1387]), (64278, [1358, 1398]), (64279, [1348, 1389])]"

definition title_ranges :: "case_range list" where
  "title_ranges =
     [(97, 122, 1, 65), (181, 181, 1, 924), (224, 246, 1, 192), (248, 254, 1, 216),
      (255, 255, 1, 376), (257, 303, 2, 256), (305, 305, 1, 73), (307, 311, 2, 306),
      (314, 328, 2, 313), (331, 375, 2, 330), (378, 382, 2, 377), (383, 383, 1, 83),
      (384, 384, 1, 579), (387, 389, 2, 386), (392, 392, 1, 391), (396, 396, 1, 395),
      (402, 402, 1, 401), (405, 405, 1, 502), (409, 409, 1, 408), (410, 410, 1, 573),
      (414, 414, 1, 544), (417, 421, 2, 416), (424, 424, 1, 423), (429, 429, 1, 428),
      (432, 432, 1, 431), (436, 438, 2, 435), (441, 441, 1, 440), (445, 445, 1, 444),
      (447, 447, 1, 503), (452, 452, 1, 453), (454, 454, 1, 453), (455, 455, 1, 456),
      (457, 457, 1, 456), (458, 458, 1, 459), (460, 476, 2, 459), (477, 477, 1, 398),
      (479, 495, 2, 478), (497, 497, 1, 498), (499, 501, 2, 498), (505, 543, 2, 504),
      (547, 563, 2, 546), (572, 572, 1, 571), (575, 576, 1, 11390), (578, 578, 1, 577),
      (583, 591, 2, 582), (592, 592, 1, 11375), (593, 593, 1, 11373), (594, 594, 1, 11376),
      (595, 595, 1, 385), (596, 596, 1, 390), (598, 599, 1, 393), (601, 601, 1, 399),
      (603, 603, 1, 400), (604, 604, 1, 42923), (608, 608, 1, 403), (609, 609, 1, 42924),
      (611, 611, 1, 404), (613, 613, 1, 42893), (614, 614, 1, 42922), (616, 616, 1, 407),
      (617, 617, 1, 406), (618, 618, 1, 42926), (619, 619, 1, 11362), (620, 620, 1, 42925),
      (623, 623, 1, 412), (625, 625, 1, 11374), (626, 626, 1, 413), (629, 629, 1, 415),
      (637, 637, 1, 11364), (640, 640, 1, 422), (642, 642, 1, 42949), (643, 643, 1, 425),
      (647, 647, 1, 42929), (648, 648, 1, 430), (649, 649, 1, 580), (650, 651, 1, 433),
      (652, 652, 1, 581), (658, 658, 1, 439), (669, 669, 1, 42930), (670, 670, 1, 42928),
      (837, 837, 1, 921), (881, 883, 2, 880), (887, 887, 1, 886), (891, 893, 1, 1021),
      (940, 940, 1, 902), (941, 943, 1, 904), (945, 961, 1, 913), (962, 962, 1, 931),
      (963, 971, 1, 931), (972, 972, 1, 908), (973, 974, 1, 910), (976, 976, 1, 914),
      (977, 977, 1, 920), (981, 981, 1, 934), (982, 982, 1, 928), (983, 983, 1, 975),
      (985, 1007, 2, 984), (1008, 1008, 1, 922), (1009, 1009, 1, 929), (1010, 1010, 1, 1017),
      (1011, 1011, 1, 895), (1013, 1013, 1, 917), (1016, 1016, 1, 1015), (1019, 1019, 1, 1018),
      (1072, 1103, 1, 1040), (1104, 1119, 1, 1024), (1121, 1153, 2, 1120), (1163, 1215, 2, 1162),
      (1218, 1230, 2, 1217), (1231, 1231, 1, 1216), (1233, 1327, 2, 1232), (1377, 1414, 1, 1329),
      (5112, 5117, 1, 5104), (7296, 7296, 1, 1042), (7297, 7297, 1, 1044), (7298, 7298, 1, 1054),
      (7299, 7300, 1, 1057), (7301, 7301, 1, 1058), (7302, 7302, 1, 1066), (7303, 7303, 1, 1122),
      (7304, 7304, 1, 42570), (7545, 7545, 1, 42877), (7549, 7549, 1, 11363),
      (7566, 7566, 1, 42950), (7681, 7829, 2, 7680), (7835, 7835, 1, 7776), (7841, 7935, 2, 7840),
      (7936, 7943, 1, 7944), (7952, 7957, 1, 7960), (7968, 7975, 1, 7976), (7984, 7991, 1, 7992),
      (8000, 8005, 1, 8008), (8017, 8023, 2, 8025), (8032, 8039, 1, 8040), (8048, 8049, 1, 8122),
      (8050, 8053, 1, 8136), (8054, 8055, 1, 8154), (8056, 8057, 1, 8184), (8058, 8059, 1, 8170),
      (8060, 8061, 1, 8186), (8064, 8071, 1, 8072), (8080, 8087, 1, 8088), (8096, 8103, 1, 8104),
      (8112, 8113, 1, 8120), (8115, 8115, 1, 8124), (8126, 8126, 1, 921), (8131, 8131, 1, 8140),
      (8144, 8145, 1, 8152), (8160, 8161, 1, 8168), (8165, 8165, 1, 8172), (8179, 8179, 1, 8188),
      (8526, 8526, 1, 8498), (8560, 8575, 1, 8544), (8580, 8580, 1, 8579), (9424, 9449, 1, 9398),
      (11312, 11359, 1, 11264), (11361, 11361, 1, 11360), (11365, 11365, 1, 570),
      (11366, 11366, 1, 574), (11368, 11372, 2, 11367), (11379, 11379, 1, 11378),
      (11382, 11382, 1, 11381), (11393, 11491, 2, 11392), (11500, 11502, 2, 11499),
      (11507, 11507, 1, 11506), (11520, 11557, 1, 4256), (11559, 11559, 1, 4295),
      (11565, 11565, 1, 4301), (42561, 42605, 2, 42560), (42625, 42651, 2, 42624),
      (42787, 42799, 2, 42786), (42803, 42863, 2, 42802), (42874, 42876, 2, 42873),
      (42879, 42887, 2, 42878), (42892, 42892, 1, 42891), (42897, 42899, 2, 42896),
      (42900, 42900, 1, 42948), (42903, 42921, 2, 42902), (42933, 42947, 2, 42932),
      (42952, 42954, 2, 42951), (42961, 42961, 1, 42960), (42967, 42969, 2, 42966),
      (42998, 42998, 1, 42997), (43859, 43859, 1, 42931), (43888, 43967, 1, 5024),
      (65345, 65370, 1, 65313), (66600, 66639, 1, 66560), (66776, 66811, 1, 66736),
      (66967, 67003, 2, 66928), (66968, 66976, 2, 66929), (66980, 66992, 2, 66941),
      (66996, 67000, 2, 66957), (67004, 67004, 1, 66965), (68800, 68850, 1, 68736),
      (71872, 71903, 1, 71840), (93792, 93823, 1, 93760), (125218, 125251, 1, 125184)]"

definition to_lower_full :: "codepoint \<Rightarrow> pystr" where
  "to_lower_full c = full_case lower_special lower_ranges c"

definition to_upper_full :: "codepoint \<Rightarrow> pystr" where
  "to_upper_full c = full_case upper_special upper_ranges c"

definition to_title_full :: "codepoint \<Rightarrow> pystr" where
  "to_title_full c = full_case title_special title_ranges c"

text \<open>
  The capital sigma (U+03A3) is lowercased by its place: a final sigma (U+03C2) when a
  cased code point stands before it and none behind it, case-ignorable code points
  passed over on both sides; else a small sigma (U+03C3). \<open>before\<close> and \<open>behind\<close> are the
  code points of the string on the two sides.
\<close>

definition final_sigma :: "pystr \<Rightarrow> pystr \<Rightarrow> bool" where
  "final_sigma before behind =
     (let b = dropWhile is_case_ignorable (rev before);
          a = dropWhile is_case_ignorable behind
      in b \<noteq> [] \<and> is_cased (hd b) \<and> (a = [] \<or> \<not> is_cased (hd a)))"

definition lower_at :: "pystr \<Rightarrow> codepoint \<Rightarrow> pystr \<Rightarrow> pystr" where
  "lower_at before c behind =
     (if c = 931 then [if final_sigma before behind then 962 else 963] else to_lower_full c)"

text \<open>\<^verbatim>\<open>str.lower()\<close> and \<^verbatim>\<open>str.upper()\<close>\<close>

fun lower_from :: "pystr \<Rightarrow> pystr \<Rightarrow> pystr" where
  "lower_from before [] = []"
| "lower_from before (c # s) = lower_at before c s @ lower_from (before @ [c]) s"

definition lower :: "pystr \<Rightarrow> pystr" where
  "lower s = lower_from [] s"

definition upper :: "pystr \<Rightarrow> pystr" where
  "upper s = concat (map to_upper_full s)"

text \<open>
  \<^verbatim>\<open>str.title()\<close>: a code point that follows a cased one is lowercased, every other one
  is titlecased. The flag tells whether the code point before was cased.
\<close>

fun title_from :: "bool \<Rightarrow> pystr \<Rightarrow> pystr \<Rightarrow> pystr" where
  "title_from previous_is_cased before [] = []"
| "title_from previous_is_cased before (c # s) =
     (if previous_is_cased then lower_at before c s else to_title_full c)
       @ title_from (is_cased c) (before @ [c]) s"

definition title :: "pystr \<Rightarrow> pystr" where
  "title s = title_from False [] s"

section \<open>\<^verbatim>\<open>int\<close> on a string\<close>

text \<open>
  \<^verbatim>\<open>int(s)\<close> first turns the string into ASCII: a code point below 128 stays, any other
  whitespace becomes a blank and any other decimal digit its ASCII digit; with any
  other code point the literal is invalid.
\<close>

fun to_ascii_decimal :: "pystr \<Rightarrow> pystr option" where
  "to_ascii_decimal [] = Some []"
| "to_ascii_decimal (c # s) =
     (if c < 128 then map_option ((#) c) (to_ascii_decimal s)
      else if is_space c then map_option ((#) 32) (to_ascii_decimal s)
      else (case decimal_value c of
              None \<Rightarrow> None
            | Some d \<Rightarrow> map_option ((#) (48 + d)) (to_ascii_decimal s)))"

text \<open>The ASCII digit a decimal digit becomes.\<close>

definition ascii_of :: "codepoint \<Rightarrow> codepoint" where
  "ascii_of c = 48 + the (decimal_value c)"

text \<open>
  The ASCII text is read as whitespace (tab to carriage return, and the blank), an
  optional sign, digits with single underscores between them, and whitespace. The
  separators U+001C to U+001F are whitespace for \<^verbatim>\<open>str.strip\<close> but not here.
\<close>

definition ascii_space :: "codepoint \<Rightarrow> bool" where
  "ascii_space c = ((9 \<le> c \<and> c \<le> 13) \<or> c = 32)"

definition ascii_digit :: "codepoint \<Rightarrow> bool" where
  "ascii_digit c = (48 \<le> c \<and> c \<le> 57)"

fun digit_groups :: "pystr \<Rightarrow> bool" where
  "digit_groups [] = False"
| "digit_groups [c] = ascii_digit c"
| "digit_groups (c # d # s) =
     (ascii_digit c \<and> (if d = 95 then digit_groups s else digit_groups (d # s)))"

text \<open>The number a run of ASCII digits writes (underscores are passed over).\<close>

definition int_of_digits :: "pystr \<Rightarrow> int" where
  "int_of_digits ds = foldl (\<lambda>acc d. 10 * acc + int (d - 48)) 0 (filter ascii_digit ds)"

text \<open>
  The interpreter refuses a literal of more digits than \<^verbatim>\<open>sys.get_int_max_str_digits()\<close>,
  4300 unless the process is started with another limit.
\<close>

definition int_max_str_digits :: nat where
  "int_max_str_digits = 4300"

definition sign_and_digits :: "pystr \<Rightarrow> bool \<times> pystr" where
  "sign_and_digits s =
     (case s of
        [] \<Rightarrow> (False, [])
      | c # r \<Rightarrow> if c = 45 then (True, r) else if c = 43 then (False, r) else (False, c # r))"

definition ascii_int :: "pystr \<Rightarrow> int option" where
  "ascii_int s =
     (let signed = sign_and_digits (dropWhile ascii_space s);
          body = rev (dropWhile ascii_space (rev (snd signed)))
      in if digit_groups body \<and> length (filter ascii_digit body) \<le> int_max_str_digits
         then Some (if fst signed then - int_of_digits body else int_of_digits body)
         else None)"

text \<open>\<^verbatim>\<open>int(s)\<close>: the number, or \<open>None\<close> when \<^verbatim>\<open>ValueError\<close> is raised.\<close>

definition py_int :: "pystr \<Rightarrow> int option" where
  "py_int s = (case to_ascii_decimal s of None \<Rightarrow> None | Some a \<Rightarrow> ascii_int a)"

section \<open>The Twilio client\<close>

text \<open>
  \<^verbatim>\<open>client.messages.create(from_=..., body=..., to=...)\<close> is a call into the Twilio SDK.
  The model records every call made (the outbox, in order) and asks the environment
  whether the call returns (\<open>True\<close>) or raises (\<open>False\<close>); the answer may depend on the
  calls made before.
\<close>

record twilio_call =
  msg_from :: "pystr option"
  msg_body :: pystr
  msg_to :: pystr

record twilio_api =
  account_sid :: pystr
  auth_token :: pystr
  from_number :: "pystr option"
  messages_create :: "twilio_call list \<Rightarrow> twilio_call \<Rightarrow> bool"

definition whatsapp_prefix :: pystr where
  "whatsapp_prefix = U ''whatsapp:''"

text \<open>
  The recipient of \<^verbatim>\<open>send_message\<close>, in both \<^verbatim>\<open>agent.py\<close> and \<^verbatim>\<open>whatsapp_app.py\<close>:
  \<^verbatim>\<open>if not to.startswith('whatsapp:'): to = f'whatsapp:{to}'\<close>.
\<close>

definition whatsapp_recipient :: "pystr \<Rightarrow> pystr" where
  "whatsapp_recipient to =
     (if \<not> startswith to whatsapp_prefix then whatsapp_prefix @ to else to)"

text \<open>
  \<^verbatim>\<open>TwilioWhatsAppAPI.send_message\<close> of \<^verbatim>\<open>agent.py\<close>: the sender is the configured
  number as it is (\<open>None\<close> when the environment variable is unset). The result is the
  returned flag and the outbox.
\<close>

definition send_message ::
  "twilio_api \<Rightarrow> pystr \<Rightarrow> pystr \<Rightarrow> twilio_call list \<Rightarrow> bool \<times> twilio_call list" where
  "send_message api to message outbox =
     (let call = \<lparr>msg_from = from_number api, msg_body = message,
                   msg_to = whatsapp_recipient to\<rparr>
      in (messages_create api outbox call, outbox @ [call]))"

text \<open>
  \<^verbatim>\<open>TwilioWhatsAppAPI.send_message\<close> of \<^verbatim>\<open>whatsapp_app.py\<close>: the sender is prefixed as
  well. The constructor gives \<^verbatim>\<open>from_number\<close> a default, so it is never \<open>None\<close> there;
  on \<open>None\<close> the call \<^verbatim>\<open>from_number.startswith\<close> would raise inside the \<^verbatim>\<open>try\<close>, and the
  method would return \<open>False\<close> without reaching the client.
\<close>

definition send_message_v3 ::
  "twilio_api \<Rightarrow> pystr \<Rightarrow> pystr \<Rightarrow> twilio_call list \<Rightarrow> bool \<times> twilio_call list" where
  "send_message_v3 api to message outbox =
     (case from_number api of
        None \<Rightarrow> (False, outbox)
      | Some sender \<Rightarrow>
          (let call = \<lparr>msg_from = Some (whatsapp_recipient sender), msg_body = message,
                        msg_to = whatsapp_recipient to\<rparr>
           in (messages_create api outbox call, outbox @ [call])))"

section \<open>Exceptions, downloads and replies\<close>

text \<open>
  A raised exception is a value: its class and the text \<^verbatim>\<open>str(e)\<close> gives. A computation
  that can raise returns \<open>exn + 'a\<close>, with \<open>Inl\<close> for the exception. The classes are
  those the code raises or tells apart; \<open>SDKError\<close> stands for every other class.
\<close>

datatype exn_class =
  FileNotFoundError | KeyError | IndexError | ValueError | TypeError | AttributeError | SDKError

datatype exn = Exn exn_class pystr

fun str_exn :: "exn \<Rightarrow> pystr" where
  "str_exn (Exn c m) = m"

fun exn_class_of :: "exn \<Rightarrow> exn_class" where
  "exn_class_of (Exn c m) = c"

text \<open>What \<^verbatim>\<open>requests.get\<close> returns: the status and the bytes of the body.\<close>

record http_response =
  status_code :: nat
  resp_content :: "nat list"

text \<open>
  The reply is the list of the messages put into the \<^verbatim>\<open>MessagingResponse\<close>, which the
  handler returns rendered as TwiML.
\<close>

type_synonym twiml = "pystr list"

section \<open>Python values\<close>

text \<open>
  \<^verbatim>\<open>json.loads\<close> returns \<^verbatim>\<open>None\<close>, a truth value, an integer, a float, a string, a list
  or a dictionary, and the code reads the analysis without checking which. A float is
  \<open>m\<close> times 2 to the power \<open>e\<close>, or infinite, or not a number. A dictionary is the list
  of its items; a key is looked up from the front.
\<close>

datatype pyfloat = Finite int int | PosInf | NegInf | NaN

datatype pyval =
  PyNone
| PyBool bool
| PyInt int
| PyFloat pyfloat
| PyStr pystr
| PyList "pyval list"
| PyDict "(pystr \<times> pyval) list"

text \<open>\<^verbatim>\<open>type(v).__name__\<close>, as the messages of the interpreter name a value.\<close>

fun type_name :: "pyval \<Rightarrow> string" where
  "type_name PyNone = ''NoneType''"
| "type_name (PyBool b) = ''bool''"
| "type_name (PyInt n) = ''int''"
| "type_name (PyFloat x) = ''float''"
| "type_name (PyStr s) = ''str''"
| "type_name (PyList xs) = ''list''"
| "type_name (PyDict items) = ''dict''"

text \<open>A word between single quotes.\<close>

definition quoted :: "string \<Rightarrow> pystr" where
  "quoted w = [39] @ U w @ [39]"

text \<open>\<^verbatim>\<open>x >= n\<close>, \<^verbatim>\<open>x == n\<close> and the truth of a float \<open>x\<close>, for an integer \<open>n\<close>.\<close>

fun float_ge_int :: "pyfloat \<Rightarrow> int \<Rightarrow> bool" where
  "float_ge_int (Finite m e) n =
     (if 0 \<le> e then n \<le> m * 2 ^ nat e else n * 2 ^ nat (- e) \<le> m)"
| "float_ge_int PosInf n = True"
| "float_ge_int NegInf n = False"
| "float_ge_int NaN n = False"

fun float_eq_int :: "pyfloat \<Rightarrow> int \<Rightarrow> bool" where
  "float_eq_int (Finite m e) n =
     (if 0 \<le> e then m * 2 ^ nat e = n else m = n * 2 ^ nat (- e))"
| "float_eq_int PosInf n = False"
| "float_eq_int NegInf n = False"
| "float_eq_int NaN n = False"

fun float_truthy :: "pyfloat \<Rightarrow> bool" where
  "float_truthy (Finite m e) = (m \<noteq> 0)"
| "float_truthy PosInf = True"
| "float_truthy NegInf = True"
| "float_truthy NaN = True"

text \<open>The truth of a value, as \<^verbatim>\<open>if not items:\<close> reads it.\<close>

fun py_truthy :: "pyval \<Rightarrow> bool" where
  "py_truthy PyNone = False"
| "py_truthy (PyBool b) = b"
| "py_truthy (PyInt n) = (n \<noteq> 0)"
| "py_truthy (PyFloat x) = float_truthy x"
| "py_truthy (PyStr s) = (s \<noteq> [])"
| "py_truthy (PyList xs) = (xs \<noteq> [])"
| "py_truthy (PyDict items) = (items \<noteq> [])"

text \<open>
  \<^verbatim>\<open>v[key]\<close> with a string key: the value of a dictionary under the key, \<^verbatim>\<open>KeyError\<close>
  with the quoted key when the dictionary has none, and \<^verbatim>\<open>TypeError\<close> for every other
  value.
\<close>

definition key_error :: "string \<Rightarrow> exn" where
  "key_error k = Exn KeyError (quoted k)"

definition not_subscriptable :: "pyval \<Rightarrow> exn" where
  "not_subscriptable v = Exn TypeError (quoted (type_name v) @ U '' object is not subscriptable'')"

fun subscript :: "pyval \<Rightarrow> string \<Rightarrow> exn + pyval" where
  "subscript (PyDict items) key =
     (case map_of items (U key) of None \<Rightarrow> Inl (key_error key) | Some v \<Rightarrow> Inr v)"
| "subscript (PyStr s) key =
     Inl (Exn TypeError (U ''string indices must be integers, not '' @ quoted ''str''))"
| "subscript (PyList xs) key =
     Inl (Exn TypeError (U ''list indices must be integers or slices, not str''))"
| "subscript PyNone key = Inl (not_subscriptable PyNone)"
| "subscript (PyBool b) key = Inl (not_subscriptable (PyBool b))"
| "subscript (PyInt n) key = Inl (not_subscriptable (PyInt n))"
| "subscript (PyFloat x) key = Inl (not_subscriptable (PyFloat x))"

text \<open>\<^verbatim>\<open>v.get(key, default)\<close>; only a dictionary has the method.\<close>

definition no_attribute :: "pyval \<Rightarrow> string \<Rightarrow> exn" where
  "no_attribute v name =
     Exn AttributeError (quoted (type_name v) @ U '' object has no attribute '' @ quoted name)"

fun dict_get :: "pyval \<Rightarrow> string \<Rightarrow> pyval \<Rightarrow> exn + pyval" where
  "dict_get (PyDict items) key preset =
     (case map_of items (U key) of None \<Rightarrow> Inr preset | Some v \<Rightarrow> Inr v)"
| "dict_get PyNone key preset = Inl (no_attribute PyNone ''get'')"
| "dict_get (PyBool b) key preset = Inl (no_attribute (PyBool b) ''get'')"
| "dict_get (PyInt n) key preset = Inl (no_attribute (PyInt n) ''get'')"
| "dict_get (PyFloat x) key preset = Inl (no_attribute (PyFloat x) ''get'')"
| "dict_get (PyStr s) key preset = Inl (no_attribute (PyStr s) ''get'')"
| "dict_get (PyList xs) key preset = Inl (no_attribute (PyList xs) ''get'')"

text \<open>
  The receiver of a string method such as \<^verbatim>\<open>v.lower()\<close>: the string, or
  \<^verbatim>\<open>AttributeError\<close> for a value of another type.
\<close>

fun str_receiver :: "pyval \<Rightarrow> string \<Rightarrow> exn + pystr" where
  "str_receiver (PyStr s) name = Inr s"
| "str_receiver PyNone name = Inl (no_attribute PyNone name)"
| "str_receiver (PyBool b) name = Inl (no_attribute (PyBool b) name)"
| "str_receiver (PyInt n) name = Inl (no_attribute (PyInt n) name)"
| "str_receiver (PyFloat x) name = Inl (no_attribute (PyFloat x) name)"
| "str_receiver (PyList xs) name = Inl (no_attribute (PyList xs) name)"
| "str_receiver (PyDict items) name = Inl (no_attribute (PyDict items) name)"

text \<open>
  \<^verbatim>\<open>v in range(lo, hi)\<close>: an integer or truth value is compared with the bounds; any
  other value is compared with every number of the range, which a float equal to one
  of them passes and nothing else does.
\<close>

fun in_range :: "pyval \<Rightarrow> int \<Rightarrow> int \<Rightarrow> bool" where
  "in_range (PyInt n) lo hi = (lo \<le> n \<and> n < hi)"
| "in_range (PyBool b) lo hi = (lo \<le> (if b then 1 else 0) \<and> (if b then 1 else 0) < hi)"
| "in_range (PyFloat x) lo hi = list_ex (float_eq_int x) [lo..hi - 1]"
| "in_range PyNone lo hi = False"
| "in_range (PyStr s) lo hi = False"
| "in_range (PyList xs) lo hi = False"
| "in_range (PyDict items) lo hi = False"

text \<open>\<^verbatim>\<open>v >= n\<close> for an integer \<open>n\<close>: numbers are compared, any other value raises.\<close>

definition not_comparable :: "pyval \<Rightarrow> exn" where
  "not_comparable v =
     Exn TypeError (quoted ''>='' @ U '' not supported between instances of ''
       @ quoted (type_name v) @ U '' and '' @ quoted ''int'')"

fun py_ge :: "pyval \<Rightarrow> int \<Rightarrow> exn + bool" where
  "py_ge (PyInt i) n = Inr (n \<le> i)"
| "py_ge (PyBool b) n = Inr (n \<le> (if b then 1 else 0))"
| "py_ge (PyFloat x) n = Inr (float_ge_int x n)"
| "py_ge PyNone n = Inl (not_comparable PyNone)"
| "py_ge (PyStr s) n = Inl (not_comparable (PyStr s))"
| "py_ge (PyList xs) n = Inl (not_comparable (PyList xs))"
| "py_ge (PyDict items) n = Inl (not_comparable (PyDict items))"

text \<open>
  \<^verbatim>\<open>str(v)\<close>, which an f-string puts in for \<^verbatim>\<open>{v}\<close>. The text of a float, a list or a
  dictionary is the \<^verbatim>\<open>repr\<close> the interpreter computes, the first argument.
\<close>

fun py_str :: "(pyval \<Rightarrow> pystr) \<Rightarrow> pyval \<Rightarrow> pystr" where
  "py_str repr PyNone = U ''None''"
| "py_str repr (PyBool b) = (if b then U ''True'' else U ''False'')"
| "py_str repr (PyInt n) = str_int n"
| "py_str repr (PyStr s) = s"
| "py_str repr (PyFloat x) = repr (PyFloat x)"
| "py_str repr (PyList xs) = repr (PyList xs)"
| "py_str repr (PyDict items) = repr (PyDict items)"

text \<open>
  \<^verbatim>\<open>sep.join(items)\<close> on values: every item must be a string; the first that is none
  raises \<^verbatim>\<open>TypeError\<close> with its index.
\<close>

fun str_items :: "nat \<Rightarrow> pyval list \<Rightarrow> exn + pystr list" where
  "str_items i [] = Inr []"
| "str_items i (PyStr s # xs) =
     (case str_items (Suc i) xs of Inl e \<Rightarrow> Inl e | Inr ss \<Rightarrow> Inr (s # ss))"
| "str_items i (x # xs) =
     Inl (Exn TypeError (U ''sequence item '' @ str_int (int i)
            @ U '': expected str instance, '' @ U (type_name x) @ U '' found''))"

definition py_join :: "pystr \<Rightarrow> pyval list \<Rightarrow> exn + pystr" where
  "py_join sep xs = (case str_items 0 xs of Inl e \<Rightarrow> Inl e | Inr ss \<Rightarrow> Inr (join sep ss))"

section \<open>\<^verbatim>\<open>agent.py\<close>: the stitching expert\<close>

text \<open>
  The pattern \<^verbatim>\<open>rating[:\s]*(\d+)\<close> under \<^verbatim>\<open>re.IGNORECASE\<close>. A letter of the pattern
  matches itself and its capital; \<^verbatim>\<open>i\<close> also matches U+0130 and U+0131, as Python's
  case-insensitive matching has it.
\<close>

definition ci_match :: "codepoint \<Rightarrow> codepoint \<Rightarrow> bool" where
  "ci_match p c = (c = p \<or> c + 32 = p \<or> (p = 105 \<and> (c = 304 \<or> c = 305)))"

definition is_sep :: "codepoint \<Rightarrow> bool" where
  "is_sep c = (c = 58 \<or> is_space c)"

text \<open>
  A match that starts at the first code point of \<open>s\<close>: the word, then the longest run
  of colons and whitespace, then at least one decimal digit. The result is group 1, the
  longest run of digits there. The two classes are disjoint, so giving back separators
  cannot produce a match where the greedy runs find none.
\<close>

definition rating_match_at :: "pystr \<Rightarrow> pystr option" where
  "rating_match_at s =
     (if 6 \<le> length s \<and> list_all2 ci_match (U ''rating'') (take 6 s) then
        (let digits = takeWhile is_decimal (dropWhile is_sep (drop 6 s))
         in if digits = [] then None else Some digits)
      else None)"

text \<open>\<^verbatim>\<open>re.search\<close>: the match at the leftmost position that has one.\<close>

fun search_rating :: "pystr \<Rightarrow> pystr option" where
  "search_rating [] = None"
| "search_rating (c # s) =
     (case rating_match_at (c # s) of
        Some digits \<Rightarrow> Some digits
      | None \<Rightarrow> search_rating s)"

text \<open>The dictionary \<^verbatim>\<open>_parse_fallback_response\<close> returns, for the rating it has read.\<close>

definition fallback_analysis :: "int \<Rightarrow> pyval" where
  "fallback_analysis rating =
     PyDict [(U ''quality_rating'', PyInt rating),
             (U ''stitch_type'', PyStr (U ''general'')),
             (U ''technical_issues'', PyList [PyStr (U ''Could not parse detailed issues'')]),
             (U ''improvement_suggestions'',
                PyList [PyStr (U ''Please refer to the detailed analysis'')]),
             (U ''professional_grade'', PyStr (U ''intermediate'')),
             (U ''pass_fail'', PyStr (if rating < 7 then U ''fail'' else U ''pass''))]"

text \<open>
  The \<^verbatim>\<open>ValueError\<close> of \<^verbatim>\<open>int\<close> on a literal of too many digits. Group 1 of the pattern is
  a run of decimal digits, which \<^verbatim>\<open>int\<close> rejects for no other reason.
\<close>

definition exceeds_limit :: "nat \<Rightarrow> exn" where
  "exceeds_limit n =
     Exn ValueError (U ''Exceeds the limit ('' @ str_int (int int_max_str_digits)
       @ U '' digits) for integer string conversion: value has '' @ str_int (int n)
       @ U '' digits; use sys.set_int_max_str_digits() to increase the limit'')"

definition parse_fallback_response :: "pystr \<Rightarrow> exn + pyval" where
  "parse_fallback_response response_text =
     (case search_rating response_text of
        None \<Rightarrow> Inr (fallback_analysis 5)
      | Some digits \<Rightarrow>
          (case py_int digits of
             None \<Rightarrow> Inl (exceeds_limit (length digits))
           | Some rating \<Rightarrow> Inr (fallback_analysis rating)))"

text \<open>
  The rating as the sentence about \<^verbatim>\<open>_parse_fallback_response\<close> words it, for comparison
  with the code: the first integer that follows the first \<^verbatim>\<open>rating\<close> (in any case),
  and 5 when there is none.
\<close>

fun first_integer :: "pystr \<Rightarrow> pystr option" where
  "first_integer [] = None"
| "first_integer (c # s) =
     (if is_decimal c then Some (takeWhile is_decimal (c # s)) else first_integer s)"

fun claimed_rating :: "pystr \<Rightarrow> int option" where
  "claimed_rating [] = Some 5"
| "claimed_rating (c # s) =
     (if 6 \<le> length (c # s) \<and> list_all2 ci_match (U ''rating'') (take 6 (c # s)) then
        (case first_integer (drop 6 (c # s)) of
           None \<Rightarrow> Some 5
         | Some digits \<Rightarrow> py_int digits)
      else claimed_rating s)"

text \<open>
  What the pattern asks of a position, said without the matcher: the text there begins
  with the word in any case, then come colons and whitespace only, then a decimal
  digit. And the number a run of decimal digits writes.
\<close>

definition rating_here :: "pystr \<Rightarrow> bool" where
  "rating_here s =
     (\<exists>w sep d rest. s = w @ sep @ d # rest \<and> list_all2 ci_match (U ''rating'') w
        \<and> (\<forall>c\<in>set sep. is_sep c) \<and> is_decimal d)"

definition decimal_number :: "pystr \<Rightarrow> int" where
  "decimal_number ds = foldl (\<lambda>acc d. 10 * acc + int (the (decimal_value d))) 0 ds"

text \<open>
  The environment of \<^verbatim>\<open>analyze_stitching\<close>: whether \<^verbatim>\<open>Image.open\<close> raises on the bytes,
  the text of the model's response to the expert prompt and the image (or the exception
  of the call or of reading \<^verbatim>\<open>response.text\<close>), and \<^verbatim>\<open>json.loads\<close>, which raises
  \<^verbatim>\<open>JSONDecodeError\<close> on text that is not JSON.
\<close>

datatype json_loads_result = Loaded pyval | JSONDecodeError | LoadRaises exn

record gemini_env =
  image_open_raises :: "nat list \<Rightarrow> exn option"
  generate_content :: "nat list \<Rightarrow> exn + pystr"
  json_loads :: "pystr \<Rightarrow> json_loads_result"

text \<open>Lines 119 to 123: the text between a \<^verbatim>\<open>```json\<close> fence and the next fence.\<close>

definition fenced_json :: "pystr \<Rightarrow> pystr" where
  "fenced_json response_text =
     (case find_index response_text (U ''```json'') of
        None \<Rightarrow> response_text
      | Some i \<Rightarrow>
          (let json_start = i + 7 in
           case find_index (drop json_start response_text) (U ''```'') of
             None \<Rightarrow> response_text
           | Some n \<Rightarrow> strip (take n (drop json_start response_text))))"

definition analysis_failed :: pyval where
  "analysis_failed =
     PyDict [(U ''quality_rating'', PyInt 5),
             (U ''stitch_type'', PyStr (U ''unknown'')),
             (U ''technical_issues'', PyList [PyStr (U ''Analysis failed'')]),
             (U ''improvement_suggestions'',
                PyList [PyStr (U ''Please try again with a clearer image'')]),
             (U ''professional_grade'', PyStr (U ''unknown'')),
             (U ''pass_fail'', PyStr (U ''fail''))]"

text \<open>
  \<^verbatim>\<open>analyze_stitching\<close>. The outer \<^verbatim>\<open>except\<close> branch catches what the image library, the
  model call and \<^verbatim>\<open>json.loads\<close> raise, and also what the fallback parser raises inside
  the handler of \<^verbatim>\<open>JSONDecodeError\<close>.
\<close>

definition analyze_stitching :: "gemini_env \<Rightarrow> nat list \<Rightarrow> pyval" where
  "analyze_stitching env image_data =
     (case image_open_raises env image_data of
        Some e \<Rightarrow> analysis_failed
      | None \<Rightarrow>
          (case generate_content env image_data of
             Inl e \<Rightarrow> analysis_failed
           | Inr response_text \<Rightarrow>
               (case json_loads env (fenced_json response_text) of
                  Loaded result \<Rightarrow> result
                | JSONDecodeError \<Rightarrow>
                    (case parse_fallback_response response_text of
                       Inl e \<Rightarrow> analysis_failed
                     | Inr result \<Rightarrow> result)
                | LoadRaises e \<Rightarrow> analysis_failed)))"

section \<open>\<^verbatim>\<open>agent.py\<close>: the report\<close>

text \<open>
  The \<^verbatim>\<open>StitchingAssessment\<close> dataclass, without its timestamp (the clock is not
  modelled, and nothing reads the field). The dataclass does not check the types it
  declares, so the fields read from the analysis hold any value.
\<close>

record stitching_assessment =
  image_url :: pystr
  quality_rating :: pyval
  improvement_suggestions :: pyval
  stitch_type :: pyval
  technical_issues :: pyval
  professional_grade :: pyval
  pass_fail :: pyval
  user_phone :: pystr

text \<open>
  The loops over the dictionaries keyed by ranges: the value of the first range that
  holds the rating, else the value set before the loop.
\<close>

fun first_in_range :: "pyval \<Rightarrow> ((int \<times> int) \<times> pystr) list \<Rightarrow> pystr \<Rightarrow> pystr" where
  "first_in_range rating [] preset = preset"
| "first_in_range rating (((lo, hi), v) # items) preset =
     (if in_range rating lo hi then v else first_in_range rating items preset)"

definition rating_emoji :: "((int \<times> int) \<times> pystr) list" where
  "rating_emoji =
     [((1, 3), [240, 376, 8221, 180]),
      ((3, 5), [240, 376, 376, 160]),
      ((5, 7), [240, 376, 376, 161]),
      ((7, 9), [240, 376, 376, 162]),
      ((9, 11), [240, 376, 8224])]"

definition feedback_map :: "((int \<times> int) \<times> pystr) list" where
  "feedback_map =
     [((1, 3), U ''Beginner - Practice basic techniques''),
      ((3, 5), U ''Developing - Work on consistency''),
      ((5, 7), U ''Intermediate - Good foundation!''),
      ((7, 9), U ''Advanced - Professional quality emerging''),
      ((9, 11), U ''Expert - Outstanding craftsmanship!'')]"

definition get_professional_feedback_short :: "pyval \<Rightarrow> pystr" where
  "get_professional_feedback_short rating =
     first_in_range rating feedback_map (U ''Keep practicing!'')"

text \<open>
  \<^verbatim>\<open>_format_list_compact\<close>: \<^verbatim>\<open>None\<close> for a value that is not true; else the first two
  items joined. Slicing a string gives its first two code points, which are joined
  likewise; a dictionary and a number cannot be sliced.
\<close>

fun format_list_compact :: "pyval \<Rightarrow> exn + pystr" where
  "format_list_compact (PyList xs) =
     (if xs = [] then Inr (U ''None'') else py_join (U '' | '') (take 2 xs))"
| "format_list_compact (PyStr s) =
     (if s = [] then Inr (U ''None'') else Inr (join (U '' | '') (map (\<lambda>c. [c]) (take 2 s))))"
| "format_list_compact (PyDict items) =
     (if items = [] then Inr (U ''None'')
      else Inl (Exn TypeError (U ''unhashable type: '' @ quoted ''slice'')))"
| "format_list_compact PyNone = Inr (U ''None'')"
| "format_list_compact (PyBool b) =
     (if b then Inl (not_subscriptable (PyBool b)) else Inr (U ''None''))"
| "format_list_compact (PyInt n) =
     (if n \<noteq> 0 then Inl (not_subscriptable (PyInt n)) else Inr (U ''None''))"
| "format_list_compact (PyFloat x) =
     (if float_truthy x then Inl (not_subscriptable (PyFloat x)) else Inr (U ''None''))"

text \<open>The two marks in front of the result, as the file has them.\<close>

definition pass_mark :: pystr where
  "pass_mark = [226, 339, 8230]"

definition fail_mark :: pystr where
  "fail_mark = [226, 338]"

text \<open>
  The text of the report, the f-string of \<^verbatim>\<open>send_assessment_report\<close>, with what is
  evaluated before it. The fields are read in the order of the text; a string method on
  a value that is no string raises \<^verbatim>\<open>AttributeError\<close>.
\<close>

definition report :: "(pyval \<Rightarrow> pystr) \<Rightarrow> stitching_assessment \<Rightarrow> exn + pystr" where
  "report repr assessment =
     (let emoji = first_in_range (quality_rating assessment) rating_emoji [240, 376, 376, 161]
      in case str_receiver (pass_fail assessment) ''lower'' of
           Inl e \<Rightarrow> Inl e
         | Inr verdict \<Rightarrow>
      (let pass_fail_emoji = (if lower verdict = U ''pass'' then pass_mark else fail_mark)
       in case str_receiver (stitch_type assessment) ''title'' of
            Inl e \<Rightarrow> Inl e
          | Inr stitch \<Rightarrow>
       (case str_receiver (professional_grade assessment) ''title'' of
            Inl e \<Rightarrow> Inl e
          | Inr grade \<Rightarrow>
       (case format_list_compact (technical_issues assessment) of
            Inl e \<Rightarrow> Inl e
          | Inr issues \<Rightarrow>
       (case format_list_compact (improvement_suggestions assessment) of
            Inl e \<Rightarrow> Inl e
          | Inr tips \<Rightarrow>
          Inr ([240, 376, 167, 181] @ U '' STITCHING ASSESSMENT '' @ [240, 376, 167, 181]
                 @ U ''\<newline>\<newline>''
               @ emoji @ U '' Rating: '' @ py_str repr (quality_rating assessment)
               @ U ''/10\<newline>''
               @ pass_fail_emoji @ U '' Result: '' @ upper verdict
               @ U ''\<newline>'' @ [240, 376, 8220] @ U '' Type: '' @ title stitch
               @ U ''\<newline>'' @ [240, 376, 381, 175] @ U '' Level: '' @ title grade
               @ U ''\<newline>\<newline>'' @ [226, 353, 160, 239, 184] @ U '' Issues: '' @ issues
               @ U ''\<newline>\<newline>'' @ [240, 376, 8217, 161] @ U '' Tips: '' @ tips
               @ U ''\<newline>\<newline>'' @ [240, 376, 381, 8220] @ U '' Feedback: ''
               @ get_professional_feedback_short (quality_rating assessment)))))))"

text \<open>The follow-up after the report; comparing a rating that is no number raises.\<close>

definition encouragement :: "pyval \<Rightarrow> exn + pystr" where
  "encouragement rating =
     (case py_ge rating 8 of
        Inl e \<Rightarrow> Inl e
      | Inr excellent \<Rightarrow>
          if excellent
          then Inr ([240, 376, 338, 376] @ U '' Excellent professional quality work!'')
          else (case py_ge rating 6 of
                  Inl e \<Rightarrow> Inl e
                | Inr good \<Rightarrow>
                    if good
                    then Inr ([240, 376, 8216]
                           @ U '' Good progress! Focus on suggestions to reach pro level.'')
                    else Inr ([240, 376, 8217, 170]
                           @ U '' Keep practicing! Focus on fundamentals.'')))"

section \<open>\<^verbatim>\<open>agent.py\<close>: the handlers\<close>

text \<open>
  The form fields of an inbound Twilio request (\<^verbatim>\<open>request.form\<close>); \<open>None\<close> is an absent
  field.
\<close>

record twilio_form =
  form_From :: "pystr option"
  form_Body :: "pystr option"
  form_MediaUrl0 :: "pystr option"
  form_MediaContentType0 :: "pystr option"
  form_NumMedia :: "pystr option"

text \<open>\<^verbatim>\<open>request.form.get(key, default)\<close>\<close>

fun form_get :: "pystr option \<Rightarrow> pystr \<Rightarrow> pystr" where
  "form_get None preset = preset"
| "form_get (Some v) preset = v"

text \<open>
  The environment of the agent: the Twilio client, HTTP downloads, the model, and the
  \<^verbatim>\<open>repr\<close> of the interpreter for floats, lists and dictionaries.
\<close>

record agent_env =
  twilio :: twilio_api
  media_get :: "pystr \<Rightarrow> pystr \<times> pystr \<Rightarrow> exn + http_response"
  gemini :: gemini_env
  repr_of :: "pyval \<Rightarrow> pystr"

text \<open>
  \<^verbatim>\<open>send_assessment_report\<close>: the report, then the encouragement. The flags
  \<^verbatim>\<open>send_message\<close> returns are dropped, as in the source. The result is the outbox and
  the exception that ended the method, if one did; a report already sent stays sent.
\<close>

definition send_assessment_report ::
  "agent_env \<Rightarrow> pystr \<Rightarrow> stitching_assessment \<Rightarrow> twilio_call list
     \<Rightarrow> twilio_call list \<times> exn option" where
  "send_assessment_report env phone_number assessment outbox =
     (case report (repr_of env) assessment of
        Inl e \<Rightarrow> (outbox, Some e)
      | Inr body \<Rightarrow>
          (let outbox1 = snd (send_message (twilio env) phone_number body outbox)
           in case encouragement (quality_rating assessment) of
                Inl e \<Rightarrow> (outbox1, Some e)
              | Inr message \<Rightarrow>
                  (snd (send_message (twilio env) phone_number message outbox1), None)))"

text \<open>
  Lines 306 to 316: the assessment made from the analysis. The keys are read in the
  order of the keyword arguments; \<^verbatim>\<open>pass_fail\<close> is read with \<^verbatim>\<open>get\<close> and the default
  \<^verbatim>\<open>fail\<close>.
\<close>

definition assessment_of :: "pystr \<Rightarrow> pystr \<Rightarrow> pyval \<Rightarrow> exn + stitching_assessment" where
  "assessment_of phone_number media_url analysis =
     (case subscript analysis ''quality_rating'' of
        Inl e \<Rightarrow> Inl e
      | Inr rating \<Rightarrow>
     (case subscript analysis ''improvement_suggestions'' of
        Inl e \<Rightarrow> Inl e
      | Inr suggestions \<Rightarrow>
     (case subscript analysis ''stitch_type'' of
        Inl e \<Rightarrow> Inl e
      | Inr stitch \<Rightarrow>
     (case subscript analysis ''technical_issues'' of
        Inl e \<Rightarrow> Inl e
      | Inr issues \<Rightarrow>
     (case subscript analysis ''professional_grade'' of
        Inl e \<Rightarrow> Inl e
      | Inr grade \<Rightarrow>
     (case dict_get analysis ''pass_fail'' (PyStr (U ''fail'')) of
        Inl e \<Rightarrow> Inl e
      | Inr verdict \<Rightarrow>
          Inr \<lparr>image_url = media_url,
               quality_rating = rating,
               improvement_suggestions = suggestions,
               stitch_type = stitch,
               technical_issues = issues,
               professional_grade = grade,
               pass_fail = verdict,
               user_phone = phone_number\<rparr>))))))"

definition analyzing_message :: pystr where
  "analyzing_message =
     [240, 376, 8221] @ U '' Analyzing your stitching work with professional expertise... Please wait.''"

definition download_failed_message :: pystr where
  "download_failed_message =
     [226, 338] @ U '' Sorry, I couldn't download your image. Please try again.''"

definition analysis_error_message :: "exn \<Rightarrow> pystr" where
  "analysis_error_message e =
     [226, 338] @ U '' Error analyzing your stitching: '' @ str_exn e @ U ''. Please try again.''"

text \<open>
  \<^verbatim>\<open>handle_twilio_image_message\<close>. Its body is one \<^verbatim>\<open>try\<close>; the \<^verbatim>\<open>except\<close> branch sends
  the error message behind what was sent before the exception. The result is the
  outbox.
\<close>

definition handle_twilio_image_message ::
  "agent_env \<Rightarrow> pystr \<Rightarrow> pystr \<Rightarrow> twilio_call list \<Rightarrow> twilio_call list" where
  "handle_twilio_image_message env phone_number media_url outbox =
     (let outbox1 = snd (send_message (twilio env) phone_number analyzing_message outbox);
          failed = (\<lambda>e sent. snd (send_message (twilio env) phone_number
                                     (analysis_error_message e) sent))
      in case media_get env media_url (account_sid (twilio env), auth_token (twilio env)) of
           Inl e \<Rightarrow> failed e outbox1
         | Inr response \<Rightarrow>
             if status_code response \<noteq> 200
             then snd (send_message (twilio env) phone_number download_failed_message outbox1)
             else
               (case assessment_of phone_number media_url
                       (analyze_stitching (gemini env) (resp_content response)) of
                  Inl e \<Rightarrow> failed e outbox1
                | Inr assessment \<Rightarrow>
                    (case send_assessment_report env phone_number assessment outbox1 of
                       (outbox2, None) \<Rightarrow> outbox2
                     | (outbox2, Some e) \<Rightarrow> failed e outbox2)))"

definition welcome_message :: pystr where
  "welcome_message =
     U ''\<newline>'' @ [240, 376, 167, 181] @ U '' Welcome to the Professional Stitching Quality Assessment Bot! \<newline>\<newline>I'm your AI tailor expert with 30+ years of experience. I can analyze your stitching work and provide professional feedback.\<newline>\<newline>'' @ [240, 376, 8220, 184] @ U '' **How to use:**\<newline>1. Send me a clear photo of your stitching work\<newline>2. I'll analyze it like a professional tailor\<newline>3. Get detailed feedback with ratings (1-10)\<newline>4. Receive improvement suggestions\<newline>\<newline>**What I can assess:**\<newline>'' @ [226, 8364, 162] @ U '' Hand stitching quality\<newline>'' @ [226, 8364, 162] @ U '' Machine stitch precision\<newline>'' @ [226, 8364, 162] @ U '' Seam construction\<newline>'' @ [226, 8364, 162] @ U '' Thread tension\<newline>'' @ [226, 8364, 162] @ U '' Professional finishing\<newline>'' @ [226, 8364, 162] @ U '' Overall craftsmanship\<newline>\<newline>Send me your stitching photo to get started! '' @ [240, 376, 170, 161] @ U ''\<newline>            ''"

definition send_photo_message :: pystr where
  "send_photo_message =
     [240, 376, 8220, 184] @ U '' Please send me a clear photo of your stitching work for professional assessment!''"

definition handle_text_message ::
  "agent_env \<Rightarrow> pystr \<Rightarrow> pystr \<Rightarrow> twilio_call list \<Rightarrow> twilio_call list" where
  "handle_text_message env phone_number body outbox =
     (let text_lower = lower body in
      if list_ex (contains text_lower) [U ''hi'', U ''hello'', U ''start'', U ''help'']
      then snd (send_message (twilio env) phone_number welcome_message outbox)
      else snd (send_message (twilio env) phone_number send_photo_message outbox))"

text \<open>
  \<^verbatim>\<open>handle_twilio_webhook\<close> of \<^verbatim>\<open>agent.py\<close>: the outbox and the reply. The handlers catch
  what is raised in them, so the \<^verbatim>\<open>except\<close> branch is reached when \<^verbatim>\<open>int\<close> rejects the
  \<^verbatim>\<open>NumMedia\<close> field. Both ways the reply is an empty \<^verbatim>\<open>MessagingResponse\<close>.
\<close>

definition handle_twilio_webhook ::
  "agent_env \<Rightarrow> twilio_form \<Rightarrow> twilio_call list \<Rightarrow> twilio_call list \<times> twiml" where
  "handle_twilio_webhook env form outbox =
     (let from_number = form_get (form_From form) [];
          body = form_get (form_Body form) [];
          media_url = form_get (form_MediaUrl0 form) []
      in case py_int (form_get (form_NumMedia form) (U ''0'')) of
           None \<Rightarrow> (outbox, [])
         | Some num_media \<Rightarrow>
             (let phone_number = replace from_number whatsapp_prefix [] in
              if num_media > 0 \<and> media_url \<noteq> []
              then (handle_twilio_image_message env phone_number media_url outbox, [])
              else (handle_text_message env phone_number body outbox, [])))"

section \<open>\<^verbatim>\<open>agents/sub_agents/stitching_assessor_agent.py\<close>\<close>

text \<open>
  The task context of an instruction: the keys the code reads, each absent or a string.
\<close>

record task_context =
  ctx_image_path :: "pystr option"
  ctx_role :: "pystr option"
  ctx_skill_to_assess :: "pystr option"

definition empty_context :: task_context where
  "empty_context = \<lparr>ctx_image_path = None, ctx_role = None, ctx_skill_to_assess = None\<rparr>"

text \<open>\<^verbatim>\<open>d.get(key, default)\<close> on an optional string.\<close>

fun get_or :: "pystr option \<Rightarrow> pystr \<Rightarrow> pystr" where
  "get_or None preset = preset"
| "get_or (Some v) preset = v"

text \<open>The dictionary a sub-agent returns as its data.\<close>

record assessment_data =
  data_quality_rating :: "int option"
  data_stitch_type :: "pystr option"
  data_technical_issues :: "pystr list option"
  data_improvement_suggestions :: "pystr list option"
  data_professional_grade :: "pystr option"
  data_pass_fail_raw :: "pystr option"

definition simulate_enhanced_assessment :: "task_context \<Rightarrow> pystr \<Rightarrow> assessment_data" where
  "simulate_enhanced_assessment ctx image_path =
     (let role = get_or (ctx_role ctx) (U ''Tailor'')
      in \<lparr>data_quality_rating = Some 7,
          data_stitch_type = Some (U ''Running stitch with reinforcement''),
          data_technical_issues =
            Some [U ''Minor tension variation'', U ''Edge finishing could be neater''],
          data_improvement_suggestions =
            Some [U ''Use consistent thread tension'', U ''Practice edge finishing techniques''],
          data_professional_grade =
            Some (if role = U ''Tailor'' then U ''Advanced'' else U ''Intermediate''),
          data_pass_fail_raw = Some (if role = U ''Tailor'' then U ''Pass'' else U ''Fail'')\<rparr>)"

definition simulate_basic_assessment :: "task_context \<Rightarrow> assessment_data" where
  "simulate_basic_assessment ctx =
     (let role = get_or (ctx_role ctx) (U ''Tailor'')
      in \<lparr>data_quality_rating = Some 6,
          data_stitch_type = Some (U ''Running stitch''),
          data_technical_issues =
            Some [U ''Slightly uneven tension'', U ''Minor spacing inconsistencies''],
          data_improvement_suggestions =
            Some [U ''Practice maintaining consistent tension'',
                  U ''Use guide lines for even spacing''],
          data_professional_grade = Some (U ''Intermediate''),
          data_pass_fail_raw = Some (if role = U ''Tailor'' then U ''Pass'' else U ''Fail'')\<rparr>)"

text \<open>
  \<^verbatim>\<open>validate_image_data\<close>: \<open>None\<close> for a valid image, else the text of the error. The
  first argument stands for the image library: the text of the exception it raises on
  the bytes, if it raises.
\<close>

definition validate_image_data :: "(nat list \<Rightarrow> pystr option) \<Rightarrow> nat list \<Rightarrow> pystr option" where
  "validate_image_data pil image_data =
     (if image_data = [] then Some (U ''No image data provided'') else pil image_data)"

text \<open>
  What \<^verbatim>\<open>execute\<close> returns: \<^verbatim>\<open>{"status": "success", "data": ...}\<close> or
  \<^verbatim>\<open>{"status": "error", "message": ...}\<close>.
\<close>

datatype sub_agent_result = Success assessment_data | Failure pystr

definition execute ::
  "(nat list \<Rightarrow> pystr option) \<Rightarrow> nat list \<Rightarrow> task_context \<Rightarrow> sub_agent_result" where
  "execute pil image_data ctx =
     (if truthy (ctx_image_path ctx)
      then Success (simulate_enhanced_assessment ctx (the (ctx_image_path ctx)))
      else if image_data = [] then Failure (U ''No image data provided'')
      else (case validate_image_data pil image_data of
              Some err \<Rightarrow> Failure (U ''Invalid image: '' @ err)
            | None \<Rightarrow> Success (simulate_basic_assessment ctx)))"

section \<open>\<^verbatim>\<open>main.py\<close>: the host application\<close>

record instruction =
  agent_name :: "pystr option"
  task_context :: "task_context option"

text \<open>\<^verbatim>\<open>instruction.get('task_context', {})\<close>\<close>

definition context_of :: "instruction \<Rightarrow> task_context" where
  "context_of instr = (case task_context instr of None \<Rightarrow> empty_context | Some ctx \<Rightarrow> ctx)"

record plan =
  response_to_user :: "pystr option"
  sub_agent_instructions :: "instruction list option"

text \<open>
  A final verdict: its \<^verbatim>\<open>response_to_user\<close> and the \<^verbatim>\<open>decision\<close> of its
  \<^verbatim>\<open>final_decision_data\<close>.
\<close>

record verdict =
  verdict_response :: "pystr option"
  decision :: "pystr option"

record sub_agent_record =
  rec_agent_name :: "pystr option"
  rec_skill_assessed :: "pystr option"
  rec_result :: sub_agent_result

text \<open>
  The class \<^verbatim>\<open>MasterAgent\<close> is not among the source files. Its two methods are taken as
  they are called: each returns a dictionary or raises.
\<close>

record master_agent =
  get_plan :: "pystr option \<Rightarrow> nat list option \<Rightarrow> nat list option \<Rightarrow> exn + plan"
  get_final_verdict :: "pystr \<Rightarrow> sub_agent_record list \<Rightarrow> exn + verdict"

text \<open>What the host does, in order: its calls and what it prints.\<close>

datatype host_event =
  GetPlan "pystr option" "nat list option" "nat list option"
| ExecuteInstruction instruction
| GetFinalVerdict pystr "sub_agent_record list"
| Printed pystr

text \<open>The calls among the events: everything but what is printed.\<close>

fun is_call :: "host_event \<Rightarrow> bool" where
  "is_call (Printed s) = False"
| "is_call (GetPlan q i a) = True"
| "is_call (ExecuteInstruction instr) = True"
| "is_call (GetFinalVerdict role results) = True"

definition calls_of :: "host_event list \<Rightarrow> host_event list" where
  "calls_of events = filter is_call events"

text \<open>
  The environment of the host: the image library, and the bytes of
  \<^verbatim>\<open>test_stitch.jpg\<close> or the exception \<^verbatim>\<open>open\<close> raises.
\<close>

record host_env =
  pil_verify :: "nat list \<Rightarrow> pystr option"
  test_image :: "exn + nat list"

text \<open>
  \<^verbatim>\<open>execute_sub_agent_instruction\<close>. The library holds the one sub-agent
  \<^verbatim>\<open>StitchingAssessorAgent\<close>. Only \<^verbatim>\<open>FileNotFoundError\<close> is caught.
\<close>

definition execute_sub_agent_instruction ::
  "host_env \<Rightarrow> instruction \<Rightarrow> nat list option
     \<Rightarrow> host_event list \<times> (exn + sub_agent_result)" where
  "execute_sub_agent_instruction env instr image_data =
     (if agent_name instr \<noteq> Some (U ''StitchingAssessorAgent'')
      then ([], Inr (Failure (U ''Sub-agent not found.'')))
      else
        (case image_data of
           Some (b # bytes) \<Rightarrow>
             ([], Inr (execute (pil_verify env) (b # bytes) (context_of instr)))
         | _ \<Rightarrow>
             (let printed =
                    [Printed (U ''\<newline>'' @ [128248] @ U '' Please provide an image for the '' @ [39]
                       @ get_or (ctx_skill_to_assess (context_of instr)) (U ''Unknown'')
                       @ [39] @ U '' assessment.''),
                     Printed (U ''   (Using default test image...)'')]
              in case test_image env of
                   Inr image_bytes \<Rightarrow>
                     (printed, Inr (execute (pil_verify env) image_bytes (context_of instr)))
                 | Inl e \<Rightarrow>
                     if exn_class_of e = FileNotFoundError
                     then (printed, Inr (Failure (U ''Image file not found: '' @ str_exn e)))
                     else (printed, Inl e))))"

text \<open>
  The loop of \<^verbatim>\<open>run_full_assessment\<close> over the instructions, with the results so far.
\<close>

fun execute_plan ::
  "host_env \<Rightarrow> nat list option \<Rightarrow> instruction list \<Rightarrow> sub_agent_record list
     \<Rightarrow> host_event list \<times> (exn + sub_agent_record list)" where
  "execute_plan env image_data [] results = ([], Inr results)"
| "execute_plan env image_data (instr # instrs) results =
     (let skill_name = get_or (ctx_skill_to_assess (context_of instr)) (U ''Unknown'');
          before = [Printed (U ''\<newline>'' @ [128269] @ U '' Executing '' @ skill_name
                      @ U '' Assessment...''),
                    ExecuteInstruction instr]
      in case execute_sub_agent_instruction env instr image_data of
           (events, Inl e) \<Rightarrow> (before @ events, Inl e)
         | (events, Inr result) \<Rightarrow>
             (case execute_plan env image_data instrs
                     (results @ [\<lparr>rec_agent_name = agent_name instr,
                                  rec_skill_assessed = ctx_skill_to_assess (context_of instr),
                                  rec_result = result\<rparr>]) of
                (events', r) \<Rightarrow> (before @ events @ events', r)))"

text \<open>
  The instructions of the plan the master agent returns (none when the call raises or the
  plan has no such key), and the record the loop appends for an instruction whose
  execution returns.
\<close>

definition planned_instructions ::
  "master_agent \<Rightarrow> pystr option \<Rightarrow> nat list option \<Rightarrow> nat list option \<Rightarrow> instruction list" where
  "planned_instructions master user_query image_data audio_data =
     (case get_plan master user_query image_data audio_data of
        Inl e \<Rightarrow> []
      | Inr plan \<Rightarrow> (case sub_agent_instructions plan of None \<Rightarrow> [] | Some instrs \<Rightarrow> instrs))"

definition result_record :: "host_env \<Rightarrow> nat list option \<Rightarrow> instruction \<Rightarrow> sub_agent_record" where
  "result_record env image_data instr =
     \<lparr>rec_agent_name = agent_name instr,
      rec_skill_assessed = ctx_skill_to_assess (context_of instr),
      rec_result = projr (snd (execute_sub_agent_instruction env instr image_data))\<rparr>"

definition decision_emoji :: "pystr \<Rightarrow> pystr" where
  "decision_emoji d = (if d = U ''PASS'' then [9989] else if d = U ''FAIL'' then [10060] else [9203])"

text \<open>
  \<^verbatim>\<open>run_full_assessment\<close>: what the host did, and the exception that ended it, if one
  did.
\<close>

definition run_full_assessment ::
  "master_agent \<Rightarrow> host_env \<Rightarrow> pystr option \<Rightarrow> nat list option \<Rightarrow> nat list option
     \<Rightarrow> host_event list \<times> exn option" where
  "run_full_assessment master env user_query image_data audio_data =
     (case get_plan master user_query image_data audio_data of
        Inl e \<Rightarrow> ([GetPlan user_query image_data audio_data], Some e)
      | Inr plan \<Rightarrow>
          (let planned = [GetPlan user_query image_data audio_data,
                          Printed (U ''\<newline>'' @ [127919] @ U '' Assessment Agent: ''
                            @ get_or (response_to_user plan) (U ''...''))]
           in case sub_agent_instructions plan of
                None \<Rightarrow> (planned, None)
              | Some [] \<Rightarrow> (planned, None)
              | Some (first_instr # instrs) \<Rightarrow>
                  (case execute_plan env image_data (first_instr # instrs) [] of
                     (events, Inl e) \<Rightarrow> (planned @ events, Some e)
                   | (events, Inr sub_agent_results) \<Rightarrow>
                       if \<not> truthy (ctx_role (context_of first_instr))
                       then (planned @ events
                               @ [Printed (U ''\<newline>'' @ [10060]
                                    @ U '' System Error: Could not determine role from assessment plan.'')],
                             None)
                       else
                         (let target_role = the (ctx_role (context_of first_instr));
                              asked = planned @ events
                                @ [Printed (U ''\<newline>'' @ [129300] @ U '' Analyzing results for ''
                                     @ target_role @ U '' position...''),
                                   GetFinalVerdict target_role sub_agent_results]
                          in case get_final_verdict master target_role sub_agent_results of
                               Inl e \<Rightarrow> (asked, Some e)
                             | Inr final_verdict \<Rightarrow>
                                 (asked
                                    @ [Printed (U ''\<newline>''
                                         @ decision_emoji
                                             (get_or (decision final_verdict) (U ''UNKNOWN''))
                                         @ U '' Final Decision: ''
                                         @ get_or (verdict_response final_verdict) (U ''...''))],
                                  None)))))"

section \<open>\<^verbatim>\<open>whatsapp_app.py\<close>\<close>

text \<open>
  The environment of the WhatsApp agent: the Twilio client, the master agent, the host's
  environment, HTTP downloads, the temporary file the audio is saved to (its path, or the
  exception of writing it), the conversion of the audio (which raises or not) and the
  reading of a file.
\<close>

record v3_env =
  v3_twilio :: twilio_api
  v3_master :: master_agent
  v3_host :: host_env
  v3_requests_get :: "pystr \<Rightarrow> pystr \<times> pystr \<Rightarrow> exn + http_response"
  save_temp_file :: "nat list \<Rightarrow> exn + pystr"
  convert_audio :: "pystr \<Rightarrow> exn option"
  read_file :: "pystr \<Rightarrow> exn + nat list"

text \<open>
  The state the handlers work on: what the host did (its calls to the agents and what it
  printed) and the outbox of the Twilio client.
\<close>

type_synonym v3_state = "host_event list \<times> twilio_call list"

text \<open>\<^verbatim>\<open>WhatsAppSkillAssessmentAgentV3.send_message\<close>; the flag returned is never read.\<close>

definition send_v3 :: "v3_env \<Rightarrow> pystr \<Rightarrow> pystr \<Rightarrow> v3_state \<Rightarrow> v3_state" where
  "send_v3 env phone_number message st =
     (fst st, snd (send_message_v3 (v3_twilio env) phone_number message (snd st)))"

definition download_audio_from_twilio :: "v3_env \<Rightarrow> pystr \<Rightarrow> exn + pystr" where
  "download_audio_from_twilio env media_url =
     (case v3_requests_get env media_url
             (account_sid (v3_twilio env), auth_token (v3_twilio env)) of
        Inl e \<Rightarrow> Inl e
      | Inr response \<Rightarrow>
          if status_code response \<noteq> 200
          then Inl (Exn SDKError (U ''Failed to download audio. Status: ''
                      @ str_int (int (status_code response))))
          else save_temp_file env (resp_content response))"

definition convert_ogg_to_wav :: "v3_env \<Rightarrow> pystr \<Rightarrow> exn + pystr" where
  "convert_ogg_to_wav env ogg_file_path =
     (case convert_audio env ogg_file_path of
        Some e \<Rightarrow> Inl e
      | None \<Rightarrow> Inr (replace ogg_file_path (U ''.ogg'') (U ''.wav'')))"

definition format_list_v3 :: "pystr list \<Rightarrow> pystr" where
  "format_list_v3 items =
     (if items = [] then [226, 8364, 162] @ U '' None identified''
      else join (U ''\<newline>'') (map (\<lambda>item. [226, 8364, 162] @ U '' '' @ item) (take 3 items)))"

definition detailed_rating_emoji :: "int \<Rightarrow> pystr" where
  "detailed_rating_emoji rating =
     (if rating < 3 then [287, 376, 8221, 180]
      else if rating < 5 then [287, 376, 376, 160]
      else if rating < 7 then [287, 376, 376, 161]
      else if rating < 9 then [287, 376, 376, 162]
      else [287, 376, 8224])"

definition send_detailed_assessment ::
  "v3_env \<Rightarrow> pystr \<Rightarrow> assessment_data \<Rightarrow> v3_state \<Rightarrow> v3_state" where
  "send_detailed_assessment env phone_number data st =
     (let rating = (case data_quality_rating data of None \<Rightarrow> 5 | Some r \<Rightarrow> r);
          details =
            [287, 376, 8220, 352] @ U '' **Detailed Analysis:**\<newline>\<newline>''
            @ detailed_rating_emoji rating @ U '' **Quality Rating:** '' @ str_int rating
            @ U ''/10\<newline>'' @ [287, 376, 8220] @ U '' **Stitch Type:** ''
            @ get_or (data_stitch_type data) (U ''Unknown'')
            @ U ''\<newline>'' @ [287, 376, 175] @ U '' **Skill Level:** ''
            @ title (get_or (data_professional_grade data) (U ''Unknown''))
            @ U ''\<newline>\<newline>'' @ [226, 353, 160, 239, 184]
            @ U '' **Technical Issues:**\<newline>''
            @ format_list_v3 (case data_technical_issues data of None \<Rightarrow> [] | Some l \<Rightarrow> l)
            @ U ''\<newline>\<newline>'' @ [287, 376, 8217, 161]
            @ U '' **Improvement Tips:**\<newline>''
            @ format_list_v3
                (case data_improvement_suggestions data of None \<Rightarrow> [] | Some l \<Rightarrow> l)
      in send_v3 env phone_number details st)"

definition final_result_emoji :: "pystr \<Rightarrow> pystr" where
  "final_result_emoji d =
     (if d = U ''PASS'' then [226, 339, 8230] else if d = U ''FAIL'' then [226, 338]
      else [226, 179])"

definition send_agent_results ::
  "v3_env \<Rightarrow> pystr \<Rightarrow> sub_agent_record list \<Rightarrow> verdict \<Rightarrow> v3_state \<Rightarrow> v3_state" where
  "send_agent_results env phone_number sub_agent_results final_verdict st =
     (let final_response = get_or (verdict_response final_verdict) (U ''Assessment completed.'');
          st1 = send_v3 env phone_number
                  ([287, 376] @ U '' **Final Assessment:**\<newline>'' @ final_response) st;
          st2 = (case sub_agent_results of
                   r # rs \<Rightarrow>
                     (case rec_result r of
                        Success data \<Rightarrow> send_detailed_assessment env phone_number data st1
                      | Failure message \<Rightarrow> st1)
                 | [] \<Rightarrow> st1);
          d = get_or (decision final_verdict) (U ''UNKNOWN'')
      in send_v3 env phone_number
           (final_result_emoji d @ U '' **Final Result: '' @ d @ U ''**'') st2)"

text \<open>
  The loop of \<^verbatim>\<open>_execute_sub_agents_and_respond\<close>. The host is called without image
  data, so it reads its test image.
\<close>

fun execute_instructions ::
  "v3_env \<Rightarrow> pystr \<Rightarrow> instruction list \<Rightarrow> sub_agent_record list \<Rightarrow> v3_state
     \<Rightarrow> v3_state \<times> (exn + sub_agent_record list)" where
  "execute_instructions env phone_number [] results st = (st, Inr results)"
| "execute_instructions env phone_number (instr # instrs) results st =
     (let name = get_or (agent_name instr) (U ''Unknown'');
          skill = get_or (ctx_skill_to_assess (context_of instr)) (U ''Unknown'');
          st1 = send_v3 env phone_number
                  ([287, 376, 164, 8211] @ U '' '' @ name @ U '' analyzing '' @ skill @ U ''...'')
                  st
      in case execute_sub_agent_instruction (v3_host env) instr None of
           (events, Inl e) \<Rightarrow> ((fst st1 @ [ExecuteInstruction instr] @ events, snd st1), Inl e)
         | (events, Inr result) \<Rightarrow>
             execute_instructions env phone_number instrs
               (results @ [\<lparr>rec_agent_name = Some name, rec_skill_assessed = Some skill,
                            rec_result = result\<rparr>])
               (fst st1 @ [ExecuteInstruction instr] @ events, snd st1))"

definition execute_sub_agents_and_respond ::
  "v3_env \<Rightarrow> pystr \<Rightarrow> instruction list \<Rightarrow> v3_state \<Rightarrow> v3_state" where
  "execute_sub_agents_and_respond env phone_number instructions st =
     (let failed = (\<lambda>e st'. send_v3 env phone_number
                      ([226, 338] @ U '' Sub-agent execution error: '' @ str_exn e) st');
          st1 = send_v3 env phone_number
                  ([287, 376, 8221, 167] @ U '' Executing specialized sub-agents...'') st
      in case execute_instructions env phone_number instructions [] st1 of
           (st2, Inl e) \<Rightarrow> failed e st2
         | (st2, Inr sub_agent_results) \<Rightarrow>
             (let st3 = send_v3 env phone_number
                          ([226, 353, 8211, 239, 184]
                             @ U '' Master Agent making final decision...'') st2
              in case instructions of
                   [] \<Rightarrow> failed (Exn IndexError (U ''list index out of range'')) st3
                 | first_instr # instrs \<Rightarrow>
                     (let target_role = get_or (ctx_role (context_of first_instr)) (U ''Unknown'');
                          st4 = (fst st3 @ [GetFinalVerdict target_role sub_agent_results],
                                 snd st3)
                      in case get_final_verdict (v3_master env) target_role sub_agent_results of
                           Inl e \<Rightarrow> failed e st4
                         | Inr final_verdict \<Rightarrow>
                             send_agent_results env phone_number sub_agent_results
                               final_verdict st4)))"

text \<open>
  With an empty list of instructions \<^verbatim>\<open>instructions[0]\<close> raises \<^verbatim>\<open>IndexError\<close>; the
  handlers call the method with a list that is not empty.
\<close>

text \<open>
  The three handlers end alike: the master agent's response goes to the user, and the
  instructions of the plan, if any, are executed.
\<close>

definition respond_to_plan ::
  "v3_env \<Rightarrow> pystr \<Rightarrow> pystr \<Rightarrow> pystr \<Rightarrow> plan \<Rightarrow> v3_state \<Rightarrow> v3_state" where
  "respond_to_plan env phone_number label preset plan st =
     (let st1 = send_v3 env phone_number (label @ get_or (response_to_user plan) preset) st
      in case sub_agent_instructions plan of
           Some (instr # instrs) \<Rightarrow>
             execute_sub_agents_and_respond env phone_number (instr # instrs) st1
         | _ \<Rightarrow> st1)"

definition handle_text_message_v3 :: "v3_env \<Rightarrow> pystr \<Rightarrow> pystr \<Rightarrow> v3_state \<Rightarrow> v3_state" where
  "handle_text_message_v3 env phone_number body st =
     (let st1 = (fst st @ [GetPlan (Some body) None None], snd st)
      in case get_plan (v3_master env) (Some body) None None of
           Inl e \<Rightarrow>
             send_v3 env phone_number
               ([226, 338] @ U '' I encountered an error. Please try again or send me an image/voice message of your work! ''
                  @ [287, 376, 8220, 184, 287, 376, 164]) st1
         | Inr plan \<Rightarrow>
             respond_to_plan env phone_number ([287, 376, 175] @ U '' '')
               (U ''I can help you with skill assessment.'') plan st1)"

definition voice_processing_message :: pystr where
  "voice_processing_message =
     [287, 376, 164] @ U '' Processing your voice message with native audio analysis...''"

definition voice_error_message :: "exn \<Rightarrow> pystr" where
  "voice_error_message e =
     [226, 338] @ U '' An error occurred with native audio analysis: '' @ str_exn e
       @ U ''. Please try again.''"

text \<open>
  \<^verbatim>\<open>handle_voice_message\<close>; the removal of the temporary files in its \<^verbatim>\<open>finally\<close>
  branch touches neither the outbox nor the agents and is left out.
\<close>

definition handle_voice_message :: "v3_env \<Rightarrow> pystr \<Rightarrow> pystr \<Rightarrow> v3_state \<Rightarrow> v3_state" where
  "handle_voice_message env phone_number media_url st =
     (let st1 = send_v3 env phone_number voice_processing_message st
      in case download_audio_from_twilio env media_url of
           Inl e \<Rightarrow> send_v3 env phone_number (voice_error_message e) st1
         | Inr ogg_file_path \<Rightarrow>
             (case convert_ogg_to_wav env ogg_file_path of
                Inl e \<Rightarrow> send_v3 env phone_number (voice_error_message e) st1
              | Inr wav_file_path \<Rightarrow>
                  (let st2 = send_v3 env phone_number
                               ([287, 376, 167, 160]
                                  @ U '' Analyzing audio with Master Agent...'') st1
                   in case read_file env wav_file_path of
                        Inl e \<Rightarrow> send_v3 env phone_number (voice_error_message e) st2
                      | Inr audio_data \<Rightarrow>
                          (let st3 = (fst st2
                                        @ [GetPlan (Some (U ''voice message'')) None
                                             (Some audio_data)],
                                      snd st2)
                           in case get_plan (v3_master env) (Some (U ''voice message'')) None
                                     (Some audio_data) of
                                Inl e \<Rightarrow> send_v3 env phone_number (voice_error_message e) st3
                              | Inr plan \<Rightarrow>
                                  respond_to_plan env phone_number ([287, 376, 175] @ U '' '')
                                    (U ''I can help with skill assessment.'') plan st3))))"

definition image_error_message :: "exn \<Rightarrow> pystr" where
  "image_error_message e =
     [226, 338] @ U '' Master Agent error: '' @ str_exn e @ U ''. Please try again.''"

definition handle_image_message ::
  "v3_env \<Rightarrow> pystr \<Rightarrow> pystr \<Rightarrow> pystr \<Rightarrow> v3_state \<Rightarrow> v3_state" where
  "handle_image_message env phone_number media_url caption st =
     (let st1 = send_v3 env phone_number
                  ([287, 376, 8220, 165] @ U '' Downloading your image...'') st
      in case v3_requests_get env media_url
                (account_sid (v3_twilio env), auth_token (v3_twilio env)) of
           Inl e \<Rightarrow> send_v3 env phone_number (image_error_message e) st1
         | Inr response \<Rightarrow>
             if status_code response \<noteq> 200
             then send_v3 env phone_number
                    ([226, 338] @ U '' Sorry, I couldn't download your image. Please try again.'')
                    st1
             else
               (let user_query = (if strip caption \<noteq> [] then caption
                                  else U ''Here is my work sample for job skill assessment'');
                    st2 = send_v3 env phone_number
                            ([287, 376, 167, 160]
                               @ U '' Master Agent analyzing your request...'') st1;
                    st3 = (fst st2
                             @ [GetPlan (Some user_query) (Some (resp_content response)) None],
                           snd st2)
                in case get_plan (v3_master env) (Some user_query)
                          (Some (resp_content response)) None of
                     Inl e \<Rightarrow> send_v3 env phone_number (image_error_message e) st3
                   | Inr plan \<Rightarrow>
                       respond_to_plan env phone_number ([287, 376, 175] @ U '' Master Agent: '')
                         (U ''Processing your skill assessment...'') plan st3))"

text \<open>
  The handler the webhook of \<^verbatim>\<open>whatsapp_app.py\<close> chooses for a request, with the
  arguments it passes.
\<close>

datatype dispatch =
  ImageHandler pystr pystr pystr
| VoiceHandler pystr pystr
| TextHandler pystr pystr
| UnsupportedMedia pystr
| Rejected

definition unsupported_message :: pystr where
  "unsupported_message =
     [287, 376, 8220, 177] @ U '' I can process text messages, images, and voice messages for skill assessments.''"

text \<open>Lines 236 to 259: the fields are read, then the branch is chosen.\<close>

definition classify :: "twilio_form \<Rightarrow> dispatch" where
  "classify form =
     (let from_number = form_get (form_From form) [];
          body = form_get (form_Body form) [];
          media_url = form_get (form_MediaUrl0 form) [];
          media_content_type = form_get (form_MediaContentType0 form) []
      in case py_int (form_get (form_NumMedia form) (U ''0'')) of
           None \<Rightarrow> Rejected
         | Some num_media \<Rightarrow>
             (let phone_number = replace from_number whatsapp_prefix [] in
              if num_media > 0 \<and> media_url \<noteq> [] then
                (if startswith media_content_type (U ''image/'')
                 then ImageHandler phone_number media_url body
                 else if startswith media_content_type (U ''audio/'')
                 then VoiceHandler phone_number media_url
                 else UnsupportedMedia phone_number)
              else TextHandler phone_number body))"

text \<open>
  \<^verbatim>\<open>handle_twilio_webhook\<close> of \<^verbatim>\<open>whatsapp_app.py\<close>: the state after the request and the
  reply, an empty \<^verbatim>\<open>MessagingResponse\<close> on every path.
\<close>

definition handle_twilio_webhook_v3 :: "v3_env \<Rightarrow> twilio_form \<Rightarrow> v3_state \<Rightarrow> v3_state \<times> twiml" where
  "handle_twilio_webhook_v3 env form st =
     (case classify form of
        ImageHandler phone_number media_url body \<Rightarrow>
          (handle_image_message env phone_number media_url body st, [])
      | VoiceHandler phone_number media_url \<Rightarrow>
          (handle_voice_message env phone_number media_url st, [])
      | TextHandler phone_number body \<Rightarrow>
          (handle_text_message_v3 env phone_number body st, [])
      | UnsupportedMedia phone_number \<Rightarrow>
          (send_v3 env phone_number unsupported_message st, [])
      | Rejected \<Rightarrow> (st, []))"

section \<open>The webhook of \<^verbatim>\<open>agents/master_agent.py\<close>\<close>

text \<open>
  The form fields the handler reads from \<^verbatim>\<open>request.values\<close>; \<open>None\<close> is an absent
  field.
\<close>

record webhook_request =
  req_MediaUrl0 :: "pystr option"
  req_MediaContentType0 :: "pystr option"
  req_Body :: "pystr option"
  req_From :: "pystr option"

text \<open>
  \<^verbatim>\<open>types.Content(role='user', parts=[...])\<close> with its one part: inline audio data (MIME
  type and base64 text) or a text.
\<close>

datatype content = AudioContent pystr pystr | TextContent pystr

datatype state_value = HistoryValue "pystr list" | ContentValue content | StrValue pystr

text \<open>
  The session service is the module-level \<^verbatim>\<open>InMemorySessionService()\<close>, one object for
  all requests, and the runner is built on it. It is a store of sessions keyed by
  application, user and session id: \<^verbatim>\<open>create_session\<close> puts a session with the given
  state there and \<^verbatim>\<open>get_session\<close> returns the session stored, or \<open>None\<close>. The state of a
  session is the dictionary the handler sees.
\<close>

type_synonym session_key = "pystr \<times> pystr \<times> pystr"
type_synonym session_state = "(pystr \<times> state_value) list"
type_synonym session_store = "session_key \<Rightarrow> session_state option"

text \<open>\<^verbatim>\<open>d[k] = v\<close> on a dictionary kept as an association list.\<close>

fun dict_set :: "('k \<times> 'v) list \<Rightarrow> 'k \<Rightarrow> 'v \<Rightarrow> ('k \<times> 'v) list" where
  "dict_set [] k v = [(k, v)]"
| "dict_set ((k', v') # d) k v = (if k' = k then (k, v) # d else (k', v') # dict_set d k v)"

text \<open>
  An event of the runner: its author and the texts of the parts of its content
  (\<open>None\<close> when the event has no content or the content has no parts; a part without
  text has text \<open>None\<close>).
\<close>

record event =
  ev_author :: pystr
  ev_parts :: "pystr option list option"

text \<open>The calls the handler makes into the SDKs, in order.\<close>

datatype sdk_call =
  GetSession session_key
| CreateSession session_key
| RequestsGet pystr
| RunAsync pystr pystr content

text \<open>
  A run of the agent, which the handler reads event by event. The runner works on the
  session service while it runs, so every event comes with the store as the run leaves
  it when the handler reads no further. Behind the events the run ends or raises, and
  leaves the last store.
\<close>

record runner_run =
  run_events :: "(event \<times> session_store) list"
  run_raises :: "exn option"
  run_store :: session_store

text \<open>
  The environment of one request: whether a call of the session service raises (the
  first argument of \<open>create_session_raises\<close> tells the first attempt, 0, from the one in
  the \<^verbatim>\<open>except\<close> branch, 1); whether the service hands out the stored session itself, so
  that what the handler writes into its state is written into the store, or a copy of
  it; what the media download returns; the base64 encoder; and the run of the agent on
  a store, for a user, a session id and a message.
\<close>

record master_env =
  get_session_raises :: "session_key \<Rightarrow> exn option"
  create_session_raises :: "nat \<Rightarrow> session_key \<Rightarrow> exn option"
  hands_out_stored :: bool
  twilio_auth :: "pystr \<times> pystr"
  requests_get :: "pystr \<Rightarrow> pystr \<times> pystr \<Rightarrow> exn + http_response"
  b64encode :: "nat list \<Rightarrow> pystr"
  run_async :: "session_store \<Rightarrow> pystr \<Rightarrow> pystr \<Rightarrow> content \<Rightarrow> runner_run"

definition app_name :: pystr where
  "app_name = U ''multimodal_assessment_app''"

definition initial_state :: session_state where
  "initial_state = [(U ''conversation_history'', HistoryValue [])]"

text \<open>\<^verbatim>\<open>sender_number = request.values.get('From', 'Unknown')\<close>\<close>

definition sender_number :: "webhook_request \<Rightarrow> pystr" where
  "sender_number req = (case req_From req of None \<Rightarrow> U ''Unknown'' | Some f \<Rightarrow> f)"

definition session_id_of :: "pystr \<Rightarrow> pystr" where
  "session_id_of sender =
     U ''twilio_'' @ replace (replace sender (U '':'') (U ''_'')) (U ''+'') []"


text \<open>
  The nested \<^verbatim>\<open>get_or_create_session\<close>: the session found, or a new one; when the
  lookup or the creation raises, one more \<^verbatim>\<open>create_session\<close>. The result is the calls
  made, the store, and the session or the exception of the second creation.
\<close>

definition get_or_create_session ::
  "master_env \<Rightarrow> session_store \<Rightarrow> session_key
     \<Rightarrow> sdk_call list \<times> session_store \<times> (exn + session_state)" where
  "get_or_create_session env store k =
     (let fallback = (\<lambda>calls.
            case create_session_raises env 1 k of
              Some e \<Rightarrow> (calls @ [CreateSession k], store, Inl e)
            | None \<Rightarrow> (calls @ [CreateSession k], store(k \<mapsto> initial_state),
                        Inr initial_state))
      in case get_session_raises env k of
           Some e \<Rightarrow> fallback [GetSession k]
         | None \<Rightarrow>
             (case store k of
                Some session \<Rightarrow> ([GetSession k], store, Inr session)
              | None \<Rightarrow>
                  (case create_session_raises env 0 k of
                     Some e \<Rightarrow> fallback [GetSession k, CreateSession k]
                   | None \<Rightarrow> ([GetSession k, CreateSession k], store(k \<mapsto> initial_state),
                               Inr initial_state))))"

text \<open>
  The loop of the nested \<^verbatim>\<open>run_agent_and_collect_response\<close>: the text of the first part
  of the first event that has parts, where the handler stops reading. Slicing the text
  of a part that has none raises \<^verbatim>\<open>TypeError\<close>. Without such an event the result is the
  preset text, unless the run raised. The store is the one the run has left by then.
\<close>

fun collect_response ::
  "(event \<times> session_store) list \<Rightarrow> exn option \<Rightarrow> session_store
     \<Rightarrow> session_store \<times> (exn + pystr)" where
  "collect_response [] None store = (store, Inr (U ''Processing complete.''))"
| "collect_response [] (Some e) store = (store, Inl e)"
| "collect_response ((ev, store_then) # evs) raised store =
     (case ev_parts ev of
        Some (part # parts) \<Rightarrow>
          (case part of
             None \<Rightarrow> (store_then,
                       Inl (Exn TypeError (quoted ''NoneType'' @ U '' object is not subscriptable'')))
           | Some t \<Rightarrow> (store_then, Inr t))
      | _ \<Rightarrow> collect_response evs raised store)"

definition run_agent_and_collect_response ::
  "master_env \<Rightarrow> session_store \<Rightarrow> pystr \<Rightarrow> pystr \<Rightarrow> content
     \<Rightarrow> session_store \<times> (exn + pystr)" where
  "run_agent_and_collect_response env store user_id session_id content =
     (let run = run_async env store user_id session_id content
      in collect_response (run_events run) (run_raises run) (run_store run))"

definition apology :: pystr where
  "apology = U ''I encountered an error processing your request. Please try again later.''"

definition default_message :: pystr where
  "default_message = U ''Hello! I'm your Google Ask Agent. Send me a voice note for audio assessment or text message for general assistance.''"

text \<open>
  Lines 90 to 140 of the handler: the content for the agent and the session state with
  it stored, or \<open>None\<close> when there is neither media nor text. \<^verbatim>\<open>raise_for_status\<close>
  raises on a status from 400 to 599.
\<close>

definition webhook_content ::
  "master_env \<Rightarrow> webhook_request \<Rightarrow> session_state
     \<Rightarrow> sdk_call list \<times> (exn + (content \<times> session_state) option)" where
  "webhook_content env req session =
     (let text_message = strip (case req_Body req of None \<Rightarrow> [] | Some b \<Rightarrow> b) in
      if truthy (req_MediaUrl0 req) \<and> truthy (req_MediaContentType0 req) then
        (let media_url = the (req_MediaUrl0 req); media_type = the (req_MediaContentType0 req) in
         case requests_get env media_url (twilio_auth env) of
           Inl e \<Rightarrow> ([RequestsGet media_url], Inl e)
         | Inr response \<Rightarrow>
             if 400 \<le> status_code response \<and> status_code response < 600
             then ([RequestsGet media_url], Inl (Exn SDKError (U ''HTTPError'')))
             else (let content = AudioContent media_type (b64encode env (resp_content response))
                   in ([RequestsGet media_url],
                       Inr (Some (content,
                         dict_set (dict_set session (U ''input_content'') (ContentValue content))
                           (U ''input_type'') (StrValue (U ''audio'')))))))
      else if text_message \<noteq> [] then
        (let content = TextContent text_message
         in ([], Inr (Some (content,
               dict_set (dict_set session (U ''input_content'') (ContentValue content))
                 (U ''input_type'') (StrValue (U ''text''))))))
      else ([], Inr None))"

text \<open>
  The store after the handler has written the content into the state of its session:
  changed at the key of the session when the service hands out the stored object.
\<close>

definition written_store ::
  "master_env \<Rightarrow> session_store \<Rightarrow> session_key \<Rightarrow> session_state \<Rightarrow> session_store" where
  "written_store env store k session =
     (if hands_out_stored env then store(k \<mapsto> session) else store)"

text \<open>
  The \<^verbatim>\<open>try\<close> block of \<^verbatim>\<open>twilio_webhook\<close>. Every statement that can raise stands before
  the first message is put into the response, so an exception leaves the response
  empty.
\<close>

definition webhook_try ::
  "master_env \<Rightarrow> session_store \<Rightarrow> webhook_request
     \<Rightarrow> sdk_call list \<times> session_store \<times> (exn + twiml)" where
  "webhook_try env store req =
     (let session_id = session_id_of (sender_number req);
          user_id = sender_number req
      in case get_or_create_session env store (app_name, user_id, session_id) of
           (calls, store', Inl e) \<Rightarrow> (calls, store', Inl e)
         | (calls, store', Inr session) \<Rightarrow>
             (case webhook_content env req session of
                (calls', Inl e) \<Rightarrow> (calls @ calls', store', Inl e)
              | (calls', Inr None) \<Rightarrow> (calls @ calls', store', Inr [default_message])
              | (calls', Inr (Some (content, session'))) \<Rightarrow>
                  (case run_agent_and_collect_response env
                          (written_store env store' (app_name, user_id, session_id) session')
                          user_id session_id content of
                     (store'', Inl e) \<Rightarrow>
                       (calls @ calls' @ [RunAsync user_id session_id content], store'', Inl e)
                   | (store'', Inr result) \<Rightarrow>
                       (calls @ calls' @ [RunAsync user_id session_id content], store'',
                        Inr [if length result > 1600 then take 1597 result @ U ''...''
                             else result]))))"

text \<open>
  \<^verbatim>\<open>twilio_webhook\<close>: the calls made, the session store after the request, and the reply.
\<close>

definition twilio_webhook ::
  "master_env \<Rightarrow> session_store \<Rightarrow> webhook_request \<Rightarrow> sdk_call list \<times> session_store \<times> twiml" where
  "twilio_webhook env store req =
     (case webhook_try env store req of
        (calls, store', Inr reply) \<Rightarrow> (calls, store', reply)
      | (calls, store', Inl e) \<Rightarrow> (calls, store', [apology]))"

section \<open>Example environments\<close>

definition example_api :: twilio_api where
  "example_api =
     \<lparr>account_sid = U ''AC0'', auth_token = U ''secret'',
      from_number = Some (U ''+14155238886''), messages_create = (\<lambda>outbox call. True)\<rparr>"

text \<open>
  An environment in which no call raises, the download succeeds, the service hands out
  copies, and the runner yields one event with the given text and leaves the store as
  it is.
\<close>

definition example_env :: "pystr \<Rightarrow> master_env" where
  "example_env answer =
     \<lparr>get_session_raises = (\<lambda>k. None), create_session_raises = (\<lambda>n k. None),
      hands_out_stored = False,
      twilio_auth = (U ''AC0'', U ''secret''),
      requests_get = (\<lambda>url auth. Inr \<lparr>status_code = 200, resp_content = []\<rparr>),
      b64encode = (\<lambda>bytes. []),
      run_async = (\<lambda>store user_id session_id content.
        \<lparr>run_events = [(\<lparr>ev_author = U ''GoogleAskAgent'', ev_parts = Some [Some answer]\<rparr>,
                         store)],
         run_raises = None, run_store = store\<rparr>)\<rparr>"

definition text_request :: webhook_request where
  "text_request =
     \<lparr>req_MediaUrl0 = None, req_MediaContentType0 = None, req_Body = Some (U ''hello''),
      req_From = Some (U ''whatsapp:+15551234567'')\<rparr>"

text \<open>
  A plan with the given instructions from a master agent that never raises, an
  instruction for the stitching assessor with the given role, and a host whose image
  library accepts everything.
\<close>

definition example_instruction :: "pystr option \<Rightarrow> instruction" where
  "example_instruction role =
     \<lparr>agent_name = Some (U ''StitchingAssessorAgent''),
      task_context = Some \<lparr>ctx_image_path = None, ctx_role = role,
                           ctx_skill_to_assess = Some (U ''stitching'')\<rparr>\<rparr>"

definition example_master :: "instruction list option \<Rightarrow> master_agent" where
  "example_master instrs =
     \<lparr>get_plan = (\<lambda>user_query image_data audio_data.
        Inr \<lparr>response_to_user = Some (U ''Send your sample''),
             sub_agent_instructions = instrs\<rparr>),
      get_final_verdict = (\<lambda>role results.
        Inr \<lparr>verdict_response = Some (U ''Well done''), decision = Some (U ''PASS'')\<rparr>)\<rparr>"

definition example_host :: host_env where
  "example_host = \<lparr>pil_verify = (\<lambda>bytes. None), test_image = Inr [255, 216]\<rparr>"

text \<open>
  Inbound forms with and without media, an environment of the WhatsApp agent in which
  no call raises, and an environment of \<^verbatim>\<open>agent.py\<close> whose model answers with the given
  text, which is not JSON.
\<close>

definition media_form :: "pystr \<Rightarrow> twilio_form" where
  "media_form content_type =
     \<lparr>form_From = Some (U ''whatsapp:+15551234567''), form_Body = Some (U ''my work''),
      form_MediaUrl0 = Some (U ''https://api.twilio.com/m1''),
      form_MediaContentType0 = Some content_type, form_NumMedia = Some (U ''1'')\<rparr>"

definition plain_form :: "pystr option \<Rightarrow> twilio_form" where
  "plain_form num_media =
     \<lparr>form_From = Some (U ''whatsapp:+15551234567''), form_Body = Some (U ''hello''),
      form_MediaUrl0 = None, form_MediaContentType0 = None, form_NumMedia = num_media\<rparr>"

definition example_v3 :: "master_agent \<Rightarrow> v3_env" where
  "example_v3 master =
     \<lparr>v3_twilio = example_api, v3_master = master, v3_host = example_host,
      v3_requests_get = (\<lambda>url auth. Inr \<lparr>status_code = 200, resp_content = [255, 216]\<rparr>),
      save_temp_file = (\<lambda>bytes. Inr (U ''/tmp/voice.ogg'')),
      convert_audio = (\<lambda>path. None),
      read_file = (\<lambda>path. Inr [82, 73, 70, 70])\<rparr>"

definition example_gemini :: "pystr \<Rightarrow> gemini_env" where
  "example_gemini reply =
     \<lparr>image_open_raises = (\<lambda>bytes. None), generate_content = (\<lambda>bytes. Inr reply),
      json_loads = (\<lambda>s. JSONDecodeError)\<rparr>"

definition example_agent :: "pystr \<Rightarrow> agent_env" where
  "example_agent reply =
     \<lparr>twilio = example_api,
      media_get = (\<lambda>url auth. Inr \<lparr>status_code = 200, resp_content = [255, 216]\<rparr>),
      gemini = example_gemini reply,
      repr_of = (\<lambda>v. U ''...'')\<rparr>"




text \<open>
  A host that may not read its test image, an instruction for an agent the library does
  not hold, and a master agent whose calls raise: the planning when it has no
  instructions to give, and the verdict always.
\<close>

definition denied :: exn where
  "denied = Exn SDKError (U ''[Errno 13] Permission denied: '' @ quoted ''test_stitch.jpg'')"

definition unreadable_host :: host_env where
  "unreadable_host = \<lparr>pil_verify = (\<lambda>bytes. None), test_image = Inl denied\<rparr>"

definition unknown_instruction :: instruction where
  "unknown_instruction =
     \<lparr>agent_name = Some (U ''CuttingAssessorAgent''),
      task_context = Some \<lparr>ctx_image_path = None, ctx_role = Some (U ''Tailor''),
                           ctx_skill_to_assess = Some (U ''cutting'')\<rparr>\<rparr>"

definition quota :: exn where
  "quota = Exn SDKError (U ''quota exceeded'')"

definition failing_master :: "instruction list option \<Rightarrow> master_agent" where
  "failing_master instrs =
     \<lparr>get_plan = (\<lambda>user_query image_data audio_data.
        case instrs of
          None \<Rightarrow> Inl quota
        | Some planned \<Rightarrow> Inr \<lparr>response_to_user = None, sub_agent_instructions = instrs\<rparr>),
      get_final_verdict = (\<lambda>role results. Inl quota)\<rparr>"



text \<open>
  An assessment with values of the declared types: three issues and no tips, rated 7 and
  passed.
\<close>

definition passed_sample :: stitching_assessment where
  "passed_sample =
     \<lparr>image_url = U ''https://api.twilio.com/m1'', quality_rating = PyInt 7,
      improvement_suggestions = PyList [], stitch_type = PyStr (U ''running stitch''),
      technical_issues =
        PyList [PyStr (U ''uneven tension''), PyStr (U ''loose ends''), PyStr (U ''puckering'')],
      professional_grade = PyStr (U ''ADVANCED''), pass_fail = PyStr (U ''Pass''),
      user_phone = U ''+15551234567''\<rparr>"






section \<open>Facts about strings\<close>

lemma length_U: "length (U s) = length s"
  by (simp add: U_def)

lemma startswith_append: "startswith (p @ s) p"
  by (simp add: startswith_def)

lemma replace_Nil: "old \<noteq> [] \<Longrightarrow> replace [] old new = []"
  by (simp add: replace.simps)

lemma replace_no_occurrence:
  "old \<noteq> [] \<Longrightarrow> \<not> contains s old \<Longrightarrow> replace s old new = s"
proof (induction s)
  case Nil
  then show ?case by (simp add: replace_Nil)
next
  case (Cons c s)
  from Cons.prems have "\<not> startswith (c # s) old" and "\<not> contains s old"
    by simp_all
  with Cons.IH Cons.prems(1) show ?case
    by (subst replace.simps) simp
qed

lemma replace_at_occurrence:
  "old \<noteq> [] \<Longrightarrow> replace (old @ s) old new = new @ replace s old new"
  by (subst replace.simps) (simp add: startswith_append)

lemma whatsapp_prefix_not_Nil: "whatsapp_prefix \<noteq> []"
  by (simp add: whatsapp_prefix_def U_def)

section \<open>The recipient of an outbound message\<close>

text \<open>
  C9. In both \<^verbatim>\<open>send_message\<close> methods exactly one call reaches the Twilio client, and
  its recipient begins with \<^verbatim>\<open>whatsapp:\<close>. Prefixing is idempotent, and a recipient that
  already begins with \<^verbatim>\<open>whatsapp:\<close> is passed on unchanged. The webhook strips an inbound
  \<^verbatim>\<open>From\<close> value with \<^verbatim>\<open>replace('whatsapp:', '')\<close>; for a bare number, one in which
  \<^verbatim>\<open>whatsapp:\<close> does not occur, prefixing and then stripping gives the number back.
\<close>

theorem recipient_prefixed_and_round_trip:
  "snd (send_message api to message outbox)
     = outbox @ [\<lparr>msg_from = from_number api, msg_body = message,
                   msg_to = whatsapp_recipient to\<rparr>]
   \<and> (from_number api = Some sender \<longrightarrow>
        snd (send_message_v3 api to message outbox)
          = outbox @ [\<lparr>msg_from = Some (whatsapp_recipient sender), msg_body = message,
                        msg_to = whatsapp_recipient to\<rparr>])
   \<and> startswith (whatsapp_recipient to) whatsapp_prefix
   \<and> (startswith to whatsapp_prefix \<longrightarrow> whatsapp_recipient to = to)
   \<and> whatsapp_recipient (whatsapp_recipient to) = whatsapp_recipient to
   \<and> (\<not> contains to whatsapp_prefix \<longrightarrow>
        replace (whatsapp_recipient to) whatsapp_prefix [] = to)"
proof -
  have p: "startswith (whatsapp_recipient to) whatsapp_prefix"
    by (simp add: whatsapp_recipient_def startswith_append)
  have idem: "whatsapp_recipient (whatsapp_recipient to) = whatsapp_recipient to"
    using p by (simp add: whatsapp_recipient_def)
  have round: "replace (whatsapp_recipient to) whatsapp_prefix [] = to"
    if bare: "\<not> contains to whatsapp_prefix"
  proof -
    have "\<not> startswith to whatsapp_prefix"
      using bare whatsapp_prefix_not_Nil by (cases to) (auto simp: startswith_def)
    then have "whatsapp_recipient to = whatsapp_prefix @ to"
      by (simp add: whatsapp_recipient_def)
    then show ?thesis
      using bare
      by (simp add: replace_at_occurrence replace_no_occurrence whatsapp_prefix_not_Nil)
  qed
  show ?thesis
    using p idem round
    by (simp add: send_message_def send_message_v3_def Let_def whatsapp_recipient_def)
qed

text \<open>
  The theorem at a bare number and at the same number with the prefix, with the
  default sender.
\<close>

theorem recipient_prefixed_and_round_trip_witness:
  "from_number example_api = Some (U ''+14155238886'')
   \<and> snd (send_message_v3 example_api (U ''+15551234567'') (U ''hello'') [])
       = [\<lparr>msg_from = Some (U ''whatsapp:+14155238886''), msg_body = U ''hello'',
            msg_to = U ''whatsapp:+15551234567''\<rparr>]
   \<and> startswith (U ''whatsapp:+15551234567'') whatsapp_prefix
   \<and> whatsapp_recipient (U ''whatsapp:+15551234567'') = U ''whatsapp:+15551234567''
   \<and> \<not> contains (U ''+15551234567'') whatsapp_prefix
   \<and> replace (whatsapp_recipient (U ''+15551234567'')) whatsapp_prefix [] = U ''+15551234567''"
proof -
  have pre: "startswith (U ''whatsapp:+15551234567'') whatsapp_prefix"
    by (simp add: U_def whatsapp_prefix_def startswith_def)
  have bare: "\<not> contains (U ''+15551234567'') whatsapp_prefix"
    by (simp add: U_def whatsapp_prefix_def startswith_def)
  have sender: "from_number example_api = Some (U ''+14155238886'')"
    by (simp add: example_api_def)
  have rec: "whatsapp_recipient (U ''+14155238886'') = U ''whatsapp:+14155238886''"
       "whatsapp_recipient (U ''+15551234567'') = U ''whatsapp:+15551234567''"
    by (simp_all add: whatsapp_recipient_def U_def whatsapp_prefix_def startswith_def)
  from recipient_prefixed_and_round_trip
    [of example_api "U ''+15551234567''" "U ''hello''" "[]" "U ''+14155238886''"]
    recipient_prefixed_and_round_trip
    [of example_api "U ''whatsapp:+15551234567''" "U ''hello''" "[]" "U ''+14155238886''"]
    pre bare sender rec
  show ?thesis by simp
qed

section \<open>The length limit of the reply\<close>

text \<open>
  C7. In \<^verbatim>\<open>twilio_webhook\<close>, when the session is there, the request has content and the
  agent answers with \<open>result\<close>: an answer longer than 1600 code points is replied as
  its first 1597 code points followed by three dots, which are 1600 code points; an
  answer of at most 1600 code points is replied unchanged.
\<close>

theorem twilio_webhook_truncation:
  assumes "get_or_create_session env store
             (app_name, sender_number req, session_id_of (sender_number req))
             = (calls, store', Inr session)"
    and "webhook_content env req session = (calls', Inr (Some (content, session')))"
    and "run_agent_and_collect_response env
           (written_store env store'
              (app_name, sender_number req, session_id_of (sender_number req)) session')
           (sender_number req) (session_id_of (sender_number req)) content
         = (store'', Inr result)"
  shows "(length result > 1600 \<longrightarrow>
            snd (snd (twilio_webhook env store req)) = [take 1597 result @ U ''...'']
            \<and> length (take 1597 result @ U ''...'') = 1600)
         \<and> (length result \<le> 1600 \<longrightarrow> snd (snd (twilio_webhook env store req)) = [result])"
  using assms
  by (auto simp: twilio_webhook_def webhook_try_def Let_def length_U)

text \<open>
  The theorem at an answer of 1601 code points and at a short answer to a text message.
\<close>

theorem twilio_webhook_truncation_witness:
  "snd (snd (twilio_webhook (example_env (replicate 1601 97)) Map.empty text_request))
     = [replicate 1597 97 @ U ''...'']
   \<and> length (replicate 1597 (97::nat) @ U ''...'') = 1600
   \<and> snd (snd (twilio_webhook (example_env (U ''Welcome'')) Map.empty text_request))
     = [U ''Welcome'']"
proof -
  let ?sender = "sender_number text_request"
  let ?key = "(app_name, ?sender, session_id_of ?sender)"
  have strip_hello: "strip (U ''hello'') = U ''hello''"
    by (simp add: strip_def U_def is_space_def)
  have s: "\<And>a. get_or_create_session (example_env a) Map.empty ?key
             = ([GetSession ?key, CreateSession ?key], Map.empty(?key \<mapsto> initial_state),
                Inr initial_state)"
    by (simp add: get_or_create_session_def example_env_def)
  have c: "\<And>a. webhook_content (example_env a) text_request initial_state
             = ([], Inr (Some (TextContent (U ''hello''),
                  dict_set (dict_set initial_state (U ''input_content'')
                    (ContentValue (TextContent (U ''hello''))))
                    (U ''input_type'') (StrValue (U ''text'')))))"
    by (simp add: webhook_content_def text_request_def strip_hello Let_def) (simp add: U_def)
  have r: "\<And>a st u i c. run_agent_and_collect_response (example_env a) st u i c = (st, Inr a)"
    by (simp add: run_agent_and_collect_response_def example_env_def Let_def)
  from twilio_webhook_truncation [OF s c r, of "replicate 1601 97"]
       twilio_webhook_truncation [OF s c r, of "U ''Welcome''"]
  show ?thesis by (simp add: length_U)
qed

section \<open>State kept between requests\<close>






section \<open>The fallback parser\<close>

lemma decimal_in_less_10: "decimal_in ranges c = Some d \<Longrightarrow> d < 10"
  by (induction ranges c rule: decimal_in.induct) (auto split: if_splits)

lemma decimal_value_less_10: "decimal_value c = Some d \<Longrightarrow> d < 10"
  unfolding decimal_value_def by (rule decimal_in_less_10)

lemma decimal_ascii:
  "c < 128 \<Longrightarrow> decimal_value c = (if 48 \<le> c \<and> c \<le> 57 then Some (c - 48) else None)"
  by (simp add: decimal_value_def decimal_ranges_def)

lemma space_not_decimal: "is_space c \<Longrightarrow> decimal_value c = None"
  unfolding is_space_def decimal_value_def decimal_ranges_def
  by (elim disjE conjE) simp_all

lemma digit_not_sep: "is_decimal c \<Longrightarrow> \<not> is_sep c"
  using space_not_decimal [of c]
  by (auto simp: is_sep_def is_decimal_def decimal_value_def decimal_ranges_def)

text \<open>\<^verbatim>\<open>int\<close> on a run of decimal digits: the number, or the refusal at the limit.\<close>

lemma to_ascii_decimal_digits:
  "\<forall>c\<in>set ds. is_decimal c \<Longrightarrow> to_ascii_decimal ds = Some (map ascii_of ds)"
proof (induction ds)
  case Nil
  then show ?case by simp
next
  case (Cons c ds)
  then have d: "is_decimal c" and ih: "to_ascii_decimal ds = Some (map ascii_of ds)"
    by simp_all
  from d obtain v where v: "decimal_value c = Some v"
    by (auto simp: is_decimal_def)
  have ns: "\<not> is_space c"
    using v space_not_decimal [of c] by auto
  show ?case
  proof (cases "c < 128")
    case True
    with v have "48 \<le> c \<and> c \<le> 57 \<and> v = c - 48"
      by (auto simp: decimal_ascii split: if_splits)
    then have "ascii_of c = c" using v by (simp add: ascii_of_def)
    with True ih show ?thesis by simp
  next
    case False
    with ns v ih show ?thesis by (simp add: ascii_of_def)
  qed
qed

lemma ascii_of_digit: "is_decimal c \<Longrightarrow> ascii_digit (ascii_of c)"
proof -
  assume "is_decimal c"
  then obtain v where v: "decimal_value c = Some v" by (auto simp: is_decimal_def)
  then have "v < 10" by (rule decimal_value_less_10)
  with v show ?thesis by (simp add: ascii_of_def ascii_digit_def)
qed

lemma digit_groups_digits:
  "ds \<noteq> [] \<Longrightarrow> \<forall>c\<in>set ds. ascii_digit c \<Longrightarrow> digit_groups ds"
proof (induction ds rule: digit_groups.induct)
  case 1
  then show ?case by simp
next
  case (2 c)
  then show ?case by simp
next
  case (3 c d s)
  then have "d \<noteq> 95" by (auto simp: ascii_digit_def)
  with 3 show ?case by simp
qed

lemma ascii_digit_not_space: "ascii_digit c \<Longrightarrow> \<not> ascii_space c"
  by (auto simp: ascii_digit_def ascii_space_def)

lemma ascii_int_digits:
  assumes "ds \<noteq> []" and "\<forall>c\<in>set ds. ascii_digit c"
  shows "ascii_int ds =
           (if length ds \<le> int_max_str_digits then Some (int_of_digits ds) else None)"
proof -
  obtain c r where ds: "ds = c # r" using assms(1) by (cases ds) auto
  have c: "ascii_digit c" using assms(2) ds by simp
  have front: "dropWhile ascii_space ds = ds"
    using ds c by (simp add: ascii_digit_not_space)
  have sign: "sign_and_digits ds = (False, ds)"
    using ds c by (auto simp: sign_and_digits_def ascii_digit_def)
  have "ascii_digit (last ds)" using assms by simp
  then have "dropWhile ascii_space (rev ds) = rev ds"
    using assms(1) by (cases "rev ds") (auto simp: ascii_digit_not_space last_rev hd_rev
        dest: arg_cong [where f = hd])
  then have behind: "rev (dropWhile ascii_space (rev ds)) = ds" by simp
  have f: "filter ascii_digit ds = ds" using assms(2) by (simp add: filter_id_conv)
  show ?thesis
    using digit_groups_digits [OF assms]
    by (simp add: ascii_int_def front sign behind f Let_def)
qed

lemma int_of_ascii_digits:
  "\<forall>c\<in>set ds. is_decimal c \<Longrightarrow>
     foldl (\<lambda>acc d. 10 * acc + int (d - 48)) a (filter ascii_digit (map ascii_of ds))
       = foldl (\<lambda>acc d. 10 * acc + int (the (decimal_value d))) a ds"
proof (induction ds arbitrary: a)
  case Nil
  then show ?case by simp
next
  case (Cons c ds)
  then have "ascii_digit (ascii_of c)" by (simp add: ascii_of_digit)
  moreover have "ascii_of c - 48 = the (decimal_value c)" by (simp add: ascii_of_def)
  ultimately show ?case using Cons by simp
qed

lemma py_int_decimal_run:
  assumes "ds \<noteq> []" and "\<forall>c\<in>set ds. is_decimal c"
  shows "py_int ds =
           (if length ds \<le> int_max_str_digits then Some (decimal_number ds) else None)"
proof -
  have a: "to_ascii_decimal ds = Some (map ascii_of ds)"
    using assms(2) by (rule to_ascii_decimal_digits)
  have "ascii_int (map ascii_of ds) =
          (if length (map ascii_of ds) \<le> int_max_str_digits
           then Some (int_of_digits (map ascii_of ds)) else None)"
    using assms by (intro ascii_int_digits) (auto simp: ascii_of_digit)
  moreover have "int_of_digits (map ascii_of ds) = decimal_number ds"
    unfolding int_of_digits_def decimal_number_def
    using assms(2) by (rule int_of_ascii_digits)
  ultimately show ?thesis by (simp add: py_int_def a)
qed

text \<open>The matcher finds what the pattern asks for.\<close>

lemma rating_match_at_decomposed:
  assumes w: "list_all2 ci_match (U ''rating'') w"
    and sep: "\<forall>c\<in>set sep. is_sep c"
    and d: "digits \<noteq> []" "\<forall>c\<in>set digits. is_decimal c"
    and rest: "rest = [] \<or> \<not> is_decimal (hd rest)"
  shows "rating_match_at (w @ sep @ digits @ rest) = Some digits"
proof -
  have lw: "length w = 6"
    using list_all2_lengthD [OF w] by (simp add: length_U)
  have "\<not> is_sep (hd digits)"
    using d by (cases digits) (auto simp: digit_not_sep)
  then have dw: "dropWhile is_sep (sep @ digits @ rest) = digits @ rest"
    using sep d(1) by (cases digits) (auto simp: dropWhile_append)
  have tw: "takeWhile is_decimal (digits @ rest) = digits"
    using d(2) rest by (cases rest) (auto simp: takeWhile_append)
  show ?thesis
    using w d(1) by (simp add: rating_match_at_def lw dw tw)
qed

lemma rating_match_at_digits:
  "rating_match_at s = Some digits \<Longrightarrow> digits \<noteq> [] \<and> (\<forall>c\<in>set digits. is_decimal c)"
  by (auto simp: rating_match_at_def Let_def split: if_splits dest: set_takeWhileD)

lemma rating_here_iff: "rating_here s \<longleftrightarrow> rating_match_at s \<noteq> None"
proof
  assume "rating_here s"
  then obtain w sep d rest where s: "s = w @ sep @ d # rest"
    and w: "list_all2 ci_match (U ''rating'') w" and sep: "\<forall>c\<in>set sep. is_sep c"
    and d: "is_decimal d"
    unfolding rating_here_def by blast
  let ?digits = "d # takeWhile is_decimal rest"
  let ?rest = "dropWhile is_decimal rest"
  have "rating_match_at (w @ sep @ ?digits @ ?rest) = Some ?digits"
    using w sep
  proof (rule rating_match_at_decomposed)
    show "?digits \<noteq> []" by simp
    show "\<forall>c\<in>set ?digits. is_decimal c" using d by (auto dest: set_takeWhileD)
    show "?rest = [] \<or> \<not> is_decimal (hd ?rest)"
      by (metis hd_dropWhile)
  qed
  then show "rating_match_at s \<noteq> None" using s by simp
next
  assume "rating_match_at s \<noteq> None"
  then have l: "6 \<le> length s" and w: "list_all2 ci_match (U ''rating'') (take 6 s)"
    and ne: "takeWhile is_decimal (dropWhile is_sep (drop 6 s)) \<noteq> []"
    by (auto simp: rating_match_at_def Let_def split: if_splits)
  from ne obtain d rest where dr: "dropWhile is_sep (drop 6 s) = d # rest" and d: "is_decimal d"
    by (cases "dropWhile is_sep (drop 6 s)") (auto split: if_splits)
  have "s = take 6 s @ takeWhile is_sep (drop 6 s) @ d # rest"
    using dr by (metis append_take_drop_id takeWhile_dropWhile_id)
  moreover have "\<forall>c\<in>set (takeWhile is_sep (drop 6 s)). is_sep c"
    by (auto dest: set_takeWhileD)
  ultimately show "rating_here s"
    unfolding rating_here_def using w d by blast
qed

lemma rating_match_at_Nil: "rating_match_at [] = None"
  by (simp add: rating_match_at_def)

lemma search_rating_skip:
  "\<forall>k<length pre. \<not> rating_here (drop k (pre @ s)) \<Longrightarrow>
     search_rating (pre @ s) = search_rating s"
proof (induction pre)
  case Nil
  then show ?case by simp
next
  case (Cons c pre)
  from Cons.prems have "\<not> rating_here (drop 0 ((c # pre) @ s))"
    by (metis length_greater_0_conv list.distinct(1))
  then have here: "rating_match_at (c # pre @ s) = None" by (simp add: rating_here_iff)
  have "\<forall>k<length pre. \<not> rating_here (drop k (pre @ s))"
  proof (intro allI impI)
    fix k assume "k < length pre"
    then have "Suc k < length (c # pre)" by simp
    with Cons.prems have "\<not> rating_here (drop (Suc k) ((c # pre) @ s))" by blast
    then show "\<not> rating_here (drop k (pre @ s))" by simp
  qed
  with Cons.IH here show ?case by simp
qed

lemma search_rating_here:
  "rating_match_at s = Some digits \<Longrightarrow> search_rating s = Some digits"
  by (cases s) (simp_all add: rating_match_at_Nil)

lemma search_rating_none:
  "\<forall>k. \<not> rating_here (drop k body) \<Longrightarrow> search_rating body = None"
proof (induction body)
  case Nil
  then show ?case by simp
next
  case (Cons c body)
  from Cons.prems have "\<not> rating_here (drop 0 (c # body))" by blast
  then have "rating_match_at (c # body) = None" by (simp add: rating_here_iff)
  moreover have "\<forall>k. \<not> rating_here (drop k body)"
  proof
    fix k from Cons.prems have "\<not> rating_here (drop (Suc k) (c # body))" by blast
    then show "\<not> rating_here (drop k body)" by simp
  qed
  ultimately show ?case using Cons.IH by simp
qed

lemma search_rating_none_conv:
  "search_rating body = None \<Longrightarrow> \<not> rating_here (drop k body)"
proof (induction body arbitrary: k)
  case Nil
  then show ?case by (simp add: rating_here_iff rating_match_at_Nil)
next
  case (Cons c body)
  then show ?case by (cases k) (auto simp: rating_here_iff split: option.splits)
qed

lemma search_rating_digits:
  "search_rating s = Some digits \<Longrightarrow> digits \<noteq> [] \<and> (\<forall>c\<in>set digits. is_decimal c)"
proof (induction s)
  case Nil
  then show ?case by simp
next
  case (Cons c s)
  then show ?case
    by (cases "rating_match_at (c # s)") (auto dest: rating_match_at_digits)
qed

lemma search_rating_first_match:
  assumes w: "list_all2 ci_match (U ''rating'') w"
    and sep: "\<forall>c\<in>set sep. is_sep c"
    and d: "digits \<noteq> []" "\<forall>c\<in>set digits. is_decimal c"
    and rest: "rest = [] \<or> \<not> is_decimal (hd rest)"
    and earlier: "\<forall>k<length pre. \<not> rating_here (drop k (pre @ w @ sep @ digits @ rest))"
  shows "search_rating (pre @ w @ sep @ digits @ rest) = Some digits"
proof -
  have "rating_match_at (w @ sep @ digits @ rest) = Some digits"
    using w sep d rest by (rule rating_match_at_decomposed)
  then have "search_rating (w @ sep @ digits @ rest) = Some digits"
    by (rule search_rating_here)
  moreover have "search_rating (pre @ (w @ sep @ digits @ rest))
                   = search_rating (w @ sep @ digits @ rest)"
    using earlier by (rule search_rating_skip)
  ultimately show ?thesis by simp
qed

lemma fallback_analysis_keys:
  "subscript (fallback_analysis n) ''quality_rating'' = Inr (PyInt n)"
  "subscript (fallback_analysis n) ''pass_fail''
     = Inr (PyStr (if 7 \<le> n then U ''pass'' else U ''fail''))"
  by (auto simp: fallback_analysis_def U_def)


text \<open>
  C8, as stated, fails: in \<^verbatim>\<open>The rating is 8\<close> the first integer that follows the word is
  8, but the pattern wants only colons and whitespace between the word and the digits,
  so the parser finds no match and returns the rating 5 and \<^verbatim>\<open>fail\<close>.
\<close>

theorem rating_not_first_integer_counterexample:
  "parse_fallback_response (U ''The rating is 8'') = Inr (fallback_analysis 5)
   \<and> subscript (fallback_analysis 5) ''quality_rating'' = Inr (PyInt 5)
   \<and> subscript (fallback_analysis 5) ''pass_fail'' = Inr (PyStr (U ''fail''))
   \<and> claimed_rating (U ''The rating is 8'') = Some 8"
proof -
  note ev = rating_match_at_def U_def ci_match_def is_decimal_def decimal_value_def
    decimal_ranges_def is_sep_def is_space_def
  have "search_rating (U ''The rating is 8'') = None"
    by (simp add: ev)
  then have 1: "parse_fallback_response (U ''The rating is 8'') = Inr (fallback_analysis 5)"
    by (simp add: parse_fallback_response_def)
  have 2: "claimed_rating (U ''The rating is 8'') = Some 8"
    by (simp add: ev py_int_def ascii_int_def sign_and_digits_def ascii_space_def
        ascii_digit_def int_of_digits_def int_max_str_digits_def)
  from 1 2 fallback_analysis_keys [of 5] show ?thesis by simp
qed

text \<open>
  C8, amended. The rating is read at the first position where \<^verbatim>\<open>rating\<close> (in any case)
  is followed by colons and whitespace only and then by a decimal digit; it is the
  number the longest run of decimal digits there writes. A run of more than 4300 digits
  makes \<^verbatim>\<open>int\<close> raise \<^verbatim>\<open>ValueError\<close>, and so the parser. Without such a position the
  rating is 5. In the dictionary returned the verdict is \<^verbatim>\<open>pass\<close> when the rating is at
  least 7 and \<^verbatim>\<open>fail\<close> otherwise.
\<close>

theorem parse_fallback_response_rating:
  "(body = pre @ w @ sep @ digits @ rest
      \<and> list_all2 ci_match (U ''rating'') w \<and> (\<forall>c\<in>set sep. is_sep c)
      \<and> digits \<noteq> [] \<and> (\<forall>c\<in>set digits. is_decimal c)
      \<and> (rest = [] \<or> \<not> is_decimal (hd rest))
      \<and> (\<forall>k<length pre. \<not> rating_here (drop k body))
     \<longrightarrow> parse_fallback_response body
           = (if length digits \<le> 4300 then Inr (fallback_analysis (decimal_number digits))
              else Inl (exceeds_limit (length digits))))
   \<and> ((\<forall>k. \<not> rating_here (drop k body))
     \<longrightarrow> parse_fallback_response body = Inr (fallback_analysis 5))
   \<and> (\<forall>result. parse_fallback_response body = Inr result
         \<longrightarrow> (\<exists>n. result = fallback_analysis n))
   \<and> subscript (fallback_analysis n) ''quality_rating'' = Inr (PyInt n)
   \<and> subscript (fallback_analysis n) ''pass_fail''
       = Inr (PyStr (if 7 \<le> n then U ''pass'' else U ''fail''))
   \<and> exn_class_of (exceeds_limit m) = ValueError"
proof (intro conjI impI allI)
  assume a: "body = pre @ w @ sep @ digits @ rest
      \<and> list_all2 ci_match (U ''rating'') w \<and> (\<forall>c\<in>set sep. is_sep c)
      \<and> digits \<noteq> [] \<and> (\<forall>c\<in>set digits. is_decimal c)
      \<and> (rest = [] \<or> \<not> is_decimal (hd rest))
      \<and> (\<forall>k<length pre. \<not> rating_here (drop k body))"
  then have "search_rating body = Some digits"
    using search_rating_first_match [of w sep digits rest pre] by metis
  moreover have "py_int digits
      = (if length digits \<le> int_max_str_digits then Some (decimal_number digits) else None)"
    using a by (intro py_int_decimal_run) auto
  ultimately show "parse_fallback_response body
           = (if length digits \<le> 4300 then Inr (fallback_analysis (decimal_number digits))
              else Inl (exceeds_limit (length digits)))"
    by (simp add: parse_fallback_response_def int_max_str_digits_def)
next
  assume "\<forall>k. \<not> rating_here (drop k body)"
  then have "search_rating body = None" by (rule search_rating_none)
  then show "parse_fallback_response body = Inr (fallback_analysis 5)"
    by (simp add: parse_fallback_response_def)
next
  fix result assume "parse_fallback_response body = Inr result"
  then show "\<exists>n. result = fallback_analysis n"
    by (auto simp: parse_fallback_response_def split: option.splits)
next
  show "subscript (fallback_analysis n) ''quality_rating'' = Inr (PyInt n)"
    "subscript (fallback_analysis n) ''pass_fail''
       = Inr (PyStr (if 7 \<le> n then U ''pass'' else U ''fail''))"
    by (rule fallback_analysis_keys)+
next
  show "exn_class_of (exceeds_limit m) = ValueError"
    by (simp add: exceeds_limit_def)
qed

text \<open>
  The theorem at a response with a match behind two words, at a response without a
  match, and at a rating of 4301 digits.
\<close>

theorem parse_fallback_response_rating_witness:
  "U ''My Rating: 8/10'' = U ''My '' @ U ''Rating'' @ U '': '' @ U ''8'' @ U ''/10''
   \<and> list_all2 ci_match (U ''rating'') (U ''Rating'') \<and> list_all is_sep (U '': '')
   \<and> U ''8'' \<noteq> [] \<and> list_all is_decimal (U ''8'') \<and> \<not> is_decimal (hd (U ''/10''))
   \<and> \<not> rating_here (drop 0 (U ''My Rating: 8/10''))
   \<and> \<not> rating_here (drop 1 (U ''My Rating: 8/10''))
   \<and> \<not> rating_here (drop 2 (U ''My Rating: 8/10''))
   \<and> length (U ''8'') \<le> 4300 \<and> decimal_number (U ''8'') = 8
   \<and> parse_fallback_response (U ''My Rating: 8/10'') = Inr (fallback_analysis 8)
   \<and> subscript (fallback_analysis 8) ''pass_fail'' = Inr (PyStr (U ''pass''))
   \<and> search_rating (U ''Well done'') = None
   \<and> parse_fallback_response (U ''Well done'') = Inr (fallback_analysis 5)
   \<and> subscript (fallback_analysis 5) ''pass_fail'' = Inr (PyStr (U ''fail''))
   \<and> list_all is_decimal (replicate 4301 57)
   \<and> parse_fallback_response (U ''rating'' @ replicate 4301 57)
       = Inl (exceeds_limit 4301)"
proof -
  note ev = U_def rating_match_at_def ci_match_def is_decimal_def decimal_value_def
    decimal_ranges_def is_sep_def is_space_def
  have e: "U ''My Rating: 8/10'' = U ''My '' @ U ''Rating'' @ U '': '' @ U ''8'' @ U ''/10''"
    by (simp add: U_def)
  have h: "list_all2 ci_match (U ''rating'') (U ''Rating'')" "list_all is_sep (U '': '')"
    "U ''8'' \<noteq> []" "list_all is_decimal (U ''8'')" "\<not> is_decimal (hd (U ''/10''))"
    by (simp_all add: ev)
  have early: "\<not> rating_here (drop 0 (U ''My Rating: 8/10''))"
    "\<not> rating_here (drop 1 (U ''My Rating: 8/10''))"
    "\<not> rating_here (drop 2 (U ''My Rating: 8/10''))"
    unfolding rating_here_iff by (simp_all add: ev)
  have before: "\<forall>k<length (U ''My ''). \<not> rating_here (drop k (U ''My Rating: 8/10''))"
  proof (intro allI impI)
    fix k assume "k < length (U ''My '')"
    then have "k = 0 \<or> k = 1 \<or> k = 2" by (auto simp: U_def)
    with early show "\<not> rating_here (drop k (U ''My Rating: 8/10''))" by auto
  qed
  have eight: "length (U ''8'') \<le> 4300" "decimal_number (U ''8'') = 8"
    by (simp_all add: U_def decimal_number_def decimal_value_def decimal_ranges_def)
  have none: "search_rating (U ''Well done'') = None"
    by (simp add: ev)
  then have nowhere: "\<forall>k. \<not> rating_here (drop k (U ''Well done''))"
    by (simp add: search_rating_none_conv)
  have nine: "is_decimal 57" by (simp add: ev)
  then have nines: "list_all is_decimal (replicate 4301 57)"
    by (simp add: list_all_iff)
  have prem: "U ''My Rating: 8/10'' = U ''My '' @ U ''Rating'' @ U '': '' @ U ''8'' @ U ''/10''
      \<and> list_all2 ci_match (U ''rating'') (U ''Rating'') \<and> (\<forall>c\<in>set (U '': ''). is_sep c)
      \<and> U ''8'' \<noteq> [] \<and> (\<forall>c\<in>set (U ''8''). is_decimal c)
      \<and> (U ''/10'' = [] \<or> \<not> is_decimal (hd (U ''/10'')))
      \<and> (\<forall>k<length (U ''My ''). \<not> rating_here (drop k (U ''My Rating: 8/10'')))"
    using e h before unfolding list_all_iff by (intro conjI disjI2) assumption+
  have prem': "U ''rating'' @ replicate 4301 57 = [] @ U ''rating'' @ [] @ replicate 4301 57 @ []
      \<and> list_all2 ci_match (U ''rating'') (U ''rating'') \<and> (\<forall>c\<in>set []. is_sep c)
      \<and> replicate 4301 57 \<noteq> [] \<and> (\<forall>c\<in>set (replicate 4301 57). is_decimal c)
      \<and> ([] = [] \<or> \<not> is_decimal (hd []))
      \<and> (\<forall>k<length []. \<not> rating_here (drop k (U ''rating'' @ replicate 4301 57)))"
    using nine by (simp add: U_def ci_match_def)
  note found = parse_fallback_response_rating
    [of "U ''My Rating: 8/10''" "U ''My ''" "U ''Rating''" "U '': ''" "U ''8''" "U ''/10''"]
  note missing = parse_fallback_response_rating [of "U ''Well done''"]
  note long = parse_fallback_response_rating
    [of "U ''rating'' @ replicate 4301 57" "[]" "U ''rating''" "[]" "replicate 4301 57" "[]"]
  have r1: "parse_fallback_response (U ''My Rating: 8/10'') = Inr (fallback_analysis 8)"
    using found [THEN conjunct1, THEN mp, OF prem] eight by simp
  have r2: "parse_fallback_response (U ''Well done'') = Inr (fallback_analysis 5)"
    using missing [THEN conjunct2, THEN conjunct1, THEN mp, OF nowhere] .
  have r3: "parse_fallback_response (U ''rating'' @ replicate 4301 57) = Inl (exceeds_limit 4301)"
    using long [THEN conjunct1, THEN mp, OF prem'] by simp
  have p1: "subscript (fallback_analysis 8) ''pass_fail'' = Inr (PyStr (U ''pass''))"
    and p2: "subscript (fallback_analysis 5) ''pass_fail'' = Inr (PyStr (U ''fail''))"
    by (simp_all add: fallback_analysis_keys)
  from e h early eight none r1 r2 r3 p1 p2 nines show ?thesis
    by (intro conjI) assumption+
qed

section \<open>The report of an assessment\<close>

lemma str_items_strings: "str_items i (map PyStr xs) = Inr xs"
  by (induction xs arbitrary: i) simp_all

lemma format_list_compact_strings:
  "format_list_compact (PyList (map PyStr items))
     = Inr (case items of [] \<Rightarrow> U ''None'' | [x] \<Rightarrow> x | x # y # rest \<Rightarrow> x @ U '' | '' @ y)"
proof -
  have "take 2 (map PyStr items) = map PyStr (take 2 items)"
    by (simp add: take_map)
  then show ?thesis
    by (auto simp: py_join_def str_items_strings U_def numeral_2_eq_2 split: list.splits)
qed

lemma marks_differ: "pass_mark \<noteq> fail_mark"
  by (simp add: pass_mark_def fail_mark_def)

text \<open>
  The report of an assessment whose fields have the declared types. The rating stands
  before \<^verbatim>\<open>/10\<close>; the verdict stands uppercased behind the pass mark when it lowercases
  to \<^verbatim>\<open>pass\<close> and behind the fail mark otherwise; stitch type and grade stand
  title-cased; the issues and the tips stand as \<^verbatim>\<open>None\<close> when the list is empty, and
  else as the first item, joined to the second by \<^verbatim>\<open> | \<close> when there is one.
\<close>

lemma report_of_typed_assessment:
  "report repr
     \<lparr>image_url = media_url, quality_rating = PyInt rating,
      improvement_suggestions = PyList (map PyStr suggestions), stitch_type = PyStr stitch,
      technical_issues = PyList (map PyStr issues), professional_grade = PyStr grade,
      pass_fail = PyStr verdict, user_phone = phone_number\<rparr>
   = Inr ([240, 376, 167, 181] @ U '' STITCHING ASSESSMENT '' @ [240, 376, 167, 181]
          @ U ''\<newline>\<newline>''
          @ first_in_range (PyInt rating) rating_emoji [240, 376, 376, 161]
          @ U '' Rating: '' @ str_int rating @ U ''/10'' @ U ''\<newline>''
          @ (if lower verdict = U ''pass'' then pass_mark else fail_mark)
          @ U '' Result: '' @ upper verdict
          @ U ''\<newline>'' @ [240, 376, 8220] @ U '' Type: '' @ title stitch
          @ U ''\<newline>'' @ [240, 376, 381, 175] @ U '' Level: '' @ title grade
          @ U ''\<newline>\<newline>'' @ [226, 353, 160, 239, 184] @ U '' Issues: ''
          @ (case issues of
               [] \<Rightarrow> U ''None'' | [x] \<Rightarrow> x | x # y # rest \<Rightarrow> x @ U '' | '' @ y)
          @ U ''\<newline>\<newline>'' @ [240, 376, 8217, 161] @ U '' Tips: ''
          @ (case suggestions of
               [] \<Rightarrow> U ''None'' | [x] \<Rightarrow> x | x # y # rest \<Rightarrow> x @ U '' | '' @ y)
          @ U ''\<newline>\<newline>'' @ [240, 376, 381, 8220] @ U '' Feedback: ''
          @ get_professional_feedback_short (PyInt rating))"
  by (simp add: report_def Let_def format_list_compact_strings U_def
      del: format_list_compact.simps)

lemmas case_tables =
  to_lower_full_def to_upper_full_def to_title_full_def full_case_def lower_special_def
  lower_ranges_def upper_special_def upper_ranges_def title_special_def title_ranges_def
  is_cased_def cased_ranges_def is_case_ignorable_def case_ignorable_ranges_def
  lower_at_def final_sigma_def

lemma case_examples:
  "lower (U ''Pass'') = U ''pass''" "upper (U ''Pass'') = U ''PASS''"
  "title (U ''running stitch'') = U ''Running Stitch''"
  "title (U ''ADVANCED'') = U ''Advanced''"
  "title [99, 114, 232, 109, 101] = [67, 114, 232, 109, 101]"
  "upper [115, 116, 114, 97, 223, 101] = U ''STRASSE''"
  "lower [72, 304] = [104, 105, 775]"
  by (simp_all add: lower_def upper_def title_def case_tables U_def)

text \<open>
  C6. The report has the layout the claim describes, but not its marks: the file
  \<^verbatim>\<open>agent.py\<close> holds each emoji as the mis-decoded text of its UTF-8 bytes. For a passed
  sample the result line begins with the three code points U+00E2, U+0153, U+2026 and
  the report holds no U+2705; for a failed one it begins with U+00E2, U+0152 and the
  report holds no U+274C. The host of \<^verbatim>\<open>main.py\<close> prints the two emoji themselves.
\<close>

theorem report_marks_as_stored:
  "report repr passed_sample
     = Inr ([240, 376, 167, 181] @ U '' STITCHING ASSESSMENT '' @ [240, 376, 167, 181]
            @ U ''\<newline>\<newline>'' @ [240, 376, 376, 162] @ U '' Rating: 7/10\<newline>''
            @ [226, 339, 8230] @ U '' Result: PASS\<newline>''
            @ [240, 376, 8220] @ U '' Type: Running Stitch\<newline>''
            @ [240, 376, 381, 175] @ U '' Level: Advanced\<newline>\<newline>''
            @ [226, 353, 160, 239, 184] @ U '' Issues: uneven tension | loose ends\<newline>\<newline>''
            @ [240, 376, 8217, 161] @ U '' Tips: None\<newline>\<newline>''
            @ [240, 376, 381, 8220] @ U '' Feedback: Advanced - Professional quality emerging'')
   \<and> (case report repr passed_sample of
         Inr body \<Rightarrow> \<not> contains body [9989] | Inl e \<Rightarrow> False)
   \<and> (case report repr (passed_sample\<lparr>pass_fail := PyStr (U ''fail'')\<rparr>) of
         Inr body \<Rightarrow> contains body ([226, 338] @ U '' Result: FAIL'')
                      \<and> \<not> contains body [10060]
       | Inl e \<Rightarrow> False)
   \<and> decision_emoji (U ''PASS'') = [9989] \<and> decision_emoji (U ''FAIL'') = [10060]"
proof -
  have t: "passed_sample =
     \<lparr>image_url = U ''https://api.twilio.com/m1'', quality_rating = PyInt 7,
      improvement_suggestions = PyList (map PyStr []), stitch_type = PyStr (U ''running stitch''),
      technical_issues = PyList (map PyStr [U ''uneven tension'', U ''loose ends'', U ''puckering'']),
      professional_grade = PyStr (U ''ADVANCED''), pass_fail = PyStr (U ''Pass''),
      user_phone = U ''+15551234567''\<rparr>"
    by (simp add: passed_sample_def)
  have t2: "passed_sample\<lparr>pass_fail := PyStr (U ''fail'')\<rparr> =
     \<lparr>image_url = U ''https://api.twilio.com/m1'', quality_rating = PyInt 7,
      improvement_suggestions = PyList (map PyStr []), stitch_type = PyStr (U ''running stitch''),
      technical_issues = PyList (map PyStr [U ''uneven tension'', U ''loose ends'', U ''puckering'']),
      professional_grade = PyStr (U ''ADVANCED''), pass_fail = PyStr (U ''fail''),
      user_phone = U ''+15551234567''\<rparr>"
    by (simp add: passed_sample_def)
  have l: "lower (U ''fail'') = U ''fail''" "upper (U ''fail'') = U ''FAIL''"
    by (simp_all add: lower_def upper_def case_tables U_def)
  have ne: "U ''fail'' \<noteq> U ''pass''" by (simp add: U_def)
  have 1: "report repr passed_sample
     = Inr ([240, 376, 167, 181] @ U '' STITCHING ASSESSMENT '' @ [240, 376, 167, 181]
            @ U ''\<newline>\<newline>'' @ [240, 376, 376, 162] @ U '' Rating: 7/10\<newline>''
            @ [226, 339, 8230] @ U '' Result: PASS\<newline>''
            @ [240, 376, 8220] @ U '' Type: Running Stitch\<newline>''
            @ [240, 376, 381, 175] @ U '' Level: Advanced\<newline>\<newline>''
            @ [226, 353, 160, 239, 184] @ U '' Issues: uneven tension | loose ends\<newline>\<newline>''
            @ [240, 376, 8217, 161] @ U '' Tips: None\<newline>\<newline>''
            @ [240, 376, 381, 8220] @ U '' Feedback: Advanced - Professional quality emerging'')"
    unfolding t report_of_typed_assessment
    by (simp add: case_examples rating_emoji_def pass_mark_def
        get_professional_feedback_short_def feedback_map_def str_int_def digits_of.simps)
       (simp add: U_def)
  have 2: "report repr (passed_sample\<lparr>pass_fail := PyStr (U ''fail'')\<rparr>)
     = Inr ([240, 376, 167, 181] @ U '' STITCHING ASSESSMENT '' @ [240, 376, 167, 181]
            @ U ''\<newline>\<newline>'' @ [240, 376, 376, 162] @ U '' Rating: 7/10\<newline>''
            @ [226, 338] @ U '' Result: FAIL\<newline>''
            @ [240, 376, 8220] @ U '' Type: Running Stitch\<newline>''
            @ [240, 376, 381, 175] @ U '' Level: Advanced\<newline>\<newline>''
            @ [226, 353, 160, 239, 184] @ U '' Issues: uneven tension | loose ends\<newline>\<newline>''
            @ [240, 376, 8217, 161] @ U '' Tips: None\<newline>\<newline>''
            @ [240, 376, 381, 8220] @ U '' Feedback: Advanced - Professional quality emerging'')"
    unfolding t2 report_of_typed_assessment
    by (simp add: l ne case_examples rating_emoji_def fail_mark_def
        get_professional_feedback_short_def feedback_map_def str_int_def digits_of.simps)
       (simp add: U_def)
  have 3: "decision_emoji (U ''PASS'') = [9989]" "decision_emoji (U ''FAIL'') = [10060]"
    by (simp_all add: decision_emoji_def U_def)
  show ?thesis
    unfolding 1 2 using 3 by (simp add: U_def startswith_def)
qed
section \<open>The pipeline of the host\<close>

lemma execute_sub_agent_instruction_prints:
  "calls_of (fst (execute_sub_agent_instruction env instr image_data)) = []"
  by (auto simp: execute_sub_agent_instruction_def calls_of_def Let_def
      split: option.splits list.splits sum.splits)

lemma execute_plan_calls:
  "execute_plan env image_data instrs results = (events, r) \<Longrightarrow>
     \<exists>n\<le>length instrs. calls_of events = map ExecuteInstruction (take n instrs)
        \<and> (\<forall>rs. r = Inr rs \<longrightarrow> n = length instrs)"
proof (induction instrs arbitrary: results events r)
  case Nil
  then show ?case by (auto simp: calls_of_def)
next
  case (Cons instr instrs)
  obtain ev x where x: "execute_sub_agent_instruction env instr image_data = (ev, x)"
    by (cases "execute_sub_agent_instruction env instr image_data")
  have p: "calls_of ev = []"
    using execute_sub_agent_instruction_prints [of env instr image_data] x by simp
  show ?case
  proof (cases x)
    case (Inl e)
    with Cons.prems x p have "calls_of events = map ExecuteInstruction (take 1 (instr # instrs))"
      and "\<forall>rs. r \<noteq> Inr rs"
      by (auto simp: Let_def calls_of_def)
    then show ?thesis by (intro exI [of _ 1]) auto
  next
    case (Inr result)
    let ?acc = "results @ [\<lparr>rec_agent_name = agent_name instr,
                  rec_skill_assessed = ctx_skill_to_assess (context_of instr),
                  rec_result = result\<rparr>]"
    obtain ev' where rest: "execute_plan env image_data instrs ?acc = (ev', r)"
      and ev: "calls_of events = ExecuteInstruction instr # calls_of ev'"
      using Cons.prems x Inr p
      by (auto simp: Let_def calls_of_def split: prod.splits)
    from Cons.IH [OF rest] obtain n where n: "n \<le> length instrs"
      "calls_of ev' = map ExecuteInstruction (take n instrs)"
      "\<forall>rs. r = Inr rs \<longrightarrow> n = length instrs"
      by blast
    with ev show ?thesis by (intro exI [of _ "Suc n"]) auto
  qed
qed

lemma execute_plan_all_return:
  "\<forall>instr\<in>set instrs. \<exists>result. snd (execute_sub_agent_instruction env instr image_data) = Inr result
   \<Longrightarrow> \<exists>events. execute_plan env image_data instrs results
          = (events, Inr (results @ map (result_record env image_data) instrs))
        \<and> calls_of events = map ExecuteInstruction instrs"
proof (induction instrs arbitrary: results)
  case Nil
  then show ?case by (simp add: calls_of_def)
next
  case (Cons instr instrs)
  obtain ev result where x: "execute_sub_agent_instruction env instr image_data = (ev, Inr result)"
    using Cons.prems by (cases "execute_sub_agent_instruction env instr image_data") auto
  have p: "calls_of ev = []"
    using execute_sub_agent_instruction_prints [of env instr image_data] x by simp
  let ?acc = "results @ [result_record env image_data instr]"
  from Cons.IH [of ?acc] Cons.prems obtain ev' where
    r: "execute_plan env image_data instrs ?acc
          = (ev', Inr (?acc @ map (result_record env image_data) instrs))"
    and c: "calls_of ev' = map ExecuteInstruction instrs"
    by auto
  have acc: "?acc = results @ [\<lparr>rec_agent_name = agent_name instr,
                  rec_skill_assessed = ctx_skill_to_assess (context_of instr),
                  rec_result = result\<rparr>]"
    using x by (simp add: result_record_def)
  have one: "\<lparr>rec_agent_name = agent_name instr,
                  rec_skill_assessed = ctx_skill_to_assess (context_of instr),
                  rec_result = result\<rparr> = result_record env image_data instr"
    using x by (simp add: result_record_def)
  show ?case
    using x r c p one unfolding acc by (simp add: Let_def calls_of_def)
qed

text \<open>
  C4, as stated, fails: when the task context of the first instruction names no role,
  \<^verbatim>\<open>run_full_assessment\<close> prints an error after executing the plan and returns; it makes
  no \<^verbatim>\<open>get_final_verdict\<close> call.
\<close>

theorem verdict_skipped_without_role_counterexample:
  "calls_of (fst (run_full_assessment (example_master (Some [example_instruction None]))
                    example_host (Some (U ''I want to apply for Tailor position''))
                    (Some [255, 216]) None))
     = [GetPlan (Some (U ''I want to apply for Tailor position'')) (Some [255, 216]) None,
        ExecuteInstruction (example_instruction None)]"
  by (simp add: run_full_assessment_def example_master_def example_host_def
      example_instruction_def execute_sub_agent_instruction_def calls_of_def context_of_def
      Let_def)

lemma execute_plan_raises:
  "\<forall>instr\<in>set done. \<exists>result. snd (execute_sub_agent_instruction env instr image_data) = Inr result
   \<Longrightarrow> snd (execute_sub_agent_instruction env failing image_data) = Inl e
   \<Longrightarrow> \<exists>events. execute_plan env image_data (done @ failing # later) results = (events, Inl e)
        \<and> calls_of events = map ExecuteInstruction (done @ [failing])"
proof (induction "done" arbitrary: results)
  case Nil
  obtain ev where x: "execute_sub_agent_instruction env failing image_data = (ev, Inl e)"
    using Nil.prems(2) by (cases "execute_sub_agent_instruction env failing image_data") auto
  have p: "calls_of ev = []"
    using execute_sub_agent_instruction_prints [of env failing image_data] x by simp
  show ?case using x p by (simp add: Let_def calls_of_def)
next
  case (Cons instr rest)
  obtain ev result where x: "execute_sub_agent_instruction env instr image_data = (ev, Inr result)"
    using Cons.prems(1) by (cases "execute_sub_agent_instruction env instr image_data") auto
  have p: "calls_of ev = []"
    using execute_sub_agent_instruction_prints [of env instr image_data] x by simp
  let ?acc = "results @ [\<lparr>rec_agent_name = agent_name instr,
                  rec_skill_assessed = ctx_skill_to_assess (context_of instr),
                  rec_result = result\<rparr>]"
  from Cons.IH [of ?acc] Cons.prems obtain ev' where
    r: "execute_plan env image_data (rest @ failing # later) ?acc = (ev', Inl e)"
    and c: "calls_of ev' = map ExecuteInstruction (rest @ [failing])"
    by auto
  show ?case using x r c p by (simp add: Let_def calls_of_def)
qed

text \<open>
  C4, amended. \<^verbatim>\<open>run_full_assessment\<close> calls \<^verbatim>\<open>get_plan\<close> once, then executes
  instructions of the plan in list order, each at most once, and last makes at most one
  \<^verbatim>\<open>get_final_verdict\<close> call, which comes only after all instructions. Without
  instructions it stops after the plan. When every execution returns, every instruction
  is executed once, and the verdict is asked for, on the collected results, exactly when
  the task context of the first instruction names a role. An exception of \<^verbatim>\<open>get_plan\<close>,
  of an execution or of \<^verbatim>\<open>get_final_verdict\<close> ends the run: it leaves the method, and
  no call follows the one that raised.
\<close>

theorem run_full_assessment_calls:
  "(\<exists>n tail. n \<le> length (planned_instructions master q img aud)
      \<and> calls_of (fst (run_full_assessment master env q img aud))
          = GetPlan q img aud
              # map ExecuteInstruction (take n (planned_instructions master q img aud)) @ tail
      \<and> (tail = [] \<or> (\<exists>role results. tail = [GetFinalVerdict role results]
                          \<and> n = length (planned_instructions master q img aud))))
   \<and> (planned_instructions master q img aud = []
        \<longrightarrow> calls_of (fst (run_full_assessment master env q img aud)) = [GetPlan q img aud])
   \<and> (planned_instructions master q img aud = first_instr # instrs
        \<and> (\<forall>instr\<in>set (first_instr # instrs).
              \<exists>result. snd (execute_sub_agent_instruction env instr img) = Inr result)
        \<longrightarrow> calls_of (fst (run_full_assessment master env q img aud))
              = GetPlan q img aud # map ExecuteInstruction (first_instr # instrs)
                  @ (if truthy (ctx_role (context_of first_instr))
                     then [GetFinalVerdict (the (ctx_role (context_of first_instr)))
                             (map (result_record env img) (first_instr # instrs))]
                     else [])
            \<and> snd (run_full_assessment master env q img aud)
              = (if truthy (ctx_role (context_of first_instr))
                 then (case get_final_verdict master (the (ctx_role (context_of first_instr)))
                              (map (result_record env img) (first_instr # instrs)) of
                         Inl e \<Rightarrow> Some e | Inr final_verdict \<Rightarrow> None)
                 else None))
   \<and> (get_plan master q img aud = Inl e
        \<longrightarrow> run_full_assessment master env q img aud = ([GetPlan q img aud], Some e))
   \<and> (planned_instructions master q img aud = returned @ failing # later
        \<and> (\<forall>instr\<in>set returned.
              \<exists>result. snd (execute_sub_agent_instruction env instr img) = Inr result)
        \<and> snd (execute_sub_agent_instruction env failing img) = Inl e
        \<longrightarrow> snd (run_full_assessment master env q img aud) = Some e
            \<and> calls_of (fst (run_full_assessment master env q img aud))
                = GetPlan q img aud # map ExecuteInstruction (returned @ [failing]))"
proof (intro conjI impI)
  show "\<exists>n tail. n \<le> length (planned_instructions master q img aud)
      \<and> calls_of (fst (run_full_assessment master env q img aud))
          = GetPlan q img aud
              # map ExecuteInstruction (take n (planned_instructions master q img aud)) @ tail
      \<and> (tail = [] \<or> (\<exists>role results. tail = [GetFinalVerdict role results]
                          \<and> n = length (planned_instructions master q img aud)))"
  proof (cases "get_plan master q img aud")
    case (Inl e)
    then show ?thesis
      by (intro exI [of _ 0] exI [of _ "[]"])
        (simp add: run_full_assessment_def planned_instructions_def calls_of_def)
  next
    case (Inr plan)
    show ?thesis
    proof (cases "planned_instructions master q img aud")
      case Nil
      with Inr show ?thesis
        by (intro exI [of _ 0] exI [of _ "[]"])
          (auto simp: run_full_assessment_def planned_instructions_def calls_of_def Let_def
            split: option.splits)
    next
      case (Cons i rest)
      with Inr have si: "sub_agent_instructions plan = Some (i # rest)"
        by (auto simp: planned_instructions_def split: option.splits)
      obtain events r where ep: "execute_plan env img (i # rest) [] = (events, r)"
        by (cases "execute_plan env img (i # rest) []")
      from execute_plan_calls [OF ep] obtain n where n: "n \<le> length (i # rest)"
        "calls_of events = map ExecuteInstruction (take n (i # rest))"
        "\<forall>rs. r = Inr rs \<longrightarrow> n = length (i # rest)"
        by blast
      show ?thesis
      proof (cases r)
        case (Inl e)
        with Inr si ep n Cons show ?thesis
          by (intro exI [of _ n] exI [of _ "[]"])
            (simp add: run_full_assessment_def calls_of_def Let_def)
      next
        case r: (Inr results)
        show ?thesis
        proof (cases "truthy (ctx_role (context_of i))")
          case False
          with r Inr si ep n Cons show ?thesis
            by (intro exI [of _ n] exI [of _ "[]"])
              (simp add: run_full_assessment_def calls_of_def Let_def)
        next
          case True
          with r Inr si ep n Cons show ?thesis
            by (intro exI [of _ n]
                exI [of _ "[GetFinalVerdict (the (ctx_role (context_of i))) results]"])
              (auto simp: run_full_assessment_def calls_of_def Let_def split: sum.splits)
        qed
      qed
    qed
  qed
next
  assume "planned_instructions master q img aud = []"
  then show "calls_of (fst (run_full_assessment master env q img aud)) = [GetPlan q img aud]"
    by (auto simp: run_full_assessment_def planned_instructions_def calls_of_def Let_def
        split: sum.splits option.splits)
next
  assume a: "planned_instructions master q img aud = first_instr # instrs
        \<and> (\<forall>instr\<in>set (first_instr # instrs).
              \<exists>result. snd (execute_sub_agent_instruction env instr img) = Inr result)"
  then obtain plan where p: "get_plan master q img aud = Inr plan"
    "sub_agent_instructions plan = Some (first_instr # instrs)"
    by (auto simp: planned_instructions_def split: sum.splits option.splits)
  from a execute_plan_all_return [of "first_instr # instrs" env img "[]"]
  obtain events where e: "execute_plan env img (first_instr # instrs) []
        = (events, Inr (map (result_record env img) (first_instr # instrs)))"
    "calls_of events = map ExecuteInstruction (first_instr # instrs)"
    by auto
  show "calls_of (fst (run_full_assessment master env q img aud))
              = GetPlan q img aud # map ExecuteInstruction (first_instr # instrs)
                  @ (if truthy (ctx_role (context_of first_instr))
                     then [GetFinalVerdict (the (ctx_role (context_of first_instr)))
                             (map (result_record env img) (first_instr # instrs))]
                     else [])"
    using p e
    by (auto simp: run_full_assessment_def calls_of_def Let_def split: sum.splits)
  show "snd (run_full_assessment master env q img aud)
              = (if truthy (ctx_role (context_of first_instr))
                 then (case get_final_verdict master (the (ctx_role (context_of first_instr)))
                              (map (result_record env img) (first_instr # instrs)) of
                         Inl e \<Rightarrow> Some e | Inr final_verdict \<Rightarrow> None)
                 else None)"
    using p e
    by (auto simp: run_full_assessment_def Let_def split: sum.splits)
next
  assume "get_plan master q img aud = Inl e"
  then show "run_full_assessment master env q img aud = ([GetPlan q img aud], Some e)"
    by (simp add: run_full_assessment_def)
next
  assume a: "planned_instructions master q img aud = returned @ failing # later
        \<and> (\<forall>instr\<in>set returned.
              \<exists>result. snd (execute_sub_agent_instruction env instr img) = Inr result)
        \<and> snd (execute_sub_agent_instruction env failing img) = Inl e"
  then obtain plan where p: "get_plan master q img aud = Inr plan"
    "sub_agent_instructions plan = Some (returned @ failing # later)"
    by (auto simp: planned_instructions_def split: sum.splits option.splits)
  from a execute_plan_raises [of returned env img failing e later "[]"]
  obtain events where e: "execute_plan env img (returned @ failing # later) [] = (events, Inl e)"
    "calls_of events = map ExecuteInstruction (returned @ [failing])"
    by auto
  obtain i rest where ne: "returned @ failing # later = i # rest"
    by (cases "returned @ failing # later") auto
  show "snd (run_full_assessment master env q img aud) = Some e"
    using p e unfolding ne by (simp add: run_full_assessment_def Let_def)
  show "calls_of (fst (run_full_assessment master env q img aud))
                = GetPlan q img aud # map ExecuteInstruction (returned @ [failing])"
    using p e unfolding ne by (simp add: run_full_assessment_def Let_def calls_of_def)
qed

text \<open>
  The theorem at a plan without instructions, at a plan with two instructions the first
  of which names the role, at a host that may not read its test image, and at a master
  agent whose calls raise.
\<close>

theorem run_full_assessment_calls_witness:
  "planned_instructions (example_master None) (Some (U ''hello'')) (Some [255, 216]) None = []
   \<and> calls_of (fst (run_full_assessment (example_master None) example_host
                       (Some (U ''hello'')) (Some [255, 216]) None))
       = [GetPlan (Some (U ''hello'')) (Some [255, 216]) None]
   \<and> planned_instructions
         (example_master (Some [example_instruction (Some (U ''Tailor'')), example_instruction None]))
         (Some (U ''hello'')) (Some [255, 216]) None
       = [example_instruction (Some (U ''Tailor'')), example_instruction None]
   \<and> snd (execute_sub_agent_instruction example_host (example_instruction (Some (U ''Tailor'')))
            (Some [255, 216]))
       = Inr (Success (simulate_basic_assessment
                (context_of (example_instruction (Some (U ''Tailor''))))))
   \<and> snd (execute_sub_agent_instruction example_host (example_instruction None)
            (Some [255, 216]))
       = Inr (Success (simulate_basic_assessment (context_of (example_instruction None))))
   \<and> truthy (ctx_role (context_of (example_instruction (Some (U ''Tailor'')))))
   \<and> run_full_assessment
         (example_master (Some [example_instruction (Some (U ''Tailor'')), example_instruction None]))
         example_host (Some (U ''hello'')) (Some [255, 216]) None
       = (fst (run_full_assessment
                 (example_master (Some [example_instruction (Some (U ''Tailor'')),
                                        example_instruction None]))
                 example_host (Some (U ''hello'')) (Some [255, 216]) None), None)
   \<and> calls_of (fst (run_full_assessment
         (example_master (Some [example_instruction (Some (U ''Tailor'')), example_instruction None]))
         example_host (Some (U ''hello'')) (Some [255, 216]) None))
       = [GetPlan (Some (U ''hello'')) (Some [255, 216]) None,
          ExecuteInstruction (example_instruction (Some (U ''Tailor''))),
          ExecuteInstruction (example_instruction None),
          GetFinalVerdict (U ''Tailor'')
            [result_record example_host (Some [255, 216])
               (example_instruction (Some (U ''Tailor''))),
             result_record example_host (Some [255, 216]) (example_instruction None)]]
   \<and> get_plan (failing_master None) None None None = Inl quota
   \<and> run_full_assessment (failing_master None) example_host None None None
       = ([GetPlan None None None], Some quota)
   \<and> planned_instructions
         (failing_master (Some [unknown_instruction, example_instruction None,
                                example_instruction (Some (U ''Tailor''))]))
         (Some (U ''hello'')) None None
       = [unknown_instruction] @ example_instruction None
           # [example_instruction (Some (U ''Tailor''))]
   \<and> snd (execute_sub_agent_instruction unreadable_host unknown_instruction None)
       = Inr (Failure (U ''Sub-agent not found.''))
   \<and> snd (execute_sub_agent_instruction unreadable_host (example_instruction None) None)
       = Inl denied
   \<and> snd (run_full_assessment
         (failing_master (Some [unknown_instruction, example_instruction None,
                                example_instruction (Some (U ''Tailor''))]))
         unreadable_host (Some (U ''hello'')) None None) = Some denied
   \<and> calls_of (fst (run_full_assessment
         (failing_master (Some [unknown_instruction, example_instruction None,
                                example_instruction (Some (U ''Tailor''))]))
         unreadable_host (Some (U ''hello'')) None None))
       = [GetPlan (Some (U ''hello'')) None None, ExecuteInstruction unknown_instruction,
          ExecuteInstruction (example_instruction None)]
   \<and> snd (run_full_assessment (failing_master (Some [unknown_instruction])) unreadable_host
            (Some (U ''hello'')) None None) = Some quota"
proof -
  let ?q = "Some (U ''hello'')"
  let ?img = "Some [255, 216 :: nat]"
  let ?i1 = "example_instruction (Some (U ''Tailor''))"
  let ?i2 = "example_instruction None"
  let ?fm = "failing_master (Some [unknown_instruction, ?i2, ?i1])"
  have none: "planned_instructions (example_master None) ?q ?img None = []"
    by (simp add: planned_instructions_def example_master_def)
  have two: "planned_instructions (example_master (Some [?i1, ?i2])) ?q ?img None = [?i1, ?i2]"
    by (simp add: planned_instructions_def example_master_def)
  have x: "\<And>role. snd (execute_sub_agent_instruction example_host (example_instruction role) ?img)
             = Inr (Success (simulate_basic_assessment (context_of (example_instruction role))))"
    by (simp add: execute_sub_agent_instruction_def example_host_def example_instruction_def
        execute_def validate_image_data_def context_of_def)
  have role: "truthy (ctx_role (context_of ?i1))"
    by (simp add: example_instruction_def context_of_def U_def)
  have all: "\<forall>instr\<in>set [?i1, ?i2].
               \<exists>result. snd (execute_sub_agent_instruction example_host instr ?img) = Inr result"
    using x by simp
  have v: "\<And>role results. get_final_verdict (example_master (Some [?i1, ?i2])) role results
             = Inr \<lparr>verdict_response = Some (U ''Well done''), decision = Some (U ''PASS'')\<rparr>"
    by (simp add: example_master_def)
  from run_full_assessment_calls [of "example_master None" ?q ?img None example_host] none
  have a: "calls_of (fst (run_full_assessment (example_master None) example_host ?q ?img None))
             = [GetPlan ?q ?img None]"
    by blast
  note full = run_full_assessment_calls
         [of "example_master (Some [?i1, ?i2])" ?q ?img None example_host ?i1 "[?i2]",
          THEN conjunct2, THEN conjunct2, THEN conjunct1, THEN mp, OF conjI [OF two all]]
  from full role
  have b: "calls_of (fst (run_full_assessment (example_master (Some [?i1, ?i2])) example_host
                            ?q ?img None))
             = [GetPlan ?q ?img None, ExecuteInstruction ?i1, ExecuteInstruction ?i2,
                GetFinalVerdict (the (ctx_role (context_of ?i1)))
                  [result_record example_host ?img ?i1, result_record example_host ?img ?i2]]"
    by simp
  from full role v
  have b': "snd (run_full_assessment (example_master (Some [?i1, ?i2])) example_host
                   ?q ?img None) = None"
    by simp
  then have b'': "run_full_assessment (example_master (Some [?i1, ?i2])) example_host ?q ?img None
       = (fst (run_full_assessment (example_master (Some [?i1, ?i2])) example_host ?q ?img None),
          None)"
    by (metis prod.collapse)
  have t: "the (ctx_role (context_of ?i1)) = U ''Tailor''"
    by (simp add: example_instruction_def context_of_def)
  have gp: "get_plan (failing_master None) None None None = Inl quota"
    by (simp add: failing_master_def)
  from run_full_assessment_calls [of "failing_master None" None None None example_host _ _ quota] gp
  have c: "run_full_assessment (failing_master None) example_host None None None
       = ([GetPlan None None None], Some quota)"
    by blast
  have three: "planned_instructions ?fm ?q None None = [unknown_instruction] @ ?i2 # [?i1]"
    by (simp add: planned_instructions_def failing_master_def)
  have u: "snd (execute_sub_agent_instruction unreadable_host unknown_instruction None)
       = Inr (Failure (U ''Sub-agent not found.''))"
    by (simp add: execute_sub_agent_instruction_def unknown_instruction_def U_def)
  have d: "snd (execute_sub_agent_instruction unreadable_host ?i2 None) = Inl denied"
    by (simp add: execute_sub_agent_instruction_def example_instruction_def unreadable_host_def
        denied_def Let_def)
  have ret: "\<forall>instr\<in>set [unknown_instruction].
               \<exists>result. snd (execute_sub_agent_instruction unreadable_host instr None) = Inr result"
    using u by simp
  note raised = run_full_assessment_calls
         [of ?fm ?q None None unreadable_host _ _ denied "[unknown_instruction]" ?i2 "[?i1]",
          THEN conjunct2, THEN conjunct2, THEN conjunct2, THEN conjunct2, THEN mp,
          OF conjI [OF three conjI [OF ret d]]]
  have e1: "snd (run_full_assessment ?fm unreadable_host ?q None None) = Some denied"
    using raised by simp
  have e2: "calls_of (fst (run_full_assessment ?fm unreadable_host ?q None None))
       = [GetPlan ?q None None, ExecuteInstruction unknown_instruction, ExecuteInstruction ?i2]"
    using raised by simp
  have one: "planned_instructions (failing_master (Some [unknown_instruction])) ?q None None
       = unknown_instruction # []"
    by (simp add: planned_instructions_def failing_master_def)
  have ret1: "\<forall>instr\<in>set (unknown_instruction # []).
               \<exists>result. snd (execute_sub_agent_instruction unreadable_host instr None) = Inr result"
    using u by simp
  have ur: "truthy (ctx_role (context_of unknown_instruction))"
    by (simp add: unknown_instruction_def context_of_def U_def)
  have fv: "\<And>role results. get_final_verdict (failing_master (Some [unknown_instruction]))
              role results = Inl quota"
    by (simp add: failing_master_def)
  from run_full_assessment_calls
         [of "failing_master (Some [unknown_instruction])" ?q None None unreadable_host
             unknown_instruction "[]",
          THEN conjunct2, THEN conjunct2, THEN conjunct1, THEN mp, OF conjI [OF one ret1]]
       ur fv
  have f: "snd (run_full_assessment (failing_master (Some [unknown_instruction]))
                  unreadable_host ?q None None) = Some quota"
    by simp
  from none two x [of "Some (U ''Tailor'')"] x [of None] role a b b'' t gp c three u d e1 e2 f
  show ?thesis by simp
qed
text \<open>
  The same pipeline in \<^verbatim>\<open>whatsapp_app.py\<close>: \<^verbatim>\<open>_execute_sub_agents_and_respond\<close> reads
  the role with the default \<^verbatim>\<open>Unknown\<close>, so when every execution returns it executes
  every instruction once and then asks for the verdict once.
\<close>

lemma fst_send_v3 [simp]: "fst (send_v3 env phone_number message st) = fst st"
  by (simp add: send_v3_def)

lemma fst_send_detailed_assessment [simp]:
  "fst (send_detailed_assessment env phone_number data st) = fst st"
  by (simp add: send_detailed_assessment_def Let_def)

lemma fst_send_agent_results [simp]:
  "fst (send_agent_results env phone_number results final_verdict st) = fst st"
  by (simp add: send_agent_results_def Let_def split: list.splits sub_agent_result.splits)

lemma execute_instructions_calls:
  "\<forall>instr\<in>set instrs.
      \<exists>result. snd (execute_sub_agent_instruction (v3_host env) instr None) = Inr result
   \<Longrightarrow> \<exists>st' results'. execute_instructions env phone_number instrs results st
                        = (st', Inr results')
        \<and> calls_of (fst st') = calls_of (fst st) @ map ExecuteInstruction instrs"
proof (induction instrs arbitrary: results st)
  case Nil
  then show ?case by simp
next
  case (Cons instr instrs)
  obtain ev result where x:
    "execute_sub_agent_instruction (v3_host env) instr None = (ev, Inr result)"
    using Cons.prems by (cases "execute_sub_agent_instruction (v3_host env) instr None") auto
  have p: "calls_of ev = []"
    using execute_sub_agent_instruction_prints [of "v3_host env" instr None] x by simp
  let ?name = "get_or (agent_name instr) (U ''Unknown'')"
  let ?skill = "get_or (ctx_skill_to_assess (context_of instr)) (U ''Unknown'')"
  let ?st1 = "send_v3 env phone_number
                ([287, 376, 164, 8211] @ U '' '' @ ?name @ U '' analyzing '' @ ?skill @ U ''...'')
                st"
  let ?st2 = "(fst ?st1 @ [ExecuteInstruction instr] @ ev, snd ?st1)"
  let ?acc = "results @ [\<lparr>rec_agent_name = Some ?name, rec_skill_assessed = Some ?skill,
                            rec_result = result\<rparr>]"
  from Cons.IH [of ?acc ?st2] Cons.prems obtain st' results' where
    r: "execute_instructions env phone_number instrs ?acc ?st2 = (st', Inr results')"
    and c: "calls_of (fst st') = calls_of (fst ?st2) @ map ExecuteInstruction instrs"
    by auto
  have "calls_of (fst ?st2) = calls_of (fst st) @ [ExecuteInstruction instr]"
    using p by (simp add: calls_of_def)
  with r c x show ?case by (simp add: Let_def)
qed

lemma execute_sub_agents_and_respond_calls:
  assumes "\<forall>instr\<in>set (first_instr # instrs).
      \<exists>result. snd (execute_sub_agent_instruction (v3_host env) instr None) = Inr result"
  shows "\<exists>results.
     calls_of (fst (execute_sub_agents_and_respond env phone_number (first_instr # instrs) st))
       = calls_of (fst st) @ map ExecuteInstruction (first_instr # instrs)
           @ [GetFinalVerdict (get_or (ctx_role (context_of first_instr)) (U ''Unknown''))
                results]"
proof -
  let ?st1 = "send_v3 env phone_number
                ([287, 376, 8221, 167] @ U '' Executing specialized sub-agents...'') st"
  from execute_instructions_calls [OF assms, of phone_number "[]" ?st1]
  obtain st' results' where
    r: "execute_instructions env phone_number (first_instr # instrs) [] ?st1 = (st', Inr results')"
    and c: "calls_of (fst st') = calls_of (fst ?st1) @ map ExecuteInstruction (first_instr # instrs)"
    by blast
  show ?thesis
    using r c
    by (intro exI [of _ results'])
       (auto simp: execute_sub_agents_and_respond_def Let_def calls_of_def
          simp del: execute_instructions.simps split: sum.splits)
qed
section \<open>The dispatch of an inbound message\<close>

lemma image_not_audio:
  "startswith s (U ''audio/'') \<Longrightarrow> \<not> startswith s (U ''image/'')"
  by (cases s) (auto simp: startswith_def U_def)

lemma example_phone:
  "replace (U ''whatsapp:+15551234567'') whatsapp_prefix [] = U ''+15551234567''"
proof -
  have "U ''whatsapp:+15551234567'' = whatsapp_prefix @ U ''+15551234567''"
    by (simp add: U_def whatsapp_prefix_def)
  moreover have "\<not> contains (U ''+15551234567'') whatsapp_prefix"
    by (simp add: U_def whatsapp_prefix_def startswith_def)
  ultimately show ?thesis
    by (simp add: replace_at_occurrence replace_no_occurrence whatsapp_prefix_not_Nil)
qed

lemmas int_parts =
  py_int_def ascii_int_def sign_and_digits_def ascii_space_def ascii_digit_def
  int_of_digits_def int_max_str_digits_def is_space_def decimal_value_def decimal_ranges_def

lemma py_int_one: "py_int (U ''1'') = Some 1"
  by (simp add: int_parts U_def)

lemma py_int_examples:
  "py_int (U ''abc'') = None" "py_int (U ''0'') = Some 0"
  by (simp_all add: int_parts U_def)

text \<open>
  \<^verbatim>\<open>int\<close> reads the decimal digits of every script and the whitespace of
  \<^verbatim>\<open>str.isspace\<close> outside ASCII, but not the separators U+001C to U+001F.
\<close>

lemma py_int_unicode:
  "py_int [1633] = Some 1" "py_int [28, 49] = None" "py_int [160, 43, 49, 95, 48, 12288] = Some 10"
  "py_int (U ''1__0'') = None" "py_int (U ''- 1'') = None" "py_int [] = None"
  by (simp_all add: int_parts U_def)

text \<open>
  C5, as stated, fails: a message with media whose content type begins with neither
  \<^verbatim>\<open>image/\<close> nor \<^verbatim>\<open>audio/\<close> reaches none of the three handlers of \<^verbatim>\<open>whatsapp_app.py\<close>.
  The user is sent a notice, the body is not handled as text, and no agent is called.
\<close>

theorem unsupported_media_counterexample:
  "classify (media_form (U ''video/mp4'')) = UnsupportedMedia (U ''+15551234567'')
   \<and> handle_twilio_webhook_v3 (example_v3 (example_master None)) (media_form (U ''video/mp4''))
         ([], [])
       = (([], [\<lparr>msg_from = Some (U ''whatsapp:+14155238886''),
                  msg_body = unsupported_message,
                  msg_to = U ''whatsapp:+15551234567''\<rparr>]), [])"
proof -
  have c: "classify (media_form (U ''video/mp4'')) = UnsupportedMedia (U ''+15551234567'')"
    by (simp add: classify_def media_form_def py_int_one example_phone)
       (simp add: U_def startswith_def)
  have r: "whatsapp_recipient (U ''+14155238886'') = U ''whatsapp:+14155238886''"
       "whatsapp_recipient (U ''+15551234567'') = U ''whatsapp:+15551234567''"
    by (simp_all add: whatsapp_recipient_def U_def whatsapp_prefix_def startswith_def)
  show ?thesis
    by (simp add: c handle_twilio_webhook_v3_def send_v3_def send_message_v3_def example_v3_def
        example_api_def r)
qed

text \<open>
  C5, amended. With \<^verbatim>\<open>NumMedia\<close> read as an integer, \<^verbatim>\<open>whatsapp_app.py\<close> runs exactly one
  of four branches: for media (a positive \<^verbatim>\<open>NumMedia\<close> and a media URL) the image
  handler when the content type begins with \<^verbatim>\<open>image/\<close>, the voice handler when it begins
  with \<^verbatim>\<open>audio/\<close>, and otherwise only a notice to the user, with no call to the agents;
  for everything else the text handler, with the body. \<^verbatim>\<open>agent.py\<close> runs its image
  handler for all media and its text handler for everything else. When \<^verbatim>\<open>int\<close> rejects
  \<^verbatim>\<open>NumMedia\<close> no handler runs. The reply is an empty response on every path.
\<close>

theorem webhook_dispatch:
  "(let num_media = py_int (form_get (form_NumMedia form) (U ''0''));
        phone_number = replace (form_get (form_From form) []) whatsapp_prefix [];
        media_url = form_get (form_MediaUrl0 form) [];
        content_type = form_get (form_MediaContentType0 form) [];
        body = form_get (form_Body form) [];
        has_media = (\<exists>n. num_media = Some n \<and> n > 0) \<and> media_url \<noteq> []
    in (num_media = None \<longrightarrow>
          handle_twilio_webhook_v3 env form st = (st, [])
          \<and> handle_twilio_webhook env' form outbox = (outbox, []))
       \<and> (has_media \<and> startswith content_type (U ''image/'') \<longrightarrow>
            handle_twilio_webhook_v3 env form st
              = (handle_image_message env phone_number media_url body st, []))
       \<and> (has_media \<and> startswith content_type (U ''audio/'') \<longrightarrow>
            handle_twilio_webhook_v3 env form st
              = (handle_voice_message env phone_number media_url st, []))
       \<and> (has_media \<and> \<not> startswith content_type (U ''image/'')
              \<and> \<not> startswith content_type (U ''audio/'') \<longrightarrow>
            handle_twilio_webhook_v3 env form st
              = (send_v3 env phone_number unsupported_message st, [])
            \<and> fst (fst (handle_twilio_webhook_v3 env form st)) = fst st)
       \<and> (num_media \<noteq> None \<and> \<not> has_media \<longrightarrow>
            handle_twilio_webhook_v3 env form st
              = (handle_text_message_v3 env phone_number body st, [])
            \<and> handle_twilio_webhook env' form outbox
              = (handle_text_message env' phone_number body outbox, []))
       \<and> (has_media \<longrightarrow>
            handle_twilio_webhook env' form outbox
              = (handle_twilio_image_message env' phone_number media_url outbox, [])))"
proof -
  show ?thesis
  proof (cases "py_int (form_get (form_NumMedia form) (U ''0''))")
    case None
    then show ?thesis
      by (simp add: Let_def handle_twilio_webhook_v3_def classify_def handle_twilio_webhook_def)
  next
    case (Some n)
    then show ?thesis
      by (auto simp: Let_def handle_twilio_webhook_v3_def classify_def handle_twilio_webhook_def
          send_v3_def dest: image_not_audio)
  qed
qed

text \<open>
  The theorem at a form whose media count is no number, at forms with an image, a voice
  note and a video, and at a form without media.
\<close>

theorem webhook_dispatch_witness:
  "(let env = example_v3 (example_master None); env' = example_agent (U ''Rating: 8'');
        phone = U ''+15551234567''; url = U ''https://api.twilio.com/m1''
    in py_int (U ''abc'') = None
       \<and> handle_twilio_webhook_v3 env (plain_form (Some (U ''abc''))) ([], []) = (([], []), [])
       \<and> handle_twilio_webhook env' (plain_form (Some (U ''abc''))) [] = ([], [])
       \<and> py_int (U ''1'') = Some 1
       \<and> startswith (U ''image/jpeg'') (U ''image/'')
       \<and> handle_twilio_webhook_v3 env (media_form (U ''image/jpeg'')) ([], [])
           = (handle_image_message env phone url (U ''my work'') ([], []), [])
       \<and> startswith (U ''audio/ogg'') (U ''audio/'')
       \<and> handle_twilio_webhook_v3 env (media_form (U ''audio/ogg'')) ([], [])
           = (handle_voice_message env phone url ([], []), [])
       \<and> handle_twilio_webhook env' (media_form (U ''audio/ogg'')) []
           = (handle_twilio_image_message env' phone url [], [])
       \<and> \<not> startswith (U ''video/mp4'') (U ''image/'')
       \<and> \<not> startswith (U ''video/mp4'') (U ''audio/'')
       \<and> handle_twilio_webhook_v3 env (media_form (U ''video/mp4'')) ([], [])
           = (send_v3 env phone unsupported_message ([], []), [])
       \<and> py_int (U ''0'') = Some 0
       \<and> handle_twilio_webhook_v3 env (plain_form None) ([], [])
           = (handle_text_message_v3 env phone (U ''hello'') ([], []), [])
       \<and> handle_twilio_webhook env' (plain_form None) []
           = (handle_text_message env' phone (U ''hello'') [], []))"
proof -
  let ?env = "example_v3 (example_master None)"
  let ?env' = "example_agent (U ''Rating: 8'')"
  note ev = media_form_def plain_form_def py_int_one py_int_examples example_phone
  have pre: "startswith (U ''image/jpeg'') (U ''image/'')"
    "startswith (U ''audio/ogg'') (U ''audio/'')"
    "\<not> startswith (U ''video/mp4'') (U ''image/'')"
    "\<not> startswith (U ''video/mp4'') (U ''audio/'')"
    "\<not> startswith (U ''audio/ogg'') (U ''image/'')"
    by (simp_all add: U_def startswith_def)
  have url: "U ''https://api.twilio.com/m1'' \<noteq> []"
    by (simp add: U_def)
  have bad: "handle_twilio_webhook_v3 ?env (plain_form (Some (U ''abc''))) ([], []) = (([], []), [])
       \<and> handle_twilio_webhook ?env' (plain_form (Some (U ''abc''))) [] = ([], [])"
    using webhook_dispatch [of "plain_form (Some (U ''abc''))" ?env "([], [])" ?env' "[]"]
    by (simp add: Let_def ev)
  have image: "handle_twilio_webhook_v3 ?env (media_form (U ''image/jpeg'')) ([], [])
           = (handle_image_message ?env (U ''+15551234567'') (U ''https://api.twilio.com/m1'')
                (U ''my work'') ([], []), [])"
    using webhook_dispatch [of "media_form (U ''image/jpeg'')" ?env "([], [])" ?env' "[]"]
    by (simp add: Let_def ev pre url)
  have audio: "handle_twilio_webhook_v3 ?env (media_form (U ''audio/ogg'')) ([], [])
           = (handle_voice_message ?env (U ''+15551234567'') (U ''https://api.twilio.com/m1'')
                ([], []), [])
       \<and> handle_twilio_webhook ?env' (media_form (U ''audio/ogg'')) []
           = (handle_twilio_image_message ?env' (U ''+15551234567'')
                (U ''https://api.twilio.com/m1'') [], [])"
    using webhook_dispatch [of "media_form (U ''audio/ogg'')" ?env "([], [])" ?env' "[]"]
    by (simp add: Let_def ev pre url)
  have video: "handle_twilio_webhook_v3 ?env (media_form (U ''video/mp4'')) ([], [])
           = (send_v3 ?env (U ''+15551234567'') unsupported_message ([], []), [])"
    using webhook_dispatch [of "media_form (U ''video/mp4'')" ?env "([], [])" ?env' "[]"]
    by (simp add: Let_def ev pre url)
  have plain: "handle_twilio_webhook_v3 ?env (plain_form None) ([], [])
           = (handle_text_message_v3 ?env (U ''+15551234567'') (U ''hello'') ([], []), [])
       \<and> handle_twilio_webhook ?env' (plain_form None) []
           = (handle_text_message ?env' (U ''+15551234567'') (U ''hello'') [], [])"
    using webhook_dispatch [of "plain_form None" ?env "([], [])" ?env' "[]"]
    by (simp add: Let_def ev)
  from bad image audio video plain pre py_int_one py_int_examples
  show ?thesis by (simp add: Let_def)
qed

section \<open>Where the verdict comes from\<close>




section \<open>Exceptions while handling a message\<close>


text \<open>
  The whole path of \<^verbatim>\<open>handle_twilio_image_message\<close>: when the image is downloaded, the
  analysis has the keys of an assessment and the report is made without an exception,
  the user is sent the notice, the report and the encouragement.
\<close>

lemma image_message_relays_report:
  assumes "media_get env media_url (account_sid (twilio env), auth_token (twilio env))
             = Inr response"
    and "status_code response = 200"
    and "assessment_of phone_number media_url
           (analyze_stitching (gemini env) (resp_content response)) = Inr assessment"
    and "report (repr_of env) assessment = Inr body"
    and "encouragement (quality_rating assessment) = Inr message"
  shows "handle_twilio_image_message env phone_number media_url outbox
           = outbox @ [\<lparr>msg_from = from_number (twilio env), msg_body = analyzing_message,
                          msg_to = whatsapp_recipient phone_number\<rparr>,
                       \<lparr>msg_from = from_number (twilio env), msg_body = body,
                          msg_to = whatsapp_recipient phone_number\<rparr>,
                       \<lparr>msg_from = from_number (twilio env), msg_body = message,
                          msg_to = whatsapp_recipient phone_number\<rparr>]"
  using assms
  by (simp add: handle_twilio_image_message_def send_assessment_report_def send_message_def
      Let_def)




end
